theory Spec2Isabelle
  imports Complex_Main "HOL-Library.Sublist"
begin

section \<open>Conventions of the embedding\<close>

text \<open>
  The program is TypeScript. A JavaScript string is modelled as a \<^typ>\<open>string\<close>, one
  \<^typ>\<open>char\<close> per UTF-16 code unit below 256, so that \<^term>\<open>length\<close> is the
  \<open>.length\<close> of the source. A JavaScript number that the code only uses as an integer
  (lengths, token counts, budgets, milliseconds) is an \<^typ>\<open>int\<close>; where the source
  divides or multiplies by a fraction the model goes through \<^typ>\<open>real\<close> and rounds
  as the source does. An optional field or parameter is an \<^typ>\<open>'a option\<close>.
\<close>

subsection \<open>Numbers in template literals\<close>

definition digit_char :: "nat \<Rightarrow> char" where
  "digit_char d = ''0123456789'' ! d"

fun nat_digits :: "nat \<Rightarrow> string" where
  "nat_digits n =
     (if n < 10 then [digit_char n]
      else nat_digits (n div 10) @ [digit_char (n mod 10)])"

declare nat_digits.simps [simp del]

definition number_toString :: "int \<Rightarrow> string" where
  "number_toString i =
     (if i < 0 then CHR ''-'' # nat_digits (nat (- i)) else nat_digits (nat i))"

subsection \<open>String primitives of the JavaScript library\<close>

definition substring_from :: "string \<Rightarrow> int \<Rightarrow> string" where
  \<comment> \<open>\<open>s.substring(start)\<close>: a negative start counts as 0, one past the end as the end.\<close>
  "substring_from s start = drop (nat start) s"

definition substring :: "string \<Rightarrow> int \<Rightarrow> int \<Rightarrow> string" where
  \<comment> \<open>\<open>s.substring(a, b)\<close>: both indices are clamped to the string and swapped when \<open>a > b\<close>.\<close>
  "substring s a b =
     (let n = int (length s);
          a' = max 0 (min a n);
          b' = max 0 (min b n);
          lo = min a' b';
          hi = max a' b'
      in take (nat (hi - lo)) (drop (nat lo) s))"

definition startsWith :: "string \<Rightarrow> string \<Rightarrow> bool" where
  "startsWith s p = (take (length p) s = p)"

fun str_includes :: "string \<Rightarrow> string \<Rightarrow> bool" where
  "str_includes [] p = (p = [])"
| "str_includes (c # cs) p = (startsWith (c # cs) p \<or> str_includes cs p)"

definition join_with :: "string \<Rightarrow> string list \<Rightarrow> string" where
  \<comment> \<open>\<open>xs.join(sep)\<close>\<close>
  "join_with sep xs = (case xs of [] \<Rightarrow> [] | y # ys \<Rightarrow> y @ concat (map (\<lambda>z. sep @ z) ys))"

definition is_line_terminator :: "char \<Rightarrow> bool" where
  \<comment> \<open>what \<open>.\<close> does not match and where \<open>^\<close>, \<open>$\<close> anchor under the \<open>m\<close> flag\<close>
  "is_line_terminator c = (c = CHR 0x0A \<or> c = CHR 0x0D)"

definition is_js_space :: "char \<Rightarrow> bool" where
  \<comment> \<open>the class \<open>\s\<close>, and what \<open>trim\<close> strips, among the code units below 256\<close>
  "is_js_space c = (c \<in> {CHR 0x09, CHR 0x0A, CHR 0x0B, CHR 0x0C, CHR 0x0D, CHR 0x20, CHR 0xA0})"

definition is_blank :: "char \<Rightarrow> bool" where
  \<comment> \<open>the class \<open>[ \t]\<close>\<close>
  "is_blank c = (c = CHR 0x20 \<or> c = CHR 0x09)"

definition is_word_char :: "char \<Rightarrow> bool" where
  \<comment> \<open>the class \<open>\w\<close>\<close>
  "is_word_char c =
     (let n = of_char c :: nat
      in (48 \<le> n \<and> n \<le> 57) \<or> (65 \<le> n \<and> n \<le> 90) \<or> (97 \<le> n \<and> n \<le> 122) \<or> n = 95)"

definition to_lower_char :: "char \<Rightarrow> char" where
  "to_lower_char c =
     (let n = of_char c :: nat
      in if (65 \<le> n \<and> n \<le> 90) \<or> (192 \<le> n \<and> n \<le> 222 \<and> n \<noteq> 215) then char_of (n + 32) else c)"

definition toLowerCase :: "string \<Rightarrow> string" where
  "toLowerCase s = map to_lower_char s"

section \<open>Data model (types/index.ts)\<close>

datatype message_role = User | Assistant

record git_info =
  branch :: string
  hasChanges :: bool
  recentCommits :: "string list option"

record spec_info =
  currentSpec :: "string option"
  phase :: "string option"
  spec_context :: "string option"

text \<open>
  A field of \<open>ChatContext\<close> is optional: the object may lack it, hold it with the value
  \<open>undefined\<close>, or hold it with a value. The test \<open>if (x.f)\<close> does not tell the first
  two apart, the object spread of \<open>sendMessage\<close> does, so the model keeps all three.
  The other optional fields are only read, and are options.
\<close>

datatype 'a property = Absent | Undefined | Present 'a

record chat_context =
  activeFile :: "string property"
  selectedText :: "string property"
  workspaceFiles :: "string list property"
  gitStatus :: "git_info property"
  specContext :: "spec_info property"

record message_metadata =
  tokenCount :: "int option"
  processingTime :: "int option"
  model :: "string option"
  truncated :: "bool option"

record chat_message =
  msg_id :: string
  role :: message_role
  content :: string
  timestamp :: int
  msg_context :: "chat_context option"
  metadata :: "message_metadata option"

section \<open>TokenManager\<close>

record token_manager =
  maxTokens :: int
  contextWindow :: int

definition CHARS_PER_TOKEN :: int where
  "CHARS_PER_TOKEN = 4"

text \<open>
  \<open>MAX_CONTEXT_RATIO = 0.7\<close> is a double, the fraction \<open>3152519739159347 / 2^52\<close>,
  and \<open>contextWindow * MAX_CONTEXT_RATIO\<close> is the double nearest to the exact product
  (ties to the even significand): the exact product of an integer and the numerator,
  rounded to 53 significant bits. The context window is taken to be an integer a double
  holds exactly.
\<close>

definition MAX_CONTEXT_RATIO_numerator :: nat where
  "MAX_CONTEXT_RATIO_numerator = 3152519739159347"

definition MAX_CONTEXT_RATIO :: real where
  "MAX_CONTEXT_RATIO = real MAX_CONTEXT_RATIO_numerator / 2 ^ 52"

fun bit_length :: "nat \<Rightarrow> nat" where
  "bit_length n = (if n = 0 then 0 else Suc (bit_length (n div 2)))"

declare bit_length.simps [simp del]

definition round_to_53_bits :: "nat \<Rightarrow> nat" where
  "round_to_53_bits n =
     (let k = bit_length n - 53;
          q = n div 2 ^ k;
          r = n mod 2 ^ k
      in if 2 * r > 2 ^ k \<or> (2 * r = 2 ^ k \<and> odd q) then (q + 1) * 2 ^ k else q * 2 ^ k)"

definition times_MAX_CONTEXT_RATIO :: "int \<Rightarrow> real" where
  \<comment> \<open>the double \<open>n * MAX_CONTEXT_RATIO\<close>\<close>
  "times_MAX_CONTEXT_RATIO n =
     (let m = round_to_53_bits (nat \<bar>n\<bar> * MAX_CONTEXT_RATIO_numerator)
      in (if n < 0 then - real m else real m) / 2 ^ 52)"

definition estimateTokens :: "string \<Rightarrow> int" where
  "estimateTokens text =
     (if text = [] then 0 else \<lceil>real (length text) / real_of_int CHARS_PER_TOKEN\<rceil>)"

definition truthy_string :: "string property \<Rightarrow> string option" where
  \<comment> \<open>\<open>if (s)\<close> for an optional string: the string when it is present and non-empty\<close>
  "truthy_string s = (case s of Present t \<Rightarrow> if t \<noteq> [] then Some t else None | _ \<Rightarrow> None)"

definition calculateMessageTokens :: "chat_message \<Rightarrow> int" where
  "calculateMessageTokens message =
     4 + estimateTokens (content message) +
     (case msg_context message of
        None \<Rightarrow> 0
      | Some c \<Rightarrow>
          (case truthy_string (activeFile c) of Some f \<Rightarrow> estimateTokens f | None \<Rightarrow> 0) +
          (case truthy_string (selectedText c) of Some t \<Rightarrow> estimateTokens t | None \<Rightarrow> 0) +
          (case workspaceFiles c of
             Present files \<Rightarrow> foldl (\<lambda>sum file. sum + estimateTokens file) 0 files
           | _ \<Rightarrow> 0))"

subsection \<open>History optimisation\<close>

definition empty_metadata :: message_metadata where
  "empty_metadata = \<lparr>tokenCount = None, processingTime = None, model = None, truncated = None\<rparr>"

definition truncateMessage :: "chat_message \<Rightarrow> int \<Rightarrow> chat_message option" where
  "truncateMessage message maxTok =
     (let baseTokens = 10;
          availableContentTokens = maxTok - baseTokens
      in if availableContentTokens < 20 then None
         else
           let maxContentLength = availableContentTokens * CHARS_PER_TOKEN
           in if int (length (content message)) \<le> maxContentLength then Some message
              else Some (message
                     \<lparr>content := substring (content message) 0 (maxContentLength - 20) @ ''... [truncated]'',
                      metadata := Some ((case metadata message of None \<Rightarrow> empty_metadata | Some md \<Rightarrow> md)
                                          \<lparr>truncated := Some True\<rparr>)\<rparr>))"

text \<open>
  The loop of \<open>optimizeConversationHistory\<close> walks \<open>remainingMessages\<close> from its last
  index down to 0; the model walks the reversed list. \<open>unshift\<close> is a cons, \<open>break\<close>
  ends the recursion.
\<close>

fun history_loop :: "int \<Rightarrow> int \<Rightarrow> chat_message list \<Rightarrow> chat_message list \<Rightarrow> chat_message list" where
  "history_loop maxTok totalTokens [] optimizedMessages = optimizedMessages"
| "history_loop maxTok totalTokens (message # older) optimizedMessages =
     (let messageTokens = calculateMessageTokens message
      in if totalTokens + messageTokens \<le> maxTok
         then history_loop maxTok (totalTokens + messageTokens) older (message # optimizedMessages)
         else
           let availableTokens = maxTok - totalTokens
           in if availableTokens > 50
              then (case truncateMessage message availableTokens of
                      Some truncatedMessage \<Rightarrow> truncatedMessage # optimizedMessages
                    | None \<Rightarrow> optimizedMessages)
              else optimizedMessages)"

definition or_default :: "int option \<Rightarrow> int \<Rightarrow> int" where
  \<comment> \<open>\<open>x || d\<close> for an optional number: absent and 0 give the default\<close>
  "or_default x d = (case x of None \<Rightarrow> d | Some v \<Rightarrow> if v = 0 then d else v)"

definition optimizeConversationHistory ::
  "token_manager \<Rightarrow> chat_message list \<Rightarrow> int option \<Rightarrow> chat_message list" where
  "optimizeConversationHistory tm messages maxHistoryTokens =
     (let maxTok = or_default maxHistoryTokens \<lfloor>times_MAX_CONTEXT_RATIO (contextWindow tm)\<rfloor>
      in if messages = [] then messages
         else
           let lastMessage = last messages;
               remainingMessages = butlast messages;
               totalTokens = calculateMessageTokens lastMessage
           in history_loop maxTok totalTokens (rev remainingMessages) [lastMessage])"

subsection \<open>Regular expressions of \<open>removeNonEssentialContent\<close>\<close>

text \<open>
  The four patterns of the source, each written as the function the regular-expression
  engine computes for it. Under the \<open>m\<close> flag \<open>^\<close> and \<open>$\<close> anchor at line
  terminators and \<open>.\<close> does not cross one, so the two line patterns match whole lines.
\<close>

fun lines_aux :: "string \<Rightarrow> string \<Rightarrow> string list" where
  "lines_aux cur [] = [rev cur]"
| "lines_aux cur (c # cs) =
     (if is_line_terminator c then rev cur # lines_aux [] cs else lines_aux (c # cur) cs)"

fun map_lines_aux :: "(string \<Rightarrow> string) \<Rightarrow> string \<Rightarrow> string \<Rightarrow> string" where
  "map_lines_aux f cur [] = f (rev cur)"
| "map_lines_aux f cur (c # cs) =
     (if is_line_terminator c then f (rev cur) @ c # map_lines_aux f [] cs
      else map_lines_aux f (c # cur) cs)"

definition is_comment_line :: "string \<Rightarrow> bool" where
  \<comment> \<open>\<open>/^[ \t]*(?:#|\/\/).*$/gm\<close>\<close>
  "is_comment_line l = (let r = dropWhile is_blank l in startsWith r ''#'' \<or> startsWith r ''//'')"

definition is_import_line :: "string \<Rightarrow> bool" where
  \<comment> \<open>\<open>/^import.*?;$/gm\<close>\<close>
  "is_import_line l = (startsWith l ''import'' \<and> 7 \<le> length l \<and> last l = CHR '';'')"

definition match_lines :: "(string \<Rightarrow> bool) \<Rightarrow> string \<Rightarrow> string list" where
  \<comment> \<open>\<open>s.match(pattern)\<close>; the empty list stands for \<open>null\<close>\<close>
  "match_lines P s = filter P (lines_aux [] s)"

definition remove_lines :: "(string \<Rightarrow> bool) \<Rightarrow> string \<Rightarrow> string" where
  \<comment> \<open>\<open>s.replace(pattern, '')\<close>: a matching line becomes empty, its terminator stays\<close>
  "remove_lines P s = map_lines_aux (\<lambda>l. if P l then [] else l) [] s"

definition newline_span :: "string \<Rightarrow> nat" where
  \<comment> \<open>the length of a run up to and including its last newline\<close>
  "newline_span run = length run - length (takeWhile (\<lambda>c. c \<noteq> CHR 0x0A) (rev run))"

fun collapse_blank_lines :: "string \<Rightarrow> string" where
  \<comment> \<open>\<open>s.replace(/\n\s*\n\s*\n/g, '\n\n')\<close>\<close>
  "collapse_blank_lines [] = []"
| "collapse_blank_lines (c # cs) =
     (if c = CHR 0x0A \<and> 2 \<le> length (filter (\<lambda>d. d = CHR 0x0A) (takeWhile is_js_space cs))
      then CHR 0x0A # CHR 0x0A # collapse_blank_lines (drop (newline_span (takeWhile is_js_space cs)) cs)
      else c # collapse_blank_lines cs)"

function collapse_blanks :: "string \<Rightarrow> string" where
  \<comment> \<open>\<open>s.replace(/[ \t]+/g, ' ')\<close>\<close>
  "collapse_blanks [] = []"
| "collapse_blanks (c # cs) =
     (if is_blank c then CHR '' '' # collapse_blanks (dropWhile is_blank cs)
      else c # collapse_blanks cs)"
  by pat_completeness auto
termination
  by (relation "measure length") (auto simp: less_Suc_eq_le length_dropWhile_le)

subsection \<open>Prompt optimisation\<close>

record optimization_result =
  optimizedPrompt :: string
  removedContent :: "string list"
  tokensSaved :: int

definition sum_tokens :: "string list \<Rightarrow> int" where
  \<comment> \<open>\<open>xs.reduce((sum, x) => sum + this.estimateTokens(x), 0)\<close>\<close>
  "sum_tokens xs = foldl (\<lambda>sum x. sum + estimateTokens x) 0 xs"

definition removeNonEssentialContent :: "string \<Rightarrow> int \<Rightarrow> string list \<Rightarrow> string \<times> string list" where
  "removeNonEssentialContent context' tokensToSave removed =
     (let comments = match_lines is_comment_line context';
          (optimized1, saved1, removed1) =
            (if comments \<noteq> [] \<and> 0 < tokensToSave
             then (remove_lines is_comment_line context',
                   0 + sum_tokens comments,
                   removed @ [''Removed '' @ number_toString (int (length comments)) @ '' comment lines''])
             else (context', 0, removed));
          (optimized2, saved2, removed2) =
            (if saved1 < tokensToSave
             then
               let beforeWhitespace = int (length optimized1);
                   compressed = collapse_blanks (collapse_blank_lines optimized1);
                   afterWhitespace = int (length compressed);
                   whitespaceTokens = estimateTokens (replicate (nat (beforeWhitespace - afterWhitespace)) CHR '' '')
               in (compressed, saved1 + whitespaceTokens,
                   if beforeWhitespace \<noteq> afterWhitespace then removed1 @ [''Compressed whitespace''] else removed1)
             else (optimized1, saved1, removed1));
          (optimized3, removed3) =
            (if saved2 < tokensToSave
             then
               let imports = match_lines is_import_line optimized2
               in if imports \<noteq> []
                  then (remove_lines is_import_line optimized2,
                        removed2 @ [''Removed '' @ number_toString (int (length imports)) @ '' import statements''])
                  else (optimized2, removed2)
             else (optimized2, removed2))
      in (optimized3, removed3))"

text \<open>
  Strategy 1 of \<open>optimizePrompt\<close> (the block under the comment \<open>Strategy 1\<close>), on the
  three variables it reads and writes: \<open>optimizedContext\<close>, \<open>removedContent\<close> and
  \<open>tokensToSave\<close>.
\<close>

definition strategy1 :: "string \<Rightarrow> string list \<Rightarrow> int \<Rightarrow> string \<times> string list \<times> int" where
  "strategy1 optimizedContext removed tokensToSave =
     (if tokensToSave > 0
      then
        let contextTokens = estimateTokens optimizedContext
        in if contextTokens > tokensToSave
           then
             let targetContextLength = (contextTokens - tokensToSave) * CHARS_PER_TOKEN;
                 truncated' = substring_from optimizedContext (contextTokens - targetContextLength)
             in (truncated',
                 removed @ [''Truncated '' @ number_toString (int (length optimizedContext) - int (length truncated'))
                              @ '' characters from context''],
                 tokensToSave - (contextTokens - estimateTokens truncated'))
           else (optimizedContext, removed, tokensToSave)
      else (optimizedContext, removed, tokensToSave))"

definition optimizePrompt :: "token_manager \<Rightarrow> string \<Rightarrow> string \<Rightarrow> int option \<Rightarrow> optimization_result" where
  "optimizePrompt tm prompt context' maxTok =
     (let targetTokens = or_default maxTok (maxTokens tm);
          currentTokens = estimateTokens (prompt @ context')
      in if currentTokens \<le> targetTokens
         then \<lparr>optimizedPrompt = prompt, removedContent = [], tokensSaved = 0\<rparr>
         else
           let (optimizedContext1, removed1, tokensToSave1) =
                 strategy1 context' [] (currentTokens - targetTokens);
               (optimizedContext2, removed2) =
                 (if tokensToSave1 > 0
                  then removeNonEssentialContent optimizedContext1 tokensToSave1 removed1
                  else (optimizedContext1, removed1));
               finalTokens = estimateTokens (prompt @ optimizedContext2)
           in \<lparr>optimizedPrompt = prompt, removedContent = removed2,
               tokensSaved = currentTokens - finalTokens\<rparr>)"

section \<open>LLMService: token-budget entry point\<close>

record token_info =
  original :: int
  optimized :: int
  saved :: int

record llm_optimization =
  res_optimizedPrompt :: string
  res_optimizedContext :: string
  res_optimizedHistory :: "chat_message list"
  res_tokenInfo :: token_info

definition history_tokens :: "chat_message list \<Rightarrow> int" where
  \<comment> \<open>\<open>history.reduce((sum, msg) => sum + calculateMessageTokens(msg), 0)\<close>\<close>
  "history_tokens h = foldl (\<lambda>sum msg. sum + calculateMessageTokens msg) 0 h"

definition optimizeForTokenLimits ::
  "token_manager \<Rightarrow> string \<Rightarrow> string \<Rightarrow> chat_message list \<Rightarrow> llm_optimization" where
  "optimizeForTokenLimits tm prompt context' history =
     (let optimizedHistory = optimizeConversationHistory tm history None;
          optimization = optimizePrompt tm prompt context' None;
          originalTokens = estimateTokens (prompt @ context') + history_tokens history;
          optimizedTokens = estimateTokens (optimizedPrompt optimization @ context')
                            + history_tokens optimizedHistory
      in \<lparr>res_optimizedPrompt = optimizedPrompt optimization,
          res_optimizedContext = context',
          res_optimizedHistory = optimizedHistory,
          res_tokenInfo = \<lparr>original = originalTokens, optimized = optimizedTokens,
                           saved = originalTokens - optimizedTokens\<rparr>\<rparr>)"

section \<open>LLMService: the streamed response\<close>

text \<open>
  A value thrown in JavaScript is either an \<open>Error\<close> object, with its \<open>name\<close> and
  \<open>message\<close>, or some other value. A function that can throw returns \<open>thrown + 'a\<close>.
\<close>

datatype thrown = JsError string string | NonError

definition new_Error :: "string \<Rightarrow> thrown" where
  "new_Error msg = JsError ''Error'' msg"

text \<open>
  The body of a response is read chunk by chunk. The model takes the reads the network
  delivers as a list: a chunk of text (what \<open>decoder.decode(value, {stream: true})\<close>
  returns for the bytes read, the decoder carrying an incomplete character over to the next
  read) or a read that throws; the end of the list is the read with \<open>done = true\<close>.
\<close>

datatype read_event = Chunk string | ReadFails thrown

record http_response =
  ok :: bool
  status :: int
  statusText :: string
  body :: "read_event list option"

record llm_config =
  apiKey :: string
  baseUrl :: string
  cfg_model :: string
  cfg_maxTokens :: int
  temperature :: real
  timeout :: int

record chat_request =
  url :: string
  authorization :: string
  req_model :: string
  req_messages :: "(string \<times> string) list"
  max_tokens :: int
  req_temperature :: real
  stream :: bool
  abort_after :: int

definition makeStreamingRequest :: "llm_config \<Rightarrow> string \<Rightarrow> string \<Rightarrow> chat_request" where
  "makeStreamingRequest cfg prompt context' =
     \<lparr>url = baseUrl cfg @ ''/chat/completions'',
      authorization = ''Bearer '' @ apiKey cfg,
      req_model = cfg_model cfg,
      req_messages =
        [(''system'', if context' \<noteq> [] then context'
                      else ''You are a helpful AI assistant integrated into the Kiro IDE.''),
         (''user'', prompt)],
      max_tokens = cfg_maxTokens cfg,
      req_temperature = temperature cfg,
      stream = True,
      abort_after = timeout cfg\<rparr>"

definition createLLMError :: "thrown \<Rightarrow> thrown" where
  "createLLMError error' =
     (case error' of
        JsError name msg \<Rightarrow>
          if name = ''AbortError''
          then new_Error ''Request timeout - the LLM service took too long to respond''
          else if str_includes msg ''401''
          then new_Error ''Authentication failed - please check your API key''
          else if str_includes msg ''429''
          then new_Error ''Rate limit exceeded - please try again later''
          else if str_includes msg ''500''
          then new_Error ''LLM service is temporarily unavailable''
          else error'
      | NonError \<Rightarrow> new_Error ''Unknown error occurred while communicating with LLM service'')"

fun split_on :: "char \<Rightarrow> string \<Rightarrow> string list" where
  \<comment> \<open>\<open>s.split(sep)\<close> for a separator of one character: never the empty list\<close>
  "split_on sep [] = [[]]"
| "split_on sep (c # cs) =
     (if c = sep then [] # split_on sep cs
      else (case split_on sep cs of [] \<Rightarrow> [[c]] | l # ls \<Rightarrow> (c # l) # ls))"

definition js_trim :: "string \<Rightarrow> string" where
  "js_trim s = rev (dropWhile is_js_space (rev (dropWhile is_js_space s)))"

text \<open>
  The inner \<open>for\<close> loop over the complete lines of one read. \<open>parse_content data\<close>
  stands for \<open>JSON.parse(data).choices?.[0]?.delta?.content\<close>: \<open>Some\<close> of the content
  when the line parses and the content is truthy, \<open>None\<close> when \<open>JSON.parse\<close> throws
  (logged and skipped) or the content is absent or empty. The loop returns the fragments it
  yields and whether it hit \<open>return\<close> on the sentinel.
\<close>

fun process_lines :: "(string \<Rightarrow> string option) \<Rightarrow> string list \<Rightarrow> string list \<times> bool" where
  "process_lines parse_content [] = ([], False)"
| "process_lines parse_content (line # rest) =
     (if js_trim line = [] then process_lines parse_content rest
      else if startsWith line ''data: ''
      then
        let data = drop 6 line
        in if data = ''[DONE]'' then ([], True)
           else (case parse_content data of
                   Some content' \<Rightarrow>
                     (case process_lines parse_content rest of (ys, returned) \<Rightarrow> (content' # ys, returned))
                 | None \<Rightarrow> process_lines parse_content rest)
      else process_lines parse_content rest)"

text \<open>
  The \<open>while (true)\<close> loop over the reads: the fragments yielded, in order, and the
  error a failing read throws, if any.
\<close>

fun read_loop :: "(string \<Rightarrow> string option) \<Rightarrow> string \<Rightarrow> read_event list \<Rightarrow> string list \<times> thrown option" where
  "read_loop parse_content buffer [] = ([], None)"
| "read_loop parse_content buffer (ReadFails e # reads) = ([], Some e)"
| "read_loop parse_content buffer (Chunk v # reads) =
     (let buffer1 = buffer @ v;
          lines = split_on (CHR 0x0A) buffer1;
          buffer2 = (if lines = [] then [] else last lines);
          lines' = butlast lines
      in case process_lines parse_content lines' of
           (ys, returned) \<Rightarrow>
             if returned then (ys, None)
             else (case read_loop parse_content buffer2 reads of (zs, r) \<Rightarrow> (ys @ zs, r)))"

record generation =
  yielded :: "string list"
  failure :: "thrown option"
  released :: nat

definition generateResponse ::
  "llm_config \<Rightarrow> (string \<Rightarrow> string option) \<Rightarrow> (chat_request \<Rightarrow> thrown + http_response) \<Rightarrow>
   string \<Rightarrow> string \<Rightarrow> generation" where
  "generateResponse cfg parse_content fetch prompt context' =
     (case fetch (makeStreamingRequest cfg prompt context') of
        Inl e \<Rightarrow> \<lparr>yielded = [], failure = Some (createLLMError e), released = 0\<rparr>
      | Inr response \<Rightarrow>
          if \<not> ok response
          then \<lparr>yielded = [],
                failure = Some (createLLMError
                  (new_Error (''HTTP '' @ number_toString (status response) @ '': '' @ statusText response))),
                released = 0\<rparr>
          else (case body response of
                  None \<Rightarrow> \<lparr>yielded = [],
                            failure = Some (createLLMError (new_Error ''No response body available'')),
                            released = 0\<rparr>
                | Some reads \<Rightarrow>
                    (case read_loop parse_content [] reads of
                       (ys, r) \<Rightarrow> \<lparr>yielded = ys, failure = map_option createLLMError r, released = 1\<rparr>)))"

section \<open>ChatManager and its collaborators\<close>

subsection \<open>Responses, actions, configuration\<close>

datatype error_type = Network | Auth | Validation | System

record error_info =
  err_type :: error_type
  err_message :: string
  err_code :: "string option"
  retryable :: bool

datatype action_type = Create_file | Modify_file | Run_command | Create_spec

datatype action_payload = File_payload string string | Empty_payload

record chat_action =
  act_type :: action_type
  payload :: action_payload
  description :: string

record chat_response =
  message :: chat_message
  suggestions :: "string list option"
  actions :: "chat_action list option"
  error :: "error_info option"

record validation_result =
  isValid :: bool
  errors :: "string list"
  warnings :: "string list"

record chat_manager_config =
  maxHistoryLength :: int
  enableContextGathering :: bool
  enableSafetyFilter :: bool
  retryAttempts :: int
  retryDelay :: int

record chat_config =
  sm_maxHistoryLength :: int
  maxTokensPerMessage :: int
  enableStreaming :: bool
  safetyLevel :: string
  autoSaveHistory :: bool

definition chatConfig :: "chat_manager_config \<Rightarrow> chat_config" where
  \<comment> \<open>the configuration the constructor of ChatManager hands to its state manager\<close>
  "chatConfig cfg =
     \<lparr>sm_maxHistoryLength = maxHistoryLength cfg, maxTokensPerMessage = 4000,
      enableStreaming = True, safetyLevel = ''moderate'', autoSaveHistory = True\<rparr>"

record conversation_state =
  conv_id :: string
  title :: string
  messages :: "chat_message list"
  createdAt :: int
  lastModified :: int
  messageCount :: int
  totalTokens :: int
  activeContext :: "string option"

subsection \<open>The collaborators and the state\<close>

text \<open>
  ChatManager sees its collaborators through interfaces only, so the model takes them as
  parameters: each call reads and changes a world \<open>'w\<close> the theory knows nothing about,
  and returns a value or a thrown one. \<open>llm_generateResponse\<close> returns the fragments the
  generator yields and, when it ends by throwing, what it throws. \<open>storage_save_conversation\<close>
  is serialisation followed by \<open>storage.save\<close>, \<open>storage_save_config\<close> the same for the
  configuration; \<open>date_now\<close> and \<open>random_suffix\<close> are \<open>Date.now()\<close> and
  \<open>Math.random().toString(36).substr(2, 9)\<close>, which do not throw.
\<close>

record 'w collaborators =
  validateRequest :: "string \<Rightarrow> 'w \<Rightarrow> (thrown + validation_result) \<times> 'w"
  sanitizeResponse :: "string \<Rightarrow> 'w \<Rightarrow> (thrown + string) \<times> 'w"
  getCurrentContext :: "'w \<Rightarrow> (thrown + chat_context) \<times> 'w"
  getRelevantContext :: "string \<Rightarrow> 'w \<Rightarrow> (thrown + string) \<times> 'w"
  llm_optimizeForTokenLimits ::
    "string \<Rightarrow> string \<Rightarrow> chat_message list \<Rightarrow> 'w \<Rightarrow> (thrown + llm_optimization) \<times> 'w"
  llm_generateResponse :: "string \<Rightarrow> string \<Rightarrow> 'w \<Rightarrow> (string list \<times> thrown option) \<times> 'w"
  llm_estimateTokens :: "string \<Rightarrow> 'w \<Rightarrow> (thrown + int) \<times> 'w"
  storage_save_conversation :: "conversation_state \<Rightarrow> 'w \<Rightarrow> (thrown + unit) \<times> 'w"
  storage_save_config :: "chat_config \<Rightarrow> 'w \<Rightarrow> (thrown + unit) \<times> 'w"
  date_now :: "'w \<Rightarrow> int \<times> 'w"
  random_suffix :: "'w \<Rightarrow> string \<times> 'w"

text \<open>
  The mutable state: the flag \<open>isProcessing\<close>, the current conversation of the state
  manager, the world of the collaborators, and a log of the delays slept
  (\<open>setTimeout\<close>). The configuration is \<open>readonly\<close> in the source and is passed beside
  the state.
\<close>

record 'w chat_manager =
  isProcessing :: bool
  currentConversation :: "conversation_state option"
  delays :: "int list"
  world :: 'w

type_synonym ('w, 'a) task = "'w chat_manager \<Rightarrow> (thrown + 'a) \<times> 'w chat_manager"

definition call :: "('w \<Rightarrow> 'a \<times> 'w) \<Rightarrow> 'w chat_manager \<Rightarrow> 'a \<times> 'w chat_manager" where
  "call f s = (case f (world s) of (r, w') \<Rightarrow> (r, s\<lparr>world := w'\<rparr>))"

definition then_do :: "('s \<Rightarrow> (thrown + 'a) \<times> 's) \<Rightarrow> ('a \<Rightarrow> 's \<Rightarrow> (thrown + 'b) \<times> 's) \<Rightarrow> 's \<Rightarrow> (thrown + 'b) \<times> 's" where
  \<comment> \<open>sequencing: a throw of the first part skips the second\<close>
  "then_do f g s = (case f s of (Inl e, s1) \<Rightarrow> (Inl e, s1) | (Inr v, s1) \<Rightarrow> g v s1)"

definition try_catch_finally ::
  "('s \<Rightarrow> (thrown + 'a) \<times> 's) \<Rightarrow> (thrown \<Rightarrow> 's \<Rightarrow> (thrown + 'a) \<times> 's) \<Rightarrow>
   ('s \<Rightarrow> (thrown + unit) \<times> 's) \<Rightarrow> 's \<Rightarrow> (thrown + 'a) \<times> 's" where
  \<comment> \<open>\<open>try { body } catch (e) { handler } finally { finalizer }\<close>: the finalizer runs on
      every path, and what it throws replaces the outcome\<close>
  "try_catch_finally body' handler finalizer s =
     (case (case body' s of (Inl e, s1) \<Rightarrow> handler e s1 | (Inr v, s1) \<Rightarrow> (Inr v, s1)) of
        (r, s2) \<Rightarrow>
          (case finalizer s2 of (Inl e', s3) \<Rightarrow> (Inl e', s3) | (Inr u, s3) \<Rightarrow> (r, s3)))"

definition error_message_or :: "thrown \<Rightarrow> string \<Rightarrow> string" where
  \<comment> \<open>\<open>error instanceof Error ? error.message : fallback\<close>\<close>
  "error_message_or e fallback = (case e of JsError name msg \<Rightarrow> msg | NonError \<Rightarrow> fallback)"

definition js_slice :: "'a list \<Rightarrow> int \<Rightarrow> int \<Rightarrow> 'a list" where
  \<comment> \<open>\<open>xs.slice(a, b)\<close>: a negative index counts from the end\<close>
  "js_slice xs a b =
     (let n = int (length xs);
          from = (if a < 0 then max (n + a) 0 else min a n);
          to = (if b < 0 then max (n + b) 0 else min b n)
      in take (nat (to - from)) (drop (nat from) xs))"

definition js_slice_from :: "'a list \<Rightarrow> int \<Rightarrow> 'a list" where
  \<comment> \<open>\<open>xs.slice(a)\<close>\<close>
  "js_slice_from xs a = js_slice xs a (int (length xs))"

subsection \<open>messageUtils\<close>

definition generateMessageId :: "'w collaborators \<Rightarrow> 'w chat_manager \<Rightarrow> string \<times> 'w chat_manager" where
  "generateMessageId c s =
     (case call (date_now c) s of
        (t, s1) \<Rightarrow>
          (case call (random_suffix c) s1 of
             (r, s2) \<Rightarrow> (''msg_'' @ number_toString t @ ''_'' @ r, s2)))"

definition create_message ::
  "message_role \<Rightarrow> 'w collaborators \<Rightarrow> string \<Rightarrow> 'w chat_manager \<Rightarrow> chat_message \<times> 'w chat_manager" where
  "create_message r c text s =
     (case generateMessageId c s of
        (i, s1) \<Rightarrow>
          (case call (date_now c) s1 of
             (t, s2) \<Rightarrow>
               (\<lparr>msg_id = i, role = r, content = text, timestamp = t,
                 msg_context = None, metadata = None\<rparr>, s2)))"

definition createUserMessage :: "'w collaborators \<Rightarrow> string \<Rightarrow> 'w chat_manager \<Rightarrow> chat_message \<times> 'w chat_manager" where
  "createUserMessage = create_message User"

definition createAssistantMessage :: "'w collaborators \<Rightarrow> string \<Rightarrow> 'w chat_manager \<Rightarrow> chat_message \<times> 'w chat_manager" where
  "createAssistantMessage = create_message Assistant"

subsection \<open>ConversationStateManager\<close>

text \<open>
  \<open>addMessage\<close> starts \<open>saveConversation\<close> without awaiting it and swallows its
  rejection; the model runs the save at once and drops its outcome.
\<close>

definition saveConfig :: "'w collaborators \<Rightarrow> chat_config \<Rightarrow> ('w, unit) task" where
  "saveConfig c scfg s =
     (case call (storage_save_config c scfg) s of (r, s1) \<Rightarrow> (Inr (), s1))"

definition saveConversation ::
  "'w collaborators \<Rightarrow> chat_config \<Rightarrow> conversation_state option \<Rightarrow> ('w, unit) task" where
  "saveConversation c scfg conversation s =
     (case (case conversation of Some cv \<Rightarrow> Some cv | None \<Rightarrow> currentConversation s) of
        None \<Rightarrow> (Inl (new_Error ''No conversation to save''), s)
      | Some conv \<Rightarrow>
          (case call (storage_save_conversation c conv) s of
             (Inl e, s1) \<Rightarrow> (Inl (new_Error ''Failed to save conversation''), s1)
           | (Inr u, s1) \<Rightarrow>
               if autoSaveHistory scfg then saveConfig c scfg s1 else (Inr (), s1)))"

definition addMessage :: "'w collaborators \<Rightarrow> chat_config \<Rightarrow> chat_message \<Rightarrow> ('w, unit) task" where
  "addMessage c scfg msg s =
     (case currentConversation s of
        None \<Rightarrow> (Inl (new_Error ''No active conversation''), s)
      | Some conv \<Rightarrow>
          (case call (date_now c) s of
             (t, s1) \<Rightarrow>
               let conv1 = conv\<lparr>messages := messages conv @ [msg]\<rparr>;
                   conv2 = conv1\<lparr>lastModified := t, messageCount := int (length (messages conv1))\<rparr>;
                   conv3 = (case metadata msg of
                              None \<Rightarrow> conv2
                            | Some md \<Rightarrow>
                                (case tokenCount md of
                                   None \<Rightarrow> conv2
                                 | Some n \<Rightarrow> if n \<noteq> 0 then conv2\<lparr>totalTokens := totalTokens conv2 + n\<rparr>
                                              else conv2));
                   s2 = s1\<lparr>currentConversation := Some conv3\<rparr>
               in if autoSaveHistory scfg
                  then (case saveConversation c scfg None s2 of (r, s3) \<Rightarrow> (Inr (), s3))
                  else (Inr (), s2)))"

definition getMessages :: "'w chat_manager \<Rightarrow> chat_message list" where
  "getMessages s = (case currentConversation s of None \<Rightarrow> [] | Some conv \<Rightarrow> messages conv)"

definition trimConversationHistory ::
  "'w collaborators \<Rightarrow> chat_config \<Rightarrow> int option \<Rightarrow> ('w, unit) task" where
  "trimConversationHistory c scfg maxMessages s =
     (case currentConversation s of
        None \<Rightarrow> (Inr (), s)
      | Some conv \<Rightarrow>
          let limit = or_default maxMessages (sm_maxHistoryLength scfg)
          in if int (length (messages conv)) \<le> limit then (Inr (), s)
             else
               let trimmedMessages = js_slice_from (messages conv) (- limit)
               in (case call (date_now c) s of
                     (t, s1) \<Rightarrow>
                       saveConversation c scfg None
                         (s1\<lparr>currentConversation :=
                              Some (conv\<lparr>messages := trimmedMessages, lastModified := t,
                                         messageCount := int (length trimmedMessages)\<rparr>)\<rparr>)))"

subsection \<open>ChatManager: building the request\<close>

definition getRecentHistory :: "int \<Rightarrow> 'w chat_manager \<Rightarrow> chat_message list" where
  \<comment> \<open>\<open>messages.slice(0, -1).slice(-count)\<close>\<close>
  "getRecentHistory count s = js_slice_from (js_slice (getMessages s) 0 (- 1)) (- count)"

definition role_name :: "message_role \<Rightarrow> string" where
  "role_name r = (case r of User \<Rightarrow> ''user'' | Assistant \<Rightarrow> ''assistant'')"

definition history_line :: "chat_message \<Rightarrow> string" where
  "history_line msg =
     role_name (role msg) @ '': '' @ substring (content msg) 0 200 @
     (if length (content msg) > 200 then ''...'' else [])"

definition context_sections :: "chat_context option \<Rightarrow> string list" where
  \<comment> \<open>the sections \<open>buildContextString\<close> pushes for the workspace context\<close>
  "context_sections ctx =
     (case ctx of
        None \<Rightarrow> []
      | Some cx \<Rightarrow>
          (case truthy_string (activeFile cx) of
             Some f \<Rightarrow> [''**Active File:** '' @ f]
           | None \<Rightarrow> []) @
          (case truthy_string (selectedText cx) of
             Some t \<Rightarrow> [''**Selected Text:**'', [CHR 0x60, CHR 0x60, CHR 0x60], t,
                        [CHR 0x60, CHR 0x60, CHR 0x60], []]
           | None \<Rightarrow> []) @
          (case gitStatus cx of
             Present g \<Rightarrow> [''**Git Status:** Branch: '' @ branch g @ '', Changes: '' @
                           (if hasChanges g then ''Yes'' else ''No'')]
           | _ \<Rightarrow> []))"

definition buildContextString ::
  "'w collaborators \<Rightarrow> chat_message \<Rightarrow> 'w chat_manager \<Rightarrow> string \<times> 'w chat_manager" where
  "buildContextString c userMessage s =
     (let sections0 =
            [''You are Kiro, an AI assistant integrated into the Kiro IDE.'',
             ''You help developers with code generation, debugging, explanations, and project planning.'',
             []] @ context_sections (msg_context userMessage)
      in case call (getRelevantContext c (content userMessage)) s of
           (r, s1) \<Rightarrow>
             let sections1 =
                   (case r of
                      Inl e \<Rightarrow> sections0
                    | Inr relevantContext \<Rightarrow>
                        if relevantContext \<noteq> [] \<and> length (js_trim relevantContext) > 0
                        then sections0 @ [''**Project Context:**'', relevantContext, []]
                        else sections0);
                 recentHistory = getRecentHistory 5 s1;
                 sections2 =
                   (if length recentHistory > 0
                    then sections1 @ [''**Recent Conversation:**''] @ map history_line recentHistory @ [[]]
                    else sections1)
             in (join_with [CHR 0x0A] sections2, s1))"

subsection \<open>ChatManager: one generation\<close>

text \<open>
  \<open>generateResponse\<close> of ChatManager, in two parts: \<open>assemble_response\<close> is what
  follows the \<open>for await\<close> loop, from joining the chunks on.
\<close>

definition assemble_response ::
  "'w collaborators \<Rightarrow> chat_manager_config \<Rightarrow> int \<Rightarrow> string list \<Rightarrow> ('w, chat_message) task" where
  "assemble_response c cfg startTime responseChunks s =
     (let responseContent = concat responseChunks
      in case call (date_now c) s of
           (endTime, s1) \<Rightarrow>
             then_do
               (if enableSafetyFilter cfg then call (sanitizeResponse c responseContent)
                else (\<lambda>t. (Inr responseContent, t)))
               (\<lambda>sanitizedContent s2.
                  case createAssistantMessage c sanitizedContent s2 of
                    (assistantMessage, s3) \<Rightarrow>
                      then_do (call (llm_estimateTokens c sanitizedContent))
                        (\<lambda>tokens s4.
                           (Inr (assistantMessage
                              \<lparr>metadata := Some \<lparr>tokenCount = Some tokens,
                                   processingTime = Some (endTime - startTime),
                                   model = Some ''llm-service'',
                                   truncated = None\<rparr>\<rparr>), s4))
                        s3)
               s1)"

definition ChatManager_generateResponse ::
  "'w collaborators \<Rightarrow> chat_manager_config \<Rightarrow> chat_message \<Rightarrow> ('w, chat_message) task" where
  "ChatManager_generateResponse c cfg userMessage s =
     (case buildContextString c userMessage s of
        (contextString, s1) \<Rightarrow>
          then_do
            (call (llm_optimizeForTokenLimits c (content userMessage) contextString (getRecentHistory 10 s1)))
            (\<lambda>optimization s2.
               case call (date_now c) s2 of
                 (startTime, s3) \<Rightarrow>
                   (case call (llm_generateResponse c (res_optimizedPrompt optimization)
                                 (res_optimizedContext optimization)) s3 of
                      ((responseChunks, Some e), s4) \<Rightarrow>
                        (Inl (new_Error (''LLM generation failed: '' @ error_message_or e ''Unknown error'')), s4)
                    | ((responseChunks, None), s4) \<Rightarrow>
                        assemble_response c cfg startTime responseChunks s4))
            s1)"

subsection \<open>ChatManager: the retry loop\<close>

text \<open>
  The \<open>for\<close> loop of \<open>generateResponseWithRetry\<close>, with the operation it retries and
  the sleep as parameters: \<open>attempt\<close> is the loop variable, \<open>lastError\<close> the variable of
  that name.
\<close>

definition as_Error :: "thrown \<Rightarrow> thrown" where
  \<comment> \<open>\<open>error instanceof Error ? error : new Error('Unknown error')\<close>\<close>
  "as_Error e = (case e of JsError name msg \<Rightarrow> e | NonError \<Rightarrow> new_Error ''Unknown error'')"

function retry_loop ::
  "('s \<Rightarrow> (thrown + 'a) \<times> 's) \<Rightarrow> (int \<Rightarrow> 's \<Rightarrow> 's) \<Rightarrow> int \<Rightarrow> int \<Rightarrow> int \<Rightarrow> thrown option \<Rightarrow>
   's \<Rightarrow> (thrown + 'a) \<times> 's" where
  "retry_loop operation sleep attempts baseDelay attempt lastError s =
     (if attempt \<le> attempts
      then (case operation s of
              (Inr v, s1) \<Rightarrow> (Inr v, s1)
            | (Inl e, s1) \<Rightarrow>
                retry_loop operation sleep attempts baseDelay (attempt + 1) (Some (as_Error e))
                  (if attempt < attempts then sleep (baseDelay * attempt) s1 else s1))
      else (Inl (case lastError of Some e \<Rightarrow> e | None \<Rightarrow> new_Error ''All retry attempts failed''), s))"
  by pat_completeness auto
termination
  by (relation "measure (\<lambda>(operation, sleep, attempts, baseDelay, attempt, lastError, s). nat (attempts + 1 - attempt))")
     auto

declare retry_loop.simps [simp del]

definition delay :: "int \<Rightarrow> 'w chat_manager \<Rightarrow> 'w chat_manager" where
  "delay ms s = s\<lparr>delays := delays s @ [ms]\<rparr>"

definition generateResponseWithRetry ::
  "'w collaborators \<Rightarrow> chat_manager_config \<Rightarrow> chat_message \<Rightarrow> ('w, chat_message) task" where
  "generateResponseWithRetry c cfg userMessage =
     retry_loop (ChatManager_generateResponse c cfg userMessage) delay
       (retryAttempts cfg) (retryDelay cfg) 1 None"

subsection \<open>ChatManager: suggestions and actions\<close>

definition generateSuggestions :: "chat_message \<Rightarrow> string list" where
  "generateSuggestions assistantMessage =
     (let text = toLowerCase (content assistantMessage);
          s1 = (if str_includes text ''code'' \<or> str_includes text ''function''
                then [''Explain this code'', ''Add error handling'', ''Write tests for this''] else []);
          s2 = (if str_includes text ''error'' \<or> str_includes text ''bug''
                then s1 @ [''How can I debug this?'', ''Show me the stack trace'', ''What are common causes?'']
                else s1);
          s3 = (if str_includes text ''spec'' \<or> str_includes text ''requirements''
                then s2 @ [''Create a new spec'', ''Update the design'', ''Generate tasks'']
                else s2);
          s4 = (if length s3 < 3
                then s3 @ [''Can you elaborate?'', ''Show me an example'', ''What are the alternatives?'']
                else s3)
      in js_slice s4 0 3)"

text \<open>
  The pattern of \<open>extractActions\<close> is a fence of three backquotes, an optional run of
  word characters (the language), a newline, the shortest text up to the next fence (the
  code). \<open>match_code_block\<close> is one attempt of the engine at the head of the text: the
  language, the code and the text after the closing fence. \<open>code_block_matches\<close> lists
  what the successive calls of \<open>exec\<close> return: after a match the search goes on behind
  it, after a failed attempt one character further.
\<close>

definition fence :: string where
  "fence = [CHR 0x60, CHR 0x60, CHR 0x60]"

fun find_fence :: "string \<Rightarrow> (string \<times> string) option" where
  "find_fence [] = None"
| "find_fence (c # cs) =
     (if startsWith (c # cs) fence then Some ([], drop 3 (c # cs))
      else (case find_fence cs of None \<Rightarrow> None | Some (code, rest) \<Rightarrow> Some (c # code, rest)))"

definition match_code_block :: "string \<Rightarrow> (string \<times> string \<times> string) option" where
  "match_code_block s =
     (if startsWith s fence
      then
        let s1 = drop 3 s;
            language = takeWhile is_word_char s1
        in case dropWhile is_word_char s1 of
             [] \<Rightarrow> None
           | c # s2 \<Rightarrow>
               if c = CHR 0x0A
               then (case find_fence s2 of None \<Rightarrow> None | Some (code, rest) \<Rightarrow> Some (language, code, rest))
               else None
      else None)"

lemma find_fence_shorter: "find_fence s = Some (code, rest) \<Longrightarrow> length rest < length s"
  by (induction s arbitrary: code rest) (auto split: if_splits option.splits)

lemma match_code_block_shorter:
  assumes "match_code_block s = Some (language, code, rest)"
  shows "length rest < length s"
proof -
  from assms obtain c s2 where d: "dropWhile is_word_char (drop 3 s) = c # s2"
    and f: "find_fence s2 = Some (code, rest)"
    by (auto simp: match_code_block_def Let_def split: if_splits list.splits option.splits)
  have "length (c # s2) \<le> length (drop 3 s)"
    using d length_dropWhile_le[of is_word_char "drop 3 s"] by simp
  with find_fence_shorter[OF f] show ?thesis by simp
qed

function code_block_matches :: "string \<Rightarrow> (string \<times> string) list" where
  "code_block_matches [] = []"
| "code_block_matches (c # cs) =
     (case match_code_block (c # cs) of
        Some (language, code, rest) \<Rightarrow> (language, code) # code_block_matches rest
      | None \<Rightarrow> code_block_matches cs)"
  by pat_completeness auto
termination
  by (relation "measure length") (auto dest: match_code_block_shorter)

definition extractActions :: "chat_message \<Rightarrow> chat_action list" where
  "extractActions assistantMessage =
     (let text = content assistantMessage;
          actions1 =
            foldl (\<lambda>acts (language, code).
                     if length code > 50 \<and> language \<noteq> []
                     then acts @ [\<lparr>act_type = Create_file, payload = File_payload code language,
                                   description = ''Create '' @ language @ '' file with this code''\<rparr>]
                     else acts)
                  [] (code_block_matches text)
      in if str_includes (toLowerCase text) ''create'' \<and> str_includes (toLowerCase text) ''spec''
         then actions1 @ [\<lparr>act_type = Create_spec, payload = Empty_payload,
                           description = ''Create a new feature spec''\<rparr>]
         else actions1)"

subsection \<open>Fenced code blocks, as the specification reads them\<close>

text \<open>
  The specification speaks of the fenced code blocks of a text and of their order. On its
  side a text is a sequence of segments, prose or fenced block with its language identifier
  and its code, and \<open>render_all\<close> writes the segments out. A segment is well formed when
  prose holds no backquote, the language identifier holds word characters only (it may be
  empty) and the closing fence of a block is where the code ends: the code followed by two
  backquotes holds no fence. \<open>block_action\<close> is the action that the specification asks
  for a segment. \<open>block_at\<close> says that a block stands in a text at an offset.
\<close>

datatype segment = Prose string | Block string string

fun render :: "segment \<Rightarrow> string" where
  "render (Prose p) = p"
| "render (Block language code) = fence @ language @ [CHR 0x0A] @ code @ fence"

definition render_all :: "segment list \<Rightarrow> string" where
  "render_all segs = concat (map render segs)"

fun well_formed :: "segment \<Rightarrow> bool" where
  "well_formed (Prose p) = (CHR 0x60 \<notin> set p)"
| "well_formed (Block language code) =
     (list_all is_word_char language \<and> \<not> str_includes (code @ [CHR 0x60, CHR 0x60]) fence)"

fun block_action :: "segment \<Rightarrow> chat_action list" where
  "block_action (Prose p) = []"
| "block_action (Block language code) =
     (if language \<noteq> [] \<and> 50 < length code
      then [\<lparr>act_type = Create_file, payload = File_payload code language,
             description = ''Create '' @ language @ '' file with this code''\<rparr>]
      else [])"

definition block_at :: "string \<Rightarrow> nat \<Rightarrow> string \<Rightarrow> string \<Rightarrow> bool" where
  "block_at text p language code =
     (take (length language + length code + 7) (drop p text) =
        fence @ language @ [CHR 0x0A] @ code @ fence)"

subsection \<open>ChatManager: sendMessage\<close>

definition createErrorResponse ::
  "'w collaborators \<Rightarrow> string \<Rightarrow> error_type option \<Rightarrow> 'w chat_manager \<Rightarrow> chat_response \<times> 'w chat_manager" where
  \<comment> \<open>the parameter \<open>type\<close> is optional and defaults to \<open>'system'\<close>\<close>
  "createErrorResponse c msg type_arg s =
     (let type' = (case type_arg of None \<Rightarrow> System | Some t \<Rightarrow> t)
      in case createAssistantMessage c (''I apologize, but I encountered an error: '' @ msg) s of
           (errorMessage, s1) \<Rightarrow>
             (\<lparr>message = errorMessage, suggestions = None, actions = None,
               error = Some \<lparr>err_type = type', err_message = msg, err_code = None,
                             retryable = (type' = Network \<or> type' = System)\<rparr>\<rparr>, s1))"

definition spread_field :: "'a property \<Rightarrow> 'a property \<Rightarrow> 'a property" where
  \<comment> \<open>one field of \<open>{ ...a, ...b }\<close>: what \<open>b\<close> holds, even \<open>undefined\<close>, wins\<close>
  "spread_field a b = (case b of Absent \<Rightarrow> a | _ \<Rightarrow> b)"

definition merge_context :: "chat_context \<Rightarrow> chat_context option \<Rightarrow> chat_context" where
  \<comment> \<open>\<open>{ ...currentContext, ...userMessage.context }\<close>\<close>
  "merge_context cur mine =
     (case mine of
        None \<Rightarrow> cur
      | Some m \<Rightarrow>
          \<lparr>activeFile = spread_field (activeFile cur) (activeFile m),
           selectedText = spread_field (selectedText cur) (selectedText m),
           workspaceFiles = spread_field (workspaceFiles cur) (workspaceFiles m),
           gitStatus = spread_field (gitStatus cur) (gitStatus m),
           specContext = spread_field (specContext cur) (specContext m)\<rparr>)"

text \<open>
  The statements of the \<open>try\<close> block after the safety check, in two parts:
  \<open>prepare_user_message\<close> creates the user message and gives it its context,
  \<open>process_message\<close> goes on from there.
\<close>

definition prepare_user_message ::
  "'w collaborators \<Rightarrow> chat_manager_config \<Rightarrow> string \<Rightarrow> chat_context option \<Rightarrow>
   'w chat_manager \<Rightarrow> chat_message \<times> 'w chat_manager" where
  "prepare_user_message c cfg text ctx s =
     (case createUserMessage c text s of
        (userMessage0, s1) \<Rightarrow>
          let userMessage1 = (case ctx of None \<Rightarrow> userMessage0
                              | Some cx \<Rightarrow> userMessage0\<lparr>msg_context := Some cx\<rparr>)
          in if enableContextGathering cfg
             then (case call (getCurrentContext c) s1 of
                     (Inr currentContext, s2) \<Rightarrow>
                       (userMessage1\<lparr>msg_context :=
                          Some (merge_context currentContext (msg_context userMessage1))\<rparr>, s2)
                   | (Inl e, s2) \<Rightarrow> (userMessage1, s2))
             else (userMessage1, s1))"

definition process_message ::
  "'w collaborators \<Rightarrow> chat_manager_config \<Rightarrow> string \<Rightarrow> chat_context option \<Rightarrow> ('w, chat_response) task" where
  "process_message c cfg text ctx s =
     (case prepare_user_message c cfg text ctx s of
        (userMessage, s3) \<Rightarrow>
          then_do (addMessage c (chatConfig cfg) userMessage)
            (\<lambda>u. then_do (generateResponseWithRetry c cfg userMessage)
               (\<lambda>assistantMessage.
                  then_do (addMessage c (chatConfig cfg) assistantMessage)
                    (\<lambda>u. then_do (trimConversationHistory c (chatConfig cfg) None)
                       (\<lambda>u t. (Inr \<lparr>message = assistantMessage,
                                      suggestions = Some (generateSuggestions assistantMessage),
                                      actions = Some (extractActions assistantMessage),
                                      error = None\<rparr>, t)))))
            s3)"

text \<open>The whole \<open>try\<close> block: the safety check, with its early return, then the rest.\<close>

definition sendMessage_try ::
  "'w collaborators \<Rightarrow> chat_manager_config \<Rightarrow> string \<Rightarrow> chat_context option \<Rightarrow> ('w, chat_response) task" where
  "sendMessage_try c cfg text ctx s =
     (if enableSafetyFilter cfg
      then then_do (call (validateRequest c text))
             (\<lambda>validation s1.
                if \<not> isValid validation
                then (case createErrorResponse c
                             (''Message blocked: '' @ join_with '', '' (errors validation)) (Some Validation) s1 of
                        (r, s2) \<Rightarrow> (Inr r, s2))
                else process_message c cfg text ctx s1)
             s
      else process_message c cfg text ctx s)"

definition sendMessage ::
  "'w collaborators \<Rightarrow> chat_manager_config \<Rightarrow> string \<Rightarrow> chat_context option \<Rightarrow> ('w, chat_response) task" where
  "sendMessage c cfg text ctx s =
     (if isProcessing s
      then (case createErrorResponse c ''Another message is currently being processed'' None s of
              (r, s1) \<Rightarrow> (Inr r, s1))
      else try_catch_finally
             (sendMessage_try c cfg text ctx)
             (\<lambda>e s1. case createErrorResponse c (error_message_or e ''Unknown error occurred'') (Some System) s1 of
                        (r, s2) \<Rightarrow> (Inr r, s2))
             (\<lambda>s1. (Inr (), s1\<lparr>isProcessing := False\<rparr>))
             (s\<lparr>isProcessing := True\<rparr>))"

definition default_config :: chat_manager_config where
  \<comment> \<open>the defaults of the constructor\<close>
  "default_config =
     \<lparr>maxHistoryLength = 50, enableContextGathering = True, enableSafetyFilter = True,
      retryAttempts = 3, retryDelay = 1000\<rparr>"

subsection \<open>Test doubles\<close>

text \<open>
  The mocks of \<open>ChatManager.test.ts\<close>, for evaluating the model on concrete runs: a
  validator that accepts or rejects, a context manager that answers or throws, a generator
  whose n-th call behaves as a script says, a storage that always succeeds, a clock that
  ticks at each reading.
\<close>

record mock_world =
  clock :: int
  llm_calls :: nat

definition mock_collaborators ::
  "validation_result \<Rightarrow> (thrown + chat_context) \<Rightarrow> (nat \<Rightarrow> string list \<times> thrown option) \<Rightarrow>
   mock_world collaborators" where
  "mock_collaborators verdict gathered script =
     \<lparr>validateRequest = (\<lambda>text w. (Inr verdict, w)),
      sanitizeResponse = (\<lambda>text w. (Inr text, w)),
      getCurrentContext = (\<lambda>w. (gathered, w)),
      getRelevantContext = (\<lambda>query w. (Inr ''Project context...'', w)),
      llm_optimizeForTokenLimits =
        (\<lambda>prompt ctx h w.
           (Inr \<lparr>res_optimizedPrompt = ''test prompt'', res_optimizedContext = ''test context'',
                 res_optimizedHistory = [],
                 res_tokenInfo = \<lparr>original = 100, optimized = 90, saved = 10\<rparr>\<rparr>, w)),
      llm_generateResponse = (\<lambda>prompt ctx w. (script (llm_calls w), w\<lparr>llm_calls := Suc (llm_calls w)\<rparr>)),
      llm_estimateTokens = (\<lambda>text w. (Inr 50, w)),
      storage_save_conversation = (\<lambda>conv w. (Inr (), w)),
      storage_save_config = (\<lambda>scfg w. (Inr (), w)),
      date_now = (\<lambda>w. (clock w, w\<lparr>clock := clock w + 1\<rparr>)),
      random_suffix = (\<lambda>w. (''k3j9x0q2z'', w))\<rparr>"

definition accepts :: validation_result where
  "accepts = \<lparr>isValid = True, errors = [], warnings = []\<rparr>"

definition rejects :: validation_result where
  "rejects = \<lparr>isValid = False, errors = [''Dangerous content detected''], warnings = []\<rparr>"

definition fresh_manager :: "mock_world chat_manager" where
  \<comment> \<open>the state after the constructor: idle, with an empty conversation\<close>
  "fresh_manager =
     \<lparr>isProcessing = False,
      currentConversation =
        Some \<lparr>conv_id = ''conv_0'', title = ''Chat'', messages = [], createdAt = 0, lastModified = 0,
              messageCount = 0, totalTokens = 0, activeContext = None\<rparr>,
      delays = [],
      world = \<lparr>clock = 1, llm_calls = 0\<rparr>\<rparr>"

text \<open>
  For the retry loop alone: an operation whose n-th call returns what a script says, on a
  state that counts the calls and logs the sleeps.
\<close>

record probe =
  calls :: nat
  slept :: "int list"

definition scripted :: "(nat \<Rightarrow> thrown + 'a) \<Rightarrow> probe \<Rightarrow> (thrown + 'a) \<times> probe" where
  "scripted script s = (script (calls s), s\<lparr>calls := Suc (calls s)\<rparr>)"

definition record_sleep :: "int \<Rightarrow> probe \<Rightarrow> probe" where
  "record_sleep ms s = s\<lparr>slept := slept s @ [ms]\<rparr>"

section \<open>Properties of the TokenManager\<close>

lemma estimateTokens_div: "estimateTokens s = (int (length s) + 3) div 4"
proof (cases "s = []")
  case True
  then show ?thesis by (simp add: estimateTokens_def)
next
  case False
  have "\<lceil>real (length s) / 4\<rceil> = (int (length s) + 3) div 4"
    by linarith
  with False show ?thesis by (simp add: estimateTokens_def CHARS_PER_TOKEN_def)
qed

text \<open>
  Claim C9. \<open>estimateTokens\<close> of the empty string is 0, and of a non-empty string it is
  the ceiling of its length divided by 4 (in integers, \<open>(length + 3) div 4\<close>); two texts
  of the same length have the same estimate, so the estimate is a function of the length
  alone.
\<close>

theorem estimateTokens_ceiling:
  "estimateTokens [] = 0 \<and>
   (s \<noteq> [] \<longrightarrow> estimateTokens s = \<lceil>real (length s) / 4\<rceil>) \<and>
   estimateTokens s = (int (length s) + 3) div 4 \<and>
   (\<forall>t. length t = length s \<longrightarrow> estimateTokens t = estimateTokens s)"
proof -
  have "\<lceil>real (length s) / 4\<rceil> = (int (length s) + 3) div 4" by linarith
  then show ?thesis by (simp add: estimateTokens_div)
qed

theorem estimateTokens_ceiling_witness:
  "''Hello world'' \<noteq> [] \<and> estimateTokens ''Hello world'' = 3 \<and> estimateTokens ''Hello_world'' = 3"
  using estimateTokens_ceiling [of "''Hello world''"] by simp

lemma truncateMessage_cases:
  assumes "truncateMessage m a = Some m'"
  shows "m' = m \<or>
         (\<exists>n md. m' = m\<lparr>content := take n (content m) @ ''... [truncated]'', metadata := Some md\<rparr> \<and>
                 truncated md = Some True)"
proof (cases "m' = m")
  case True
  then show ?thesis by simp
next
  case False
  let ?md = "(case metadata m of None \<Rightarrow> empty_metadata | Some md \<Rightarrow> md)\<lparr>truncated := Some True\<rparr>"
  from assms False
  have "m' = m\<lparr>content := substring (content m) 0 ((a - 10) * CHARS_PER_TOKEN - 20) @ ''... [truncated]'',
                 metadata := Some ?md\<rparr>"
    by (auto simp: truncateMessage_def Let_def split: if_splits)
  moreover have "\<exists>n. substring (content m) 0 ((a - 10) * CHARS_PER_TOKEN - 20) = take n (content m)"
    by (auto simp: substring_def Let_def)
  moreover have "truncated ?md = Some True" by simp
  ultimately show ?thesis by metis
qed

lemma history_loop_shape:
  "\<exists>k\<le>length olds.
      history_loop maxTok tot olds acc = rev (take k olds) @ acc \<or>
      (k < length olds \<and>
       (\<exists>a m'. truncateMessage (olds ! k) a = Some m' \<and>
          history_loop maxTok tot olds acc = m' # rev (take k olds) @ acc))"
proof (induction olds arbitrary: tot acc)
  case Nil
  then show ?case by simp
next
  case (Cons m olds)
  show ?case
  proof (cases "tot + calculateMessageTokens m \<le> maxTok")
    case True
    from Cons.IH[of "tot + calculateMessageTokens m" "m # acc"]
    obtain k where k: "k \<le> length olds"
      "history_loop maxTok (tot + calculateMessageTokens m) olds (m # acc) = rev (take k olds) @ m # acc \<or>
       (k < length olds \<and> (\<exists>a m'. truncateMessage (olds ! k) a = Some m' \<and>
          history_loop maxTok (tot + calculateMessageTokens m) olds (m # acc) = m' # rev (take k olds) @ m # acc))"
      by blast
    show ?thesis
      apply (rule exI[of _ "Suc k"])
      using k True by (auto simp: Let_def)
  next
    case False
    show ?thesis
      apply (rule exI[of _ 0])
      using False by (auto simp: Let_def split: option.splits)
  qed
qed


lemma optimizeConversationHistory_shape:
  assumes ne: "msgs \<noteq> []"
  shows "\<exists>k<length msgs.
           optimizeConversationHistory tm msgs budget = drop k msgs \<or>
           (Suc k < length msgs \<and>
            (\<exists>a m'. truncateMessage (msgs ! k) a = Some m' \<and>
               optimizeConversationHistory tm msgs budget = m' # drop (Suc k) msgs))"
proof -
  define bl where "bl = butlast msgs"
  define maxTok where "maxTok = or_default budget \<lfloor>times_MAX_CONTEXT_RATIO (contextWindow tm)\<rfloor>"
  define res where "res = history_loop maxTok (calculateMessageTokens (last msgs)) (rev bl) [last msgs]"
  have ms: "msgs = bl @ [last msgs]"
    using ne by (simp add: bl_def)
  have len: "length msgs = Suc (length bl)"
    by (simp add: bl_def ne Suc_pred)
  have res: "optimizeConversationHistory tm msgs budget = res"
    using ne by (simp add: optimizeConversationHistory_def Let_def res_def bl_def maxTok_def)
  from history_loop_shape[of "rev bl" maxTok "calculateMessageTokens (last msgs)" "[last msgs]"]
  obtain k where k: "k \<le> length bl"
    and shape: "res = rev (take k (rev bl)) @ [last msgs] \<or>
      (k < length bl \<and> (\<exists>a m'. truncateMessage (rev bl ! k) a = Some m' \<and>
          res = m' # rev (take k (rev bl)) @ [last msgs]))"
    unfolding res_def by auto
  have suffix: "rev (take k (rev bl)) @ [last msgs] = drop (length bl - k) msgs"
  proof -
    have "rev (take k (rev bl)) = drop (length bl - k) bl"
      by (simp add: rev_take)
    then have "rev (take k (rev bl)) @ [last msgs] = drop (length bl - k) (bl @ [last msgs])"
      by simp
    with ms show ?thesis by simp
  qed
  from shape show ?thesis
  proof
    assume "res = rev (take k (rev bl)) @ [last msgs]"
    with suffix res have "optimizeConversationHistory tm msgs budget = drop (length bl - k) msgs"
      by simp
    moreover have "length bl - k < length msgs" using len by simp
    ultimately show ?thesis by blast
  next
    assume "k < length bl \<and> (\<exists>a m'. truncateMessage (rev bl ! k) a = Some m' \<and>
          res = m' # rev (take k (rev bl)) @ [last msgs])"
    then obtain a m' where kl: "k < length bl"
      and tr: "truncateMessage (rev bl ! k) a = Some m'"
      and r: "res = m' # rev (take k (rev bl)) @ [last msgs]"
      by blast
    define j where "j = length bl - Suc k"
    have j: "Suc j = length bl - k" "j < length bl" using kl by (simp_all add: j_def)
    have "rev bl ! k = bl ! j" using kl by (simp add: rev_nth j_def)
    also have "\<dots> = msgs ! j"
      using j(2) ms by (metis nth_append)
    finally have nth: "rev bl ! k = msgs ! j" .
    have "optimizeConversationHistory tm msgs budget = m' # drop (Suc j) msgs"
      using r suffix res j(1) by simp
    moreover have "Suc j < length msgs" using j len by simp
    moreover have "truncateMessage (msgs ! j) a = Some m'" using tr nth by simp
    ultimately show ?thesis using j(2) len
      by (metis Suc_lessD)
  qed
qed

text \<open>
  The default budget is the floor of a product of doubles, not of the exact product: for
  a context window of 90 tokens it is 62, the double \<open>90 * 0.7\<close> lying just below 63.
\<close>

lemma default_budget_rounds_as_double:
  "\<lfloor>times_MAX_CONTEXT_RATIO 90\<rfloor> = 62"
  "optimizeConversationHistory \<lparr>maxTokens = 4000, contextWindow = 90\<rparr> msgs None =
   optimizeConversationHistory \<lparr>maxTokens = 4000, contextWindow = 90\<rparr> msgs (Some 62)"
  by (simp_all add: optimizeConversationHistory_def or_default_def times_MAX_CONTEXT_RATIO_def
      round_to_53_bits_def MAX_CONTEXT_RATIO_numerator_def bit_length.simps Let_def)

text \<open>
  Claim C6. For a non-empty message list and any budget, \<open>optimizeConversationHistory\<close>
  returns a non-empty list whose last element is the last input message, unmodified, and
  that is no longer than the input. It is either a suffix of the input, or a suffix of the
  input preceded by one truncated copy of the message just before that suffix: the copy
  keeps every field of the original (its id among them) but its content, which is a
  prefix of the original content followed by the marker \<open>... [truncated]\<close>, and its
  metadata, where \<open>truncated\<close> is set to true.
\<close>

theorem optimizeConversationHistory_keeps_suffix:
  assumes "msgs \<noteq> []"
  shows "\<exists>k<length msgs.
           optimizeConversationHistory tm msgs budget \<noteq> [] \<and>
           last (optimizeConversationHistory tm msgs budget) = last msgs \<and>
           length (optimizeConversationHistory tm msgs budget) \<le> length msgs \<and>
           (optimizeConversationHistory tm msgs budget = drop k msgs \<or>
            (Suc k < length msgs \<and>
             (\<exists>n md.
                optimizeConversationHistory tm msgs budget =
                  (msgs ! k)\<lparr>content := take n (content (msgs ! k)) @ ''... [truncated]'',
                                  metadata := Some md\<rparr> # drop (Suc k) msgs \<and>
                truncated md = Some True \<and>
                msg_id (hd (optimizeConversationHistory tm msgs budget)) = msg_id (msgs ! k))))"
proof -
  let ?res = "optimizeConversationHistory tm msgs budget"
  from optimizeConversationHistory_shape[OF assms, of tm budget]
  obtain k where k: "k < length msgs"
    and shape: "?res = drop k msgs \<or>
           (Suc k < length msgs \<and>
            (\<exists>a m'. truncateMessage (msgs ! k) a = Some m' \<and> ?res = m' # drop (Suc k) msgs))"
    by blast
  from shape show ?thesis
  proof
    assume eq: "?res = drop k msgs"
    have "?res \<noteq> []" using eq k by simp
    moreover have "last ?res = last msgs" using eq k by (simp add: last_drop)
    moreover have "length ?res \<le> length msgs" using eq by simp
    ultimately show ?thesis using eq k by blast
  next
    assume "Suc k < length msgs \<and>
            (\<exists>a m'. truncateMessage (msgs ! k) a = Some m' \<and> ?res = m' # drop (Suc k) msgs)"
    then obtain a m' where sk: "Suc k < length msgs"
      and tr: "truncateMessage (msgs ! k) a = Some m'"
      and eq: "?res = m' # drop (Suc k) msgs"
      by blast
    have ne: "?res \<noteq> []" using eq by simp
    have la: "last ?res = last msgs" using eq sk by (simp add: last_drop)
    have le: "length ?res \<le> length msgs" using eq sk by simp
    from truncateMessage_cases[OF tr] show ?thesis
    proof
      assume "m' = msgs ! k"
      then have "?res = drop k msgs"
        using eq sk by (simp add: Cons_nth_drop_Suc)
      with ne la le k show ?thesis by blast
    next
      assume "\<exists>n md. m' = (msgs ! k)\<lparr>content := take n (content (msgs ! k)) @ ''... [truncated]'',
                                        metadata := Some md\<rparr> \<and> truncated md = Some True"
      then obtain n md where m': "m' = (msgs ! k)\<lparr>content := take n (content (msgs ! k)) @ ''... [truncated]'',
                                        metadata := Some md\<rparr>" and md: "truncated md = Some True"
        by blast
      have "msg_id (hd ?res) = msg_id (msgs ! k)" using eq m' by simp
      with ne la le k sk eq m' md show ?thesis by blast
    qed
  qed
qed


theorem optimizeConversationHistory_keeps_suffix_witness:
  "[\<lparr>msg_id = ''a'', role = User, content = replicate 1000 CHR ''x'', timestamp = 0,
      msg_context = None, metadata = None\<rparr>,
    \<lparr>msg_id = ''b'', role = Assistant, content = ''hi'', timestamp = 1,
      msg_context = None, metadata = None\<rparr>] \<noteq> [] \<and>
   last (optimizeConversationHistory \<lparr>maxTokens = 10, contextWindow = 100\<rparr>
     [\<lparr>msg_id = ''a'', role = User, content = replicate 1000 CHR ''x'', timestamp = 0,
        msg_context = None, metadata = None\<rparr>,
      \<lparr>msg_id = ''b'', role = Assistant, content = ''hi'', timestamp = 1,
        msg_context = None, metadata = None\<rparr>] None) =
     \<lparr>msg_id = ''b'', role = Assistant, content = ''hi'', timestamp = 1,
        msg_context = None, metadata = None\<rparr>"
  using optimizeConversationHistory_keeps_suffix
    [of "[\<lparr>msg_id = ''a'', role = User, content = replicate 1000 CHR ''x'', timestamp = 0,
        msg_context = None, metadata = None\<rparr>,
      \<lparr>msg_id = ''b'', role = Assistant, content = ''hi'', timestamp = 1,
        msg_context = None, metadata = None\<rparr>]" "\<lparr>maxTokens = 10, contextWindow = 100\<rparr>" None]
  by auto

lemma removeNonEssentialContent_appends:
  "\<exists>extra. snd (removeNonEssentialContent c t r) = r @ extra"
  by (auto simp: removeNonEssentialContent_def Let_def split: prod.splits if_splits)

lemma strategy1_applies:
  assumes "0 < owed" and "owed < estimateTokens ctx"
  shows "\<exists>n\<le>length ctx.
           strategy1 ctx removed owed =
             (drop n ctx,
              removed @ [''Truncated '' @ number_toString (int n) @ '' characters from context''],
              owed - (estimateTokens ctx - estimateTokens (drop n ctx)))"
proof -
  define start where "start = estimateTokens ctx - (estimateTokens ctx - owed) * CHARS_PER_TOKEN"
  define n where "n = min (nat start) (length ctx)"
  have d: "substring_from ctx start = drop n ctx"
    by (simp add: substring_from_def n_def min_def)
  have l: "int (length ctx) - int (length (drop n ctx)) = int n"
    by (simp add: n_def)
  have "strategy1 ctx removed owed =
          (substring_from ctx start,
           removed @ [''Truncated '' @ number_toString (int (length ctx) - int (length (substring_from ctx start)))
                        @ '' characters from context''],
           owed - (estimateTokens ctx - estimateTokens (substring_from ctx start)))"
    using assms by (simp add: strategy1_def Let_def start_def)
  with d l have "strategy1 ctx removed owed =
          (drop n ctx, removed @ [''Truncated '' @ number_toString (int n) @ '' characters from context''],
           owed - (estimateTokens ctx - estimateTokens (drop n ctx)))"
    by simp
  moreover have "n \<le> length ctx" by (simp add: n_def)
  ultimately show ?thesis by blast
qed

lemma strategy1_skipped:
  assumes "estimateTokens ctx \<le> owed"
  shows "strategy1 ctx removed owed = (ctx, removed, owed)"
  using assms by (simp add: strategy1_def Let_def)

text \<open>
  Claim C5, as amended. When the combined estimate of prompt and context exceeds the target
  and the estimate of the context alone exceeds the deficit, the first strategy keeps a
  suffix of the context, \<open>drop n\<close> of it for some \<open>n\<close> up to its length, and records
  \<open>Truncated n characters from context\<close>, which is then the first entry of the removal
  log of \<open>optimizePrompt\<close>. When the estimate of the context does not exceed the
  deficit, the first strategy is skipped: the context stays whole and nothing is recorded.
\<close>

theorem optimizePrompt_first_strategy:
  "(or_default maxTok (maxTokens tm) < estimateTokens (prompt @ ctx) \<and>
    estimateTokens (prompt @ ctx) - or_default maxTok (maxTokens tm) < estimateTokens ctx \<longrightarrow>
      (\<exists>n rest owed'.
         n \<le> length ctx \<and>
         strategy1 ctx [] (estimateTokens (prompt @ ctx) - or_default maxTok (maxTokens tm)) =
           (drop n ctx, [''Truncated '' @ number_toString (int n) @ '' characters from context''], owed') \<and>
         removedContent (optimizePrompt tm prompt ctx maxTok) =
           (''Truncated '' @ number_toString (int n) @ '' characters from context'') # rest)) \<and>
   (or_default maxTok (maxTokens tm) < estimateTokens (prompt @ ctx) \<and>
    estimateTokens ctx \<le> estimateTokens (prompt @ ctx) - or_default maxTok (maxTokens tm) \<longrightarrow>
      strategy1 ctx [] (estimateTokens (prompt @ ctx) - or_default maxTok (maxTokens tm)) =
        (ctx, [], estimateTokens (prompt @ ctx) - or_default maxTok (maxTokens tm)))"
proof (intro conjI impI)
  let ?target = "or_default maxTok (maxTokens tm)"
  let ?owed = "estimateTokens (prompt @ ctx) - ?target"
  assume h: "?target < estimateTokens (prompt @ ctx) \<and> ?owed < estimateTokens ctx"
  then have pos: "0 < ?owed" by simp
  from strategy1_applies[OF pos, of ctx "[]"] h
  obtain n where n: "n \<le> length ctx"
    and s1: "strategy1 ctx [] ?owed =
      (drop n ctx, [''Truncated '' @ number_toString (int n) @ '' characters from context''],
       ?owed - (estimateTokens ctx - estimateTokens (drop n ctx)))"
    by auto
  let ?d = "''Truncated '' @ number_toString (int n) @ '' characters from context''"
  let ?owed' = "?owed - (estimateTokens ctx - estimateTokens (drop n ctx))"
  obtain extra where ex: "snd (removeNonEssentialContent (drop n ctx) ?owed' [?d]) = [?d] @ extra"
    using removeNonEssentialContent_appends by blast
  have "removedContent (optimizePrompt tm prompt ctx maxTok) =
          (if 0 < ?owed' then snd (removeNonEssentialContent (drop n ctx) ?owed' [?d]) else [?d])"
    using h s1 by (simp add: optimizePrompt_def Let_def split: prod.splits)
  then have "\<exists>rest. removedContent (optimizePrompt tm prompt ctx maxTok) = ?d # rest"
    using ex by (cases "0 < ?owed'") simp_all
  with n s1 show "\<exists>n rest owed'.
         n \<le> length ctx \<and>
         strategy1 ctx [] ?owed = (drop n ctx, [''Truncated '' @ number_toString (int n) @ '' characters from context''], owed') \<and>
         removedContent (optimizePrompt tm prompt ctx maxTok) =
           (''Truncated '' @ number_toString (int n) @ '' characters from context'') # rest"
    by blast
next
  let ?target = "or_default maxTok (maxTokens tm)"
  let ?owed = "estimateTokens (prompt @ ctx) - ?target"
  assume "?target < estimateTokens (prompt @ ctx) \<and> estimateTokens ctx \<le> ?owed"
  then show "strategy1 ctx [] ?owed = (ctx, [], ?owed)"
    by (simp add: strategy1_skipped)
qed

text \<open>
  Claim C5 as stated fails where the guard of the first strategy is false: a prompt of 40
  characters and a context of 4 against a target of 5 tokens exceed the target, yet the
  first strategy leaves the context whole and the removal log stays empty.
\<close>

theorem optimizePrompt_first_strategy_counterexample:
  "maxTokens \<lparr>maxTokens = 5, contextWindow = 10\<rparr> <
     estimateTokens (''pppppppppppppppppppppppppppppppppppppppp'' @ ''abcd'') \<and>
   strategy1 ''abcd'' []
     (estimateTokens (''pppppppppppppppppppppppppppppppppppppppp'' @ ''abcd'') - 5) = (''abcd'', [], 6) \<and>
   removedContent (optimizePrompt \<lparr>maxTokens = 5, contextWindow = 10\<rparr>
     ''pppppppppppppppppppppppppppppppppppppppp'' ''abcd'' None) = []"
  by (simp add: estimateTokens_div strategy1_def optimizePrompt_def or_default_def Let_def
      removeNonEssentialContent_def match_lines_def remove_lines_def is_line_terminator_def
      is_comment_line_def is_import_line_def startsWith_def is_blank_def is_js_space_def
      newline_span_def sum_tokens_def)

theorem optimizePrompt_first_strategy_witness:
  "or_default None (maxTokens \<lparr>maxTokens = 1, contextWindow = 10\<rparr>) <
     estimateTokens ([] @ ''0123456789012345678901234567890123456789'') \<and>
   (\<exists>n rest owed'.
       n \<le> length ''0123456789012345678901234567890123456789'' \<and>
       strategy1 ''0123456789012345678901234567890123456789'' []
         (estimateTokens ([] @ ''0123456789012345678901234567890123456789'') -
          or_default None (maxTokens \<lparr>maxTokens = 1, contextWindow = 10\<rparr>)) =
         (drop n ''0123456789012345678901234567890123456789'',
          [''Truncated '' @ number_toString (int n) @ '' characters from context''], owed') \<and>
       removedContent (optimizePrompt \<lparr>maxTokens = 1, contextWindow = 10\<rparr> []
          ''0123456789012345678901234567890123456789'' None) =
         (''Truncated '' @ number_toString (int n) @ '' characters from context'') # rest) \<and>
   estimateTokens ''abcd'' \<le> estimateTokens (''pppppppp'' @ ''abcd'') - or_default (Some 1) 7 \<and>
   strategy1 ''abcd'' [] (estimateTokens (''pppppppp'' @ ''abcd'') - or_default (Some 1) (maxTokens \<lparr>maxTokens = 7, contextWindow = 10\<rparr>)) =
     (''abcd'', [], 2)"
proof -
  have a: "or_default None (maxTokens \<lparr>maxTokens = 1, contextWindow = 10\<rparr>) <
       estimateTokens ([] @ ''0123456789012345678901234567890123456789'') \<and>
     estimateTokens ([] @ ''0123456789012345678901234567890123456789'') -
       or_default None (maxTokens \<lparr>maxTokens = 1, contextWindow = 10\<rparr>) <
       estimateTokens ''0123456789012345678901234567890123456789''"
    by (simp add: estimateTokens_div or_default_def)
  have b: "or_default (Some 1) (maxTokens \<lparr>maxTokens = 7, contextWindow = 10\<rparr>) <
       estimateTokens (''pppppppp'' @ ''abcd'') \<and>
     estimateTokens ''abcd'' \<le> estimateTokens (''pppppppp'' @ ''abcd'') -
       or_default (Some 1) (maxTokens \<lparr>maxTokens = 7, contextWindow = 10\<rparr>)"
    by (simp add: estimateTokens_div or_default_def)
  have c: "estimateTokens (''pppppppp'' @ ''abcd'') - or_default (Some 1) (maxTokens \<lparr>maxTokens = 7, contextWindow = 10\<rparr>) = 2"
    by (simp add: estimateTokens_div or_default_def)
  from optimizePrompt_first_strategy
    [of None "\<lparr>maxTokens = 1, contextWindow = 10\<rparr>" "[]" "''0123456789012345678901234567890123456789''"]
    optimizePrompt_first_strategy
    [of "Some 1" "\<lparr>maxTokens = 7, contextWindow = 10\<rparr>" "''pppppppp''" "''abcd''"]
    a b c
  show ?thesis by (simp add: or_default_def)
qed

text \<open>
  The amount the first strategy removes is not its target: the start index
  \<open>contextTokens - targetContextLength\<close> subtracts a length in characters from a count
  in tokens. With 15 tokens owed on a context of 100 characters (25 tokens) it is negative,
  and nothing is removed.
\<close>

lemma strategy1_removes_nothing:
  "strategy1 (replicate 100 CHR ''a'') [] 15 =
     (replicate 100 CHR ''a'', [''Truncated 0 characters from context''], 15)"
  by (simp add: strategy1_def estimateTokens_div substring_from_def CHARS_PER_TOKEN_def
      number_toString_def nat_digits.simps digit_char_def Let_def)

text \<open>
  Claim C10. Whatever the prompt, the context and the history, \<open>optimizeForTokenLimits\<close>
  returns the prompt and the context it was given: the reductions \<open>optimizePrompt\<close>
  computes on the context do not reach the result.
\<close>

theorem optimizeForTokenLimits_returns_inputs:
  "res_optimizedPrompt (optimizeForTokenLimits tm prompt ctx history) = prompt \<and>
   res_optimizedContext (optimizeForTokenLimits tm prompt ctx history) = ctx"
  by (simp add: optimizeForTokenLimits_def optimizePrompt_def Let_def split: prod.splits)

theorem optimizeForTokenLimits_returns_inputs_witness:
  "res_optimizedContext (optimizeForTokenLimits \<lparr>maxTokens = 1, contextWindow = 10\<rparr> []
      ''0123456789012345678901234567890123456789'' []) = ''0123456789012345678901234567890123456789'' \<and>
   tokensSaved (optimizePrompt \<lparr>maxTokens = 1, contextWindow = 10\<rparr> []
      ''0123456789012345678901234567890123456789'' None) = 1"
proof -
  have "tokensSaved (optimizePrompt \<lparr>maxTokens = 1, contextWindow = 10\<rparr> []
      ''0123456789012345678901234567890123456789'' None) = 1"
  by (simp add: estimateTokens_div strategy1_def optimizePrompt_def or_default_def Let_def
      removeNonEssentialContent_def match_lines_def remove_lines_def is_line_terminator_def
      is_comment_line_def is_import_line_def startsWith_def is_blank_def is_js_space_def
      newline_span_def sum_tokens_def substring_from_def CHARS_PER_TOKEN_def)
  with optimizeForTokenLimits_returns_inputs
    [of "\<lparr>maxTokens = 1, contextWindow = 10\<rparr>" "[]" "''0123456789012345678901234567890123456789''" "[]"]
  show ?thesis by simp
qed

section \<open>Properties of the streamed response\<close>

lemma split_on_nonempty [simp]: "split_on sep s \<noteq> []"
  by (induction s) (auto split: list.splits)

lemma split_on_no_sep: "sep \<notin> set s \<Longrightarrow> split_on sep s = [s]"
  by (induction s) auto

lemma last_split_on_no_sep: "sep \<notin> set (last (split_on sep s))"
proof (induction s)
  case Nil
  then show ?case by simp
next
  case (Cons c cs)
  obtain l ls where sp: "split_on sep cs = l # ls"
    by (cases "split_on sep cs") auto
  show ?case
  proof (cases "c = sep")
    case True
    with Cons sp show ?thesis by simp
  next
    case False
    with Cons sp show ?thesis by (cases ls) auto
  qed
qed

lemma split_on_append:
  "split_on sep (a @ b) = butlast (split_on sep a) @ split_on sep (last (split_on sep a) @ b)"
proof (induction a)
  case Nil
  then show ?case by simp
next
  case (Cons c cs)
  obtain l ls where sp: "split_on sep cs = l # ls"
    by (cases "split_on sep cs") auto
  show ?case
  proof (cases "c = sep")
    case True
    with Cons sp show ?thesis by simp
  next
    case False
    show ?thesis
    proof (cases ls)
      case Nil
      with Cons sp False show ?thesis by simp
    next
      case (Cons l2 ls2)
      with Cons.IH sp False show ?thesis by simp
    qed
  qed
qed

lemma split_on_append_sep:
  "split_on sep (x @ sep # y) = split_on sep x @ split_on sep y"
proof (induction x)
  case Nil
  then show ?case by simp
next
  case (Cons c cs)
  obtain l ls where sp: "split_on sep cs = l # ls"
    by (cases "split_on sep cs") auto
  with Cons show ?case by simp
qed

lemma process_lines_append:
  "process_lines p (xs @ ys) =
     (case process_lines p xs of
        (a, d) \<Rightarrow> if d then (a, True)
                  else (case process_lines p ys of (b, d') \<Rightarrow> (a @ b, d')))"
  by (induction xs) (auto simp: Let_def split: prod.splits option.splits)

lemma read_loop_chunks:
  assumes "CHR 0x0A \<notin> set buffer"
  shows "read_loop p buffer (map Chunk cs @ evs) =
     (case process_lines p (butlast (split_on (CHR 0x0A) (buffer @ concat cs))) of
        (ys, d) \<Rightarrow>
          if d then (ys, None)
          else (case read_loop p (last (split_on (CHR 0x0A) (buffer @ concat cs))) evs of
                  (zs, r) \<Rightarrow> (ys @ zs, r)))"
  using assms
proof (induction cs arbitrary: buffer)
  case Nil
  then show ?case by (simp add: split_on_no_sep split: prod.splits)
next
  case (Cons c cs)
  let ?nl = "CHR 0x0A"
  let ?b2 = "last (split_on ?nl (buffer @ c))"
  have nb2: "?nl \<notin> set ?b2" by (rule last_split_on_no_sep)
  have sp: "split_on ?nl (buffer @ concat (c # cs)) =
        butlast (split_on ?nl (buffer @ c)) @ split_on ?nl (?b2 @ concat cs)"
    using split_on_append[of ?nl "buffer @ c" "concat cs"] by simp
  have bl: "butlast (split_on ?nl (buffer @ concat (c # cs))) =
        butlast (split_on ?nl (buffer @ c)) @ butlast (split_on ?nl (?b2 @ concat cs))"
    unfolding sp by (simp add: butlast_append)
  have la: "last (split_on ?nl (buffer @ concat (c # cs))) = last (split_on ?nl (?b2 @ concat cs))"
    unfolding sp by simp
  have step: "read_loop p buffer (map Chunk (c # cs) @ evs) =
      (case process_lines p (butlast (split_on ?nl (buffer @ c))) of
         (ys, returned) \<Rightarrow>
           if returned then (ys, None)
           else (case read_loop p ?b2 (map Chunk cs @ evs) of (zs, r) \<Rightarrow> (ys @ zs, r)))"
    by (simp add: Let_def)
  show ?case
    unfolding step bl la process_lines_append Cons.IH[OF nb2]
    by (auto split: prod.splits)
qed


lemma process_lines_done:
  "process_lines p (A @ ''data: [DONE]'' # B) = (fst (process_lines p A), True)"
proof -
  have "process_lines p (''data: [DONE]'' # B) = ([], True)"
    by (simp add: js_trim_def is_js_space_def startsWith_def)
  then show ?thesis
    by (simp add: process_lines_append split: prod.splits)
qed

lemma complete_lines_sentinel:
  assumes "pre = [] \<or> last pre = sep" and "sep \<notin> set D"
  shows "\<exists>A. \<forall>post. butlast (split_on sep (pre @ D @ sep # post)) =
            A @ D # butlast (split_on sep post)"
proof -
  have d: "split_on sep D = [D]"
    using assms(2) by (rule split_on_no_sep)
  have "\<exists>A. split_on sep (pre @ D) = A @ [D]"
  proof (cases "pre = []")
    case True
    then show ?thesis using d by simp
  next
    case False
    with assms have "pre = butlast pre @ [sep]"
      by (metis append_butlast_last_id)
    then have "pre @ D = butlast pre @ sep # D"
      by (metis append_Cons append_Nil append_assoc)
    then have "split_on sep (pre @ D) = split_on sep (butlast pre @ sep # D)"
      by (rule arg_cong)
    also have "\<dots> = split_on sep (butlast pre) @ split_on sep D"
      by (rule split_on_append_sep)
    finally have "split_on sep (pre @ D) = split_on sep (butlast pre) @ [D]"
      using d by simp
    then show ?thesis by (rule exI)
  qed
  then obtain A where A: "split_on sep (pre @ D) = A @ [D]"
    by blast
  have "\<forall>post. butlast (split_on sep (pre @ D @ sep # post)) = A @ D # butlast (split_on sep post)"
  proof
    fix post
    have "split_on sep ((pre @ D) @ sep # post) = split_on sep (pre @ D) @ split_on sep post"
      by (rule split_on_append_sep)
    then have "split_on sep (pre @ D @ sep # post) = (A @ [D]) @ split_on sep post"
      using A by simp
    then show "butlast (split_on sep (pre @ D @ sep # post)) = A @ D # butlast (split_on sep post)"
      by (simp add: butlast_append)
  qed
  then show ?thesis by blast
qed

lemma read_loop_single:
  "read_loop p [] (map Chunk cs) =
     (fst (process_lines p (butlast (split_on (CHR 0x0A) (concat cs)))), None)"
  using read_loop_chunks[of "[]" p cs "[]"] by (simp split: prod.splits)

lemma read_loop_after_done:
  assumes "pre = [] \<or> last pre = CHR 0x0A"
    and "concat cs = pre @ ''data: [DONE]'' @ CHR 0x0A # post"
  shows "read_loop p [] (map Chunk cs @ evs) =
         read_loop p [] [Chunk (pre @ ''data: [DONE]'' @ [CHR 0x0A])]"
proof -
  define D where "D = ''data: [DONE]''"
  have nD: "CHR 0x0A \<notin> set D" by (simp add: D_def)
  from complete_lines_sentinel[OF assms(1) nD] obtain A where
    A: "\<And>post. butlast (split_on (CHR 0x0A) (pre @ D @ CHR 0x0A # post)) =
            A @ D # butlast (split_on (CHR 0x0A) post)"
    by blast
  have pd: "\<And>B. process_lines p (A @ D # B) = (fst (process_lines p A), True)"
    unfolding D_def by (rule process_lines_done)
  have cs: "concat cs = pre @ D @ CHR 0x0A # post"
    using assms(2) by (simp add: D_def)
  have "read_loop p [] (map Chunk cs @ evs) =
     (case process_lines p (butlast (split_on (CHR 0x0A) ([] @ concat cs))) of
        (ys, d) \<Rightarrow>
          if d then (ys, None)
          else (case read_loop p (last (split_on (CHR 0x0A) ([] @ concat cs))) evs of
                  (zs, r) \<Rightarrow> (ys @ zs, r)))"
    by (rule read_loop_chunks) simp
  then have l: "read_loop p [] (map Chunk cs @ evs) = (fst (process_lines p A), None)"
    by (simp add: cs A pd del: process_lines.simps)
  have "read_loop p [] (map Chunk [pre @ D @ [CHR 0x0A]] @ []) =
     (case process_lines p (butlast (split_on (CHR 0x0A) ([] @ concat [pre @ D @ [CHR 0x0A]]))) of
        (ys, d) \<Rightarrow>
          if d then (ys, None)
          else (case read_loop p (last (split_on (CHR 0x0A) ([] @ concat [pre @ D @ [CHR 0x0A]]))) [] of
                  (zs, r) \<Rightarrow> (ys @ zs, r)))"
    by (rule read_loop_chunks) simp
  then have "read_loop p [] [Chunk (pre @ D @ [CHR 0x0A])] = (fst (process_lines p A), None)"
    by (simp add: A pd del: process_lines.simps read_loop.simps)
  with l show ?thesis by (simp add: D_def)
qed

text \<open>
  Claim C3. For a successful response, however the payload is split into reads,
  \<open>generateResponse\<close> yields the same fragments in the same order (and ends the same
  way) as for the one read that delivers the whole payload. And once the payload holds the
  line \<open>data: [DONE]\<close> (at the start or after a newline, and followed by a newline), what
  follows it does not matter: neither the rest of the payload, complete lines and buffered
  remainder alike, nor any later read, even one that would fail.
\<close>

theorem generateResponse_chunking:
  "(ok r \<longrightarrow>
      generateResponse cfg p (\<lambda>req. Inr (r\<lparr>body := Some (map Chunk cs)\<rparr>)) prompt ctx =
      generateResponse cfg p (\<lambda>req. Inr (r\<lparr>body := Some [Chunk (concat cs)]\<rparr>)) prompt ctx) \<and>
   (ok r \<and> (pre = [] \<or> last pre = CHR 0x0A) \<and>
    concat cs = pre @ ''data: [DONE]'' @ CHR 0x0A # post \<longrightarrow>
      generateResponse cfg p (\<lambda>req. Inr (r\<lparr>body := Some (map Chunk cs @ evs)\<rparr>)) prompt ctx =
      generateResponse cfg p (\<lambda>req. Inr (r\<lparr>body := Some [Chunk (pre @ ''data: [DONE]'' @ [CHR 0x0A])]\<rparr>)) prompt ctx)"
proof (intro conjI impI)
  assume "ok r"
  moreover have "read_loop p [] (map Chunk cs) = read_loop p [] [Chunk (concat cs)]"
    using read_loop_single[of p cs] read_loop_single[of p "[concat cs]"] by simp
  ultimately show "generateResponse cfg p (\<lambda>req. Inr (r\<lparr>body := Some (map Chunk cs)\<rparr>)) prompt ctx =
      generateResponse cfg p (\<lambda>req. Inr (r\<lparr>body := Some [Chunk (concat cs)]\<rparr>)) prompt ctx"
    by (simp add: generateResponse_def del: read_loop.simps)
next
  assume h: "ok r \<and> (pre = [] \<or> last pre = CHR 0x0A) \<and>
    concat cs = pre @ ''data: [DONE]'' @ CHR 0x0A # post"
  then have "read_loop p [] (map Chunk cs @ evs) =
         read_loop p [] [Chunk (pre @ ''data: [DONE]'' @ [CHR 0x0A])]"
    using read_loop_after_done[of pre cs post p evs] by blast
  with h show "generateResponse cfg p (\<lambda>req. Inr (r\<lparr>body := Some (map Chunk cs @ evs)\<rparr>)) prompt ctx =
      generateResponse cfg p (\<lambda>req. Inr (r\<lparr>body := Some [Chunk (pre @ ''data: [DONE]'' @ [CHR 0x0A])]\<rparr>)) prompt ctx"
    by (simp add: generateResponse_def del: read_loop.simps)
qed


theorem generateResponse_chunking_witness:
  "ok \<lparr>ok = True, status = 200, statusText = ''OK'', body = None\<rparr> \<and>
   last (''data: Hello'' @ [CHR 0x0A] @ ''data: bad'' @ [CHR 0x0A]) = CHR 0x0A \<and>
   concat [''data: Hel'', ''lo'' @ [CHR 0x0A] @ ''data: bad'' @ [CHR 0x0A] @ ''da'',
           ''ta: [DONE]'' @ [CHR 0x0A] @ ''data: late'' @ [CHR 0x0A] @ ''tail''] =
     (''data: Hello'' @ [CHR 0x0A] @ ''data: bad'' @ [CHR 0x0A]) @ ''data: [DONE]'' @
       CHR 0x0A # (''data: late'' @ [CHR 0x0A] @ ''tail'') \<and>
   generateResponse 
     \<lparr>apiKey = ''test-api-key'', baseUrl = ''https://api.openai.com/v1'', cfg_model = ''gpt-3.5-turbo'', cfg_maxTokens = 4096, temperature = 7 / 10, timeout = 30000\<rparr>
     (\<lambda>d. if d = ''bad'' then None else Some d)
     (\<lambda>req. Inr (\<lparr>ok = True, status = 200, statusText = ''OK'', body = None\<rparr>
        \<lparr>body := Some (map Chunk [''data: Hel'', ''lo'' @ [CHR 0x0A] @ ''data: bad'' @ [CHR 0x0A] @ ''da'',
           ''ta: [DONE]'' @ [CHR 0x0A] @ ''data: late'' @ [CHR 0x0A] @ ''tail''] @ [ReadFails NonError])\<rparr>))
     ''Test prompt'' ''Test context'' =
   \<lparr>yielded = [''Hello''], failure = None, released = 1\<rparr> \<and>
   generateResponse 
     \<lparr>apiKey = ''test-api-key'', baseUrl = ''https://api.openai.com/v1'', cfg_model = ''gpt-3.5-turbo'', cfg_maxTokens = 4096, temperature = 7 / 10, timeout = 30000\<rparr>
     (\<lambda>d. if d = ''bad'' then None else Some d)
     (\<lambda>req. Inr (\<lparr>ok = True, status = 200, statusText = ''OK'', body = None\<rparr>
        \<lparr>body := Some (map Chunk [''data: Hel'', ''lo'' @ [CHR 0x0A] @ ''data: bad'' @ [CHR 0x0A] @ ''da'',
           ''ta: [DONE]'' @ [CHR 0x0A] @ ''data: late'' @ [CHR 0x0A] @ ''tail''])\<rparr>))
     ''Test prompt'' ''Test context'' =
   \<lparr>yielded = [''Hello''], failure = None, released = 1\<rparr>"
proof -
  let ?cfg = "\<lparr>apiKey = ''test-api-key'', baseUrl = ''https://api.openai.com/v1'', cfg_model = ''gpt-3.5-turbo'', cfg_maxTokens = 4096, temperature = 7 / 10, timeout = 30000\<rparr>"
  let ?r = "\<lparr>ok = True, status = 200, statusText = ''OK'', body = None\<rparr>"
  let ?p = "\<lambda>d. if d = ''bad'' then None else Some d"
  let ?cs = "[''data: Hel'', ''lo'' @ [CHR 0x0A] @ ''data: bad'' @ [CHR 0x0A] @ ''da'',
           ''ta: [DONE]'' @ [CHR 0x0A] @ ''data: late'' @ [CHR 0x0A] @ ''tail'']"
  let ?pre = "''data: Hello'' @ [CHR 0x0A] @ ''data: bad'' @ [CHR 0x0A]"
  let ?post = "''data: late'' @ [CHR 0x0A] @ ''tail''"
  have one: "generateResponse ?cfg ?p
      (\<lambda>req. Inr (?r\<lparr>body := Some [Chunk (?pre @ ''data: [DONE]'' @ [CHR 0x0A])]\<rparr>)) ''Test prompt'' ''Test context'' =
      \<lparr>yielded = [''Hello''], failure = None, released = 1\<rparr>"
    by (simp add: generateResponse_def js_trim_def is_js_space_def startsWith_def)
  have two: "generateResponse ?cfg ?p (\<lambda>req. Inr (?r\<lparr>body := Some [Chunk (concat ?cs)]\<rparr>)) ''Test prompt'' ''Test context'' =
      \<lparr>yielded = [''Hello''], failure = None, released = 1\<rparr>"
    by (simp add: generateResponse_def js_trim_def is_js_space_def startsWith_def)
  have h: "ok ?r \<and> (?pre = [] \<or> last ?pre = CHR 0x0A) \<and> concat ?cs = ?pre @ ''data: [DONE]'' @ CHR 0x0A # ?post"
    by simp
  from generateResponse_chunking[of ?r ?cfg ?p ?cs "''Test prompt''" "''Test context''" ?pre ?post "[ReadFails NonError]"] h one two
  show ?thesis by simp
qed

text \<open>
  Claim C4, at the statuses it names. For a response that is not ok the generator yields
  nothing and obtains no reader, as the claim says. But the error it throws for 401, 429
  and 500 is the one \<open>createLLMError\<close> substitutes, whose message holds no status:
  for 401 neither the number nor the text \<open>HTTP 401: Unauthorized\<close> that the test of the
  repository expects. A status such as 404, whose message holds none of the three numbers,
  does come through as \<open>HTTP 404: Not Found\<close>.
\<close>

theorem generateResponse_status_replaced:
  "generateResponse cfg p
     (\<lambda>req. Inr \<lparr>ok = False, status = 401, statusText = ''Unauthorized'', body = b\<rparr>) prompt ctx =
     \<lparr>yielded = [], failure = Some (JsError ''Error'' ''Authentication failed - please check your API key''),
      released = 0\<rparr> \<and>
   \<not> str_includes ''Authentication failed - please check your API key'' ''401'' \<and>
   \<not> str_includes ''Authentication failed - please check your API key'' ''HTTP 401: Unauthorized'' \<and>
   generateResponse cfg p
     (\<lambda>req. Inr \<lparr>ok = False, status = 429, statusText = ''Too Many Requests'', body = b\<rparr>) prompt ctx =
     \<lparr>yielded = [], failure = Some (JsError ''Error'' ''Rate limit exceeded - please try again later''),
      released = 0\<rparr> \<and>
   \<not> str_includes ''Rate limit exceeded - please try again later'' ''429'' \<and>
   generateResponse cfg p
     (\<lambda>req. Inr \<lparr>ok = False, status = 500, statusText = ''Internal Server Error'', body = b\<rparr>) prompt ctx =
     \<lparr>yielded = [], failure = Some (JsError ''Error'' ''LLM service is temporarily unavailable''),
      released = 0\<rparr> \<and>
   \<not> str_includes ''LLM service is temporarily unavailable'' ''500'' \<and>
   generateResponse cfg p
     (\<lambda>req. Inr \<lparr>ok = False, status = 404, statusText = ''Not Found'', body = b\<rparr>) prompt ctx =
     \<lparr>yielded = [], failure = Some (JsError ''Error'' ''HTTP 404: Not Found''), released = 0\<rparr>"
  by (simp add: generateResponse_def createLLMError_def new_Error_def number_toString_def
      nat_digits.simps digit_char_def startsWith_def)

section \<open>Properties of the ChatManager\<close>

lemmas cm_eval = sendMessage_def sendMessage_try_def process_message_def prepare_user_message_def
  try_catch_finally_def
  then_do_def call_def createErrorResponse_def createAssistantMessage_def createUserMessage_def
  create_message_def generateMessageId_def addMessage_def saveConversation_def saveConfig_def
  trimConversationHistory_def generateResponseWithRetry_def ChatManager_generateResponse_def
  assemble_response_def
  buildContextString_def getRecentHistory_def getMessages_def js_slice_def js_slice_from_def
  context_sections_def delay_def error_message_or_def as_Error_def new_Error_def
  mock_collaborators_def accepts_def rejects_def fresh_manager_def default_config_def chatConfig_def
  number_toString_def nat_digits.simps digit_char_def join_with_def or_default_def Let_def
  js_trim_def is_js_space_def merge_context_def spread_field_def truthy_string_def retry_loop.simps
  generateSuggestions_def extractActions_def toLowerCase_def to_lower_char_def startsWith_def

lemma retry_loop_fail_steps:
  assumes "\<forall>i<j. \<exists>e. script (n + i) = Inl e" and "a + int j \<le> attempts"
  shows "retry_loop (scripted script) record_sleep attempts d a le \<lparr>calls = n, slept = sl\<rparr> =
         retry_loop (scripted script) record_sleep attempts d (a + int j)
           (if j = 0 then le else Some (as_Error (projl (script (n + j - 1)))))
           \<lparr>calls = n + j, slept = sl @ map (\<lambda>i. d * (a + int i)) [0..<j]\<rparr>"
  using assms
proof (induction j)
  case 0
  then show ?case by simp
next
  case (Suc j)
  from Suc.prems have fails: "\<forall>i<j. \<exists>e. script (n + i) = Inl e" and le: "a + int j \<le> attempts"
    by auto
  from Suc.prems obtain e where e: "script (n + j) = Inl e" by auto
  have lt: "a + int j < attempts" using Suc.prems(2) by simp
  have "retry_loop (scripted script) record_sleep attempts d a le \<lparr>calls = n, slept = sl\<rparr> =
        retry_loop (scripted script) record_sleep attempts d (a + int j)
           (if j = 0 then le else Some (as_Error (projl (script (n + j - 1)))))
           \<lparr>calls = n + j, slept = sl @ map (\<lambda>i. d * (a + int i)) [0..<j]\<rparr>"
    by (rule Suc.IH[OF fails le])
  also have "\<dots> = retry_loop (scripted script) record_sleep attempts d (a + int j + 1)
           (Some (as_Error e))
           \<lparr>calls = Suc (n + j), slept = (sl @ map (\<lambda>i. d * (a + int i)) [0..<j]) @ [d * (a + int j)]\<rparr>"
    using lt e
    by (subst retry_loop.simps) (simp add: scripted_def record_sleep_def)
  finally show ?case using e by (simp add: add.commute add.left_commute)
qed

text \<open>
  Claim C7. The loop of \<open>generateResponseWithRetry\<close>, run from attempt 1 on an operation
  whose successive calls follow a script, on a state that counts the calls and logs the
  sleeps. If the first \<open>k\<close> calls fail, call \<open>k + 1\<close> succeeds and \<open>k\<close> is below the
  configured attempts, the loop returns that success after \<open>k + 1\<close> calls, having slept
  \<open>baseDelay * 1\<close>, ..., \<open>baseDelay * k\<close>, one sleep after each failure. If all of the
  \<open>m + 1\<close> configured attempts fail, the loop makes exactly \<open>m + 1\<close> calls, sleeps
  \<open>baseDelay * 1\<close>, ..., \<open>baseDelay * m\<close> between them (none after the last), and throws
  the error of the last call (a thrown value that is not an \<open>Error\<close> becomes
  \<open>Error('Unknown error')\<close>). With no attempt configured the operation is never called.
\<close>

theorem retry_loop_contract:
  "((\<forall>i<k. \<exists>e. script i = Inl e) \<and> script k = Inr v \<and> int k < attempts \<longrightarrow>
      retry_loop (scripted script) record_sleep attempts baseDelay 1 None \<lparr>calls = 0, slept = []\<rparr> =
        (Inr v, \<lparr>calls = Suc k, slept = map (\<lambda>i. baseDelay * int (Suc i)) [0..<k]\<rparr>)) \<and>
   ((\<forall>i<Suc m. \<exists>e. script i = Inl e) \<and> attempts = int (Suc m) \<longrightarrow>
      retry_loop (scripted script) record_sleep attempts baseDelay 1 None \<lparr>calls = 0, slept = []\<rparr> =
        (Inl (as_Error (projl (script m))),
         \<lparr>calls = Suc m, slept = map (\<lambda>i. baseDelay * int (Suc i)) [0..<m]\<rparr>)) \<and>
   (attempts \<le> 0 \<longrightarrow>
      retry_loop (scripted script) record_sleep attempts baseDelay 1 None \<lparr>calls = 0, slept = []\<rparr> =
        (Inl (new_Error ''All retry attempts failed''), \<lparr>calls = 0, slept = []\<rparr>))"
proof (intro conjI impI)
  assume h: "(\<forall>i<k. \<exists>e. script i = Inl e) \<and> script k = Inr v \<and> int k < attempts"
  then have f: "\<forall>i<k. \<exists>e. script (0 + i) = Inl e" and b: "1 + int k \<le> attempts" by auto
  have "retry_loop (scripted script) record_sleep attempts baseDelay 1 None \<lparr>calls = 0, slept = []\<rparr> =
        retry_loop (scripted script) record_sleep attempts baseDelay (1 + int k)
           (if k = 0 then None else Some (as_Error (projl (script (0 + k - 1)))))
           \<lparr>calls = 0 + k, slept = [] @ map (\<lambda>i. baseDelay * (1 + int i)) [0..<k]\<rparr>"
    by (rule retry_loop_fail_steps[OF f b])
  also have "\<dots> = (Inr v, \<lparr>calls = Suc k, slept = map (\<lambda>i. baseDelay * (1 + int i)) [0..<k]\<rparr>)"
    using h by (subst retry_loop.simps) (simp add: scripted_def)
  finally show "retry_loop (scripted script) record_sleep attempts baseDelay 1 None \<lparr>calls = 0, slept = []\<rparr> =
        (Inr v, \<lparr>calls = Suc k, slept = map (\<lambda>i. baseDelay * int (Suc i)) [0..<k]\<rparr>)"
    by (simp add: add.commute)
next
  assume h: "(\<forall>i<Suc m. \<exists>e. script i = Inl e) \<and> attempts = int (Suc m)"
  then have f: "\<forall>i<m. \<exists>e. script (0 + i) = Inl e" and b: "1 + int m \<le> attempts" by auto
  from h obtain e where e: "script m = Inl e" by auto
  have "retry_loop (scripted script) record_sleep attempts baseDelay 1 None \<lparr>calls = 0, slept = []\<rparr> =
        retry_loop (scripted script) record_sleep attempts baseDelay (1 + int m)
           (if m = 0 then None else Some (as_Error (projl (script (0 + m - 1)))))
           \<lparr>calls = 0 + m, slept = [] @ map (\<lambda>i. baseDelay * (1 + int i)) [0..<m]\<rparr>"
    by (rule retry_loop_fail_steps[OF f b])
  also have "\<dots> = retry_loop (scripted script) record_sleep attempts baseDelay (1 + int m + 1)
           (Some (as_Error e))
           \<lparr>calls = Suc m, slept = map (\<lambda>i. baseDelay * (1 + int i)) [0..<m]\<rparr>"
    using h e by (subst retry_loop.simps) (simp add: scripted_def)
  also have "\<dots> = (Inl (as_Error e), \<lparr>calls = Suc m, slept = map (\<lambda>i. baseDelay * (1 + int i)) [0..<m]\<rparr>)"
    using h by (subst retry_loop.simps) simp
  finally show "retry_loop (scripted script) record_sleep attempts baseDelay 1 None \<lparr>calls = 0, slept = []\<rparr> =
        (Inl (as_Error (projl (script m))),
         \<lparr>calls = Suc m, slept = map (\<lambda>i. baseDelay * int (Suc i)) [0..<m]\<rparr>)"
    using e by (simp add: add.commute)
next
  assume "attempts \<le> 0"
  then show "retry_loop (scripted script) record_sleep attempts baseDelay 1 None \<lparr>calls = 0, slept = []\<rparr> =
        (Inl (new_Error ''All retry attempts failed''), \<lparr>calls = 0, slept = []\<rparr>)"
    by (subst retry_loop.simps) simp
qed

theorem retry_loop_contract_witness:
  "retry_loop (scripted (\<lambda>n. if n < 2 then Inl (new_Error ''Network error'') else Inr ''Success after retry''))
     record_sleep 3 1000 1 None \<lparr>calls = 0, slept = []\<rparr> =
     (Inr ''Success after retry'', \<lparr>calls = 3, slept = [1000, 2000]\<rparr>) \<and>
   retry_loop (scripted (\<lambda>n. Inl (new_Error ''Persistent error'') :: thrown + string))
     record_sleep 3 1000 1 None \<lparr>calls = 0, slept = []\<rparr> =
     (Inl (new_Error ''Persistent error''), \<lparr>calls = 3, slept = [1000, 2000]\<rparr>) \<and>
   retry_loop (scripted (\<lambda>n. Inl (new_Error ''Persistent error'') :: thrown + string))
     record_sleep 0 1000 1 None \<lparr>calls = 0, slept = []\<rparr> =
     (Inl (new_Error ''All retry attempts failed''), \<lparr>calls = 0, slept = []\<rparr>) \<and>
   (let r = sendMessage
              (mock_collaborators accepts (Inl NonError)
                 (\<lambda>n. if n < 2 then ([], Some (new_Error ''Network error'')) else ([''Success after retry''], None)))
              default_config ''Test message'' None fresh_manager
    in map_sum id (\<lambda>resp. (content (message resp), error resp)) (fst r) = Inr (''Success after retry'', None) \<and>
       delays (snd r) = [1000, 2000] \<and> llm_calls (world (snd r)) = 3)"
proof -
  have u: "[0..<2] = [0, Suc 0]" by (simp add: upt_rec)
  let ?flaky = "\<lambda>n::nat. if n < 2 then Inl (new_Error ''Network error'') else Inr ''Success after retry''"
  let ?bad = "\<lambda>n::nat. Inl (new_Error ''Persistent error'') :: thrown + string"
  have a: "retry_loop (scripted ?flaky) record_sleep 3 1000 1 None \<lparr>calls = 0, slept = []\<rparr> =
     (Inr ''Success after retry'', \<lparr>calls = 3, slept = [1000, 2000]\<rparr>)"
    using retry_loop_contract[of 2 ?flaky "''Success after retry''" 3 1000] u by simp
  have b: "retry_loop (scripted ?bad) record_sleep 3 1000 1 None \<lparr>calls = 0, slept = []\<rparr> =
     (Inl (new_Error ''Persistent error''), \<lparr>calls = 3, slept = [1000, 2000]\<rparr>)"
    using retry_loop_contract[of _ ?bad _ 3 1000 2] u by (simp add: as_Error_def new_Error_def)
  have c: "retry_loop (scripted ?bad) record_sleep 0 1000 1 None \<lparr>calls = 0, slept = []\<rparr> =
     (Inl (new_Error ''All retry attempts failed''), \<lparr>calls = 0, slept = []\<rparr>)"
    using retry_loop_contract[of _ ?bad _ 0 1000] by simp
  have d: "(let r = sendMessage
              (mock_collaborators accepts (Inl NonError)
                 (\<lambda>n. if n < 2 then ([], Some (new_Error ''Network error'')) else ([''Success after retry''], None)))
              default_config ''Test message'' None fresh_manager
    in map_sum id (\<lambda>resp. (content (message resp), error resp)) (fst r) = Inr (''Success after retry'', None) \<and>
       delays (snd r) = [1000, 2000] \<and> llm_calls (world (snd r)) = 3)"
    by (simp add: cm_eval)
  from a b c d show ?thesis by blast
qed

lemma then_do_Inr:
  assumes "then_do f g s = (Inr v, s')"
  obtains x s1 where "f s = (Inr x, s1)" and "g x s1 = (Inr v, s')"
  using assms by (auto simp: then_do_def split: prod.splits sum.splits)

lemma call_frame:
  assumes "call f s = (r, s')"
  shows "isProcessing s' = isProcessing s \<and> currentConversation s' = currentConversation s \<and>
         delays s' = delays s \<and> (r, world s') = f (world s)"
  using assms by (auto simp: call_def split: prod.splits)

lemma create_message_fields:
  assumes "create_message r c text s = (m, s')"
  shows "role m = r \<and> content m = text \<and> msg_context m = None \<and> metadata m = None \<and>
         isProcessing s' = isProcessing s \<and> currentConversation s' = currentConversation s \<and>
         delays s' = delays s"
  using assms
  by (auto simp: create_message_def generateMessageId_def split: prod.splits dest!: call_frame)

lemma createErrorResponse_shape:
  assumes "createErrorResponse c msg t s = (resp, s')"
  shows "role (message resp) = Assistant \<and>
         content (message resp) = ''I apologize, but I encountered an error: '' @ msg \<and>
         suggestions resp = None \<and> actions resp = None \<and>
         error resp = Some \<lparr>err_type = (case t of None \<Rightarrow> System | Some ty \<Rightarrow> ty), err_message = msg,
                              err_code = None,
                              retryable = ((case t of None \<Rightarrow> System | Some ty \<Rightarrow> ty) = Network \<or>
                                           (case t of None \<Rightarrow> System | Some ty \<Rightarrow> ty) = System)\<rparr> \<and>
         isProcessing s' = isProcessing s \<and> currentConversation s' = currentConversation s \<and>
         delays s' = delays s"
proof -
  obtain m where cm: "createAssistantMessage c (''I apologize, but I encountered an error: '' @ msg) s = (m, s')"
    and r: "resp = \<lparr>message = m, suggestions = None, actions = None,
               error = Some \<lparr>err_type = (case t of None \<Rightarrow> System | Some ty \<Rightarrow> ty), err_message = msg,
                             err_code = None,
                             retryable = ((case t of None \<Rightarrow> System | Some ty \<Rightarrow> ty) = Network \<or>
                                          (case t of None \<Rightarrow> System | Some ty \<Rightarrow> ty) = System)\<rparr>\<rparr>"
    using assms by (auto simp: createErrorResponse_def Let_def split: prod.splits)
  from cm have "create_message Assistant c (''I apologize, but I encountered an error: '' @ msg) s = (m, s')"
    by (simp add: createAssistantMessage_def)
  from create_message_fields[OF this] r show ?thesis by simp
qed

lemma retry_loop_Inr:
  "retry_loop operation sleep attempts d a le s = (Inr v, s') \<Longrightarrow> \<exists>t. operation t = (Inr v, s')"
proof (induction operation sleep attempts d a le s rule: retry_loop.induct)
  case (1 operation sleep attempts baseDelay attempt lastError s)
  show ?case
  proof (cases "attempt \<le> attempts")
    case False
    with "1.prems" show ?thesis by (subst (asm) retry_loop.simps) simp
  next
    case True
    obtain r s1 where op: "operation s = (r, s1)" by (cases "operation s")
    show ?thesis
    proof (cases r)
      case (Inr w)
      with "1.prems" True op have "w = v \<and> s1 = s'"
        by (subst (asm) retry_loop.simps) simp
      with op Inr show ?thesis by blast
    next
      case (Inl e)
      with "1.prems" True op have
        "retry_loop operation sleep attempts baseDelay (attempt + 1) (Some (as_Error e))
           (if attempt < attempts then sleep (baseDelay * attempt) s1 else s1) = (Inr v, s')"
        by (subst (asm) retry_loop.simps) simp
      with "1.IH"[OF True op[symmetric] Inl] show ?thesis by blast
    qed
  qed
qed

lemma assemble_response_role:
  assumes "assemble_response c cfg startTime chunks s = (Inr m, s')"
  shows "role m = Assistant"
proof -
  obtain endTime s1 where t1: "call (date_now c) s = (endTime, s1)" by (cases "call (date_now c) s")
  from assms t1 obtain sc s2 where
    r2: "(case createAssistantMessage c sc s2 of
            (assistantMessage, s3) \<Rightarrow>
              then_do (call (llm_estimateTokens c sc))
                (\<lambda>tokens s4.
                   (Inr (assistantMessage
                      \<lparr>metadata := Some \<lparr>tokenCount = Some tokens,
                           processingTime = Some (endTime - startTime),
                           model = Some ''llm-service'',
                           truncated = None\<rparr>\<rparr>), s4))
                s3) = (Inr m, s')"
    unfolding assemble_response_def Let_def by (auto elim!: then_do_Inr)
  obtain am s3 where ca: "createAssistantMessage c sc s2 = (am, s3)" by (cases "createAssistantMessage c sc s2")
  from ca have "role am = Assistant"
    using create_message_fields[of Assistant c sc s2 am s3] by (simp add: createAssistantMessage_def)
  with r2 ca show ?thesis by (auto elim!: then_do_Inr)
qed

lemma ChatManager_generateResponse_role:
  assumes "ChatManager_generateResponse c cfg um s = (Inr m, s')"
  shows "role m = Assistant"
proof -
  from assms obtain startTime chunks t where "assemble_response c cfg startTime chunks t = (Inr m, s')"
    unfolding ChatManager_generateResponse_def
    by (auto split: prod.splits option.splits elim!: then_do_Inr)
  then show ?thesis by (rule assemble_response_role)
qed

lemma process_message_Inr:
  assumes "process_message c cfg text ctx s = (Inr resp, s')"
  shows "role (message resp) = Assistant \<and> error resp = None"
proof -
  from assms obtain um s3 am s4 where
    g: "generateResponseWithRetry c cfg um s3 = (Inr am, s4)" and m: "message resp = am" and e: "error resp = None"
    unfolding process_message_def
    by (auto simp: Let_def split: prod.splits elim!: then_do_Inr)
  from g obtain t where "ChatManager_generateResponse c cfg um t = (Inr am, s4)"
    unfolding generateResponseWithRetry_def by (blast dest: retry_loop_Inr)
  then have "role am = Assistant" by (rule ChatManager_generateResponse_role)
  with m e show ?thesis by simp
qed

lemma sendMessage_try_Inr:
  assumes "sendMessage_try c cfg text ctx s = (Inr resp, s')"
  shows "role (message resp) = Assistant \<and>
         (case error resp of None \<Rightarrow> True
          | Some e \<Rightarrow> content (message resp) = ''I apologize, but I encountered an error: '' @ err_message e)"
proof (cases "enableSafetyFilter cfg")
  case False
  with assms have "process_message c cfg text ctx s = (Inr resp, s')"
    by (simp add: sendMessage_try_def)
  from process_message_Inr[OF this] show ?thesis by simp
next
  case True
  with assms have td: "then_do (call (validateRequest c text))
             (\<lambda>validation s1.
                if \<not> isValid validation
                then (case createErrorResponse c
                             (''Message blocked: '' @ join_with '', '' (errors validation)) (Some Validation) s1 of
                        (r, s2) \<Rightarrow> (Inr r, s2))
                else process_message c cfg text ctx s1)
             s = (Inr resp, s')"
    by (simp add: sendMessage_try_def)
  from td show ?thesis
  proof (rule then_do_Inr)
    fix validation s1
    assume v: "(if \<not> isValid validation
                then (case createErrorResponse c
                             (''Message blocked: '' @ join_with '', '' (errors validation)) (Some Validation) s1 of
                        (r, s2) \<Rightarrow> (Inr r, s2))
                else process_message c cfg text ctx s1) = (Inr resp, s')"
    show ?thesis
    proof (cases "isValid validation")
      case True
      with v have "process_message c cfg text ctx s1 = (Inr resp, s')" by simp
      from process_message_Inr[OF this] show ?thesis by simp
    next
      case False
      with v have "createErrorResponse c (''Message blocked: '' @ join_with '', '' (errors validation)) (Some Validation) s1 = (resp, s')"
        by (auto split: prod.splits)
      from createErrorResponse_shape[OF this] show ?thesis by simp
    qed
  qed
qed

lemma process_message_generated:
  assumes "process_message c cfg text ctx s = (Inr resp, s')"
  shows "error resp = None \<and>
         (\<exists>um t t'. ChatManager_generateResponse c cfg um t = (Inr (message resp), t'))"
proof -
  from assms obtain um s3 am s4 where
    g: "generateResponseWithRetry c cfg um s3 = (Inr am, s4)" and m: "message resp = am" and e: "error resp = None"
    unfolding process_message_def
    by (auto simp: Let_def split: prod.splits elim!: then_do_Inr)
  from g obtain t where "ChatManager_generateResponse c cfg um t = (Inr am, s4)"
    unfolding generateResponseWithRetry_def by (blast dest: retry_loop_Inr)
  with m e show ?thesis by blast
qed

lemma sendMessage_try_generated:
  assumes "sendMessage_try c cfg text ctx s = (Inr resp, s')" and "error resp = None"
  shows "\<exists>um t t'. ChatManager_generateResponse c cfg um t = (Inr (message resp), t')"
proof (cases "enableSafetyFilter cfg")
  case False
  with assms have "process_message c cfg text ctx s = (Inr resp, s')"
    by (simp add: sendMessage_try_def)
  from process_message_generated[OF this] show ?thesis by simp
next
  case True
  with assms have td: "then_do (call (validateRequest c text))
             (\<lambda>validation s1.
                if \<not> isValid validation
                then (case createErrorResponse c
                             (''Message blocked: '' @ join_with '', '' (errors validation)) (Some Validation) s1 of
                        (r, s2) \<Rightarrow> (Inr r, s2))
                else process_message c cfg text ctx s1)
             s = (Inr resp, s')"
    by (simp add: sendMessage_try_def)
  from td show ?thesis
  proof (rule then_do_Inr)
    fix validation s1
    assume v: "(if \<not> isValid validation
                then (case createErrorResponse c
                             (''Message blocked: '' @ join_with '', '' (errors validation)) (Some Validation) s1 of
                        (r, s2) \<Rightarrow> (Inr r, s2))
                else process_message c cfg text ctx s1) = (Inr resp, s')"
    show ?thesis
    proof (cases "isValid validation")
      case True
      with v have "process_message c cfg text ctx s1 = (Inr resp, s')" by simp
      from process_message_generated[OF this] show ?thesis by simp
    next
      case False
      with v have "createErrorResponse c (''Message blocked: '' @ join_with '', '' (errors validation)) (Some Validation) s1 = (resp, s')"
        by (auto split: prod.splits)
      from createErrorResponse_shape[OF this] assms(2) show ?thesis by simp
    qed
  qed
qed

lemma process_message_retry_failed:
  assumes "prepare_user_message c cfg text ctx s = (um, s3)"
    and "addMessage c (chatConfig cfg) um s3 = (Inr u, s4)"
    and "generateResponseWithRetry c cfg um s4 = (Inl e, s5)"
  shows "process_message c cfg text ctx s = (Inl e, s5)"
  using assms by (simp add: process_message_def then_do_def)

lemma process_message_append_failed:
  assumes "prepare_user_message c cfg text ctx s = (um, s3)"
    and "addMessage c (chatConfig cfg) um s3 = (Inl e, s4)"
  shows "process_message c cfg text ctx s = (Inl e, s4)"
  using assms by (simp add: process_message_def then_do_def)

lemma process_message_succeeds:
  assumes "prepare_user_message c cfg text ctx s = (um, s3)"
    and "addMessage c (chatConfig cfg) um s3 = (Inr u, s4)"
    and "generateResponseWithRetry c cfg um s4 = (Inr am, s5)"
    and "addMessage c (chatConfig cfg) am s5 = (Inr u', s6)"
    and "trimConversationHistory c (chatConfig cfg) None s6 = (Inr u'', s7)"
  shows "process_message c cfg text ctx s =
         (Inr \<lparr>message = am, suggestions = Some (generateSuggestions am),
               actions = Some (extractActions am), error = None\<rparr>, s7)"
  using assms by (simp add: process_message_def then_do_def)

lemma sendMessage_try_admitted:
  assumes "if enableSafetyFilter cfg
           then (\<exists>v. call (validateRequest c text) s = (Inr v, s1) \<and> isValid v)
           else s1 = s"
  shows "sendMessage_try c cfg text ctx s = process_message c cfg text ctx s1"
  using assms by (auto simp: sendMessage_try_def then_do_def split: if_splits)

lemma sendMessage_try_rejected:
  assumes "enableSafetyFilter cfg" and "call (validateRequest c text) s = (Inr v, s1)" and "\<not> isValid v"
  shows "sendMessage_try c cfg text ctx s =
         (Inr (fst (createErrorResponse c (''Message blocked: '' @ join_with '', '' (errors v)) (Some Validation) s1)),
          snd (createErrorResponse c (''Message blocked: '' @ join_with '', '' (errors v)) (Some Validation) s1))"
  using assms by (auto simp: sendMessage_try_def then_do_def split: prod.splits)

text \<open>
  Claim C2. Whatever the message, the state and the collaborators do, \<open>sendMessage\<close>
  returns a response and throws nothing. The response holds an assistant message; when it
  carries an error, the content of the message is the apology followed by the message of
  the error. Whatever the \<open>try\<close> block throws comes back as an error of type
  \<open>system\<close> with the message of what was thrown. That is the case, on an idle
  manager, when the message has passed the safety check and has been appended to the
  conversation and the retry loop gives up with its last error, and when appending the
  user message fails. A message that the validator rejects comes back as an error of type
  \<open>validation\<close>. A response without an error holds a message that a call of
  \<open>generateResponse\<close> returned; and when the message has passed the safety check,
  the retry loop returns a message, and that message is appended and the history trimmed,
  the response holds that message and no error, whether or not gathering the context has
  thrown.
\<close>

theorem sendMessage_never_throws:
  "\<exists>resp s'.
     sendMessage c cfg text ctx s = (Inr resp, s') \<and>
     role (message resp) = Assistant \<and>
     (case error resp of
        None \<Rightarrow> True
      | Some e \<Rightarrow> content (message resp) = ''I apologize, but I encountered an error: '' @ err_message e) \<and>
     (\<forall>e. \<not> isProcessing s \<and> fst (sendMessage_try c cfg text ctx (s\<lparr>isProcessing := True\<rparr>)) = Inl e \<longrightarrow>
          error resp = Some \<lparr>err_type = System, err_message = error_message_or e ''Unknown error occurred'',
                               err_code = None, retryable = True\<rparr>) \<and>
     (error resp = None \<longrightarrow>
        (\<exists>um t t'. ChatManager_generateResponse c cfg um t = (Inr (message resp), t'))) \<and>
     (\<forall>s1 um s3 u s4 e s5.
        \<not> isProcessing s \<and>
        (if enableSafetyFilter cfg
         then (\<exists>v. call (validateRequest c text) (s\<lparr>isProcessing := True\<rparr>) = (Inr v, s1) \<and> isValid v)
         else s1 = s\<lparr>isProcessing := True\<rparr>) \<and>
        prepare_user_message c cfg text ctx s1 = (um, s3) \<and>
        addMessage c (chatConfig cfg) um s3 = (Inr u, s4) \<and>
        generateResponseWithRetry c cfg um s4 = (Inl e, s5) \<longrightarrow>
          error resp = Some \<lparr>err_type = System, err_message = error_message_or e ''Unknown error occurred'',
                               err_code = None, retryable = True\<rparr>) \<and>
     (\<forall>s1 um s3 e s4.
        \<not> isProcessing s \<and>
        (if enableSafetyFilter cfg
         then (\<exists>v. call (validateRequest c text) (s\<lparr>isProcessing := True\<rparr>) = (Inr v, s1) \<and> isValid v)
         else s1 = s\<lparr>isProcessing := True\<rparr>) \<and>
        prepare_user_message c cfg text ctx s1 = (um, s3) \<and>
        addMessage c (chatConfig cfg) um s3 = (Inl e, s4) \<longrightarrow>
          error resp = Some \<lparr>err_type = System, err_message = error_message_or e ''Unknown error occurred'',
                               err_code = None, retryable = True\<rparr>) \<and>
     (\<forall>v s1.
        \<not> isProcessing s \<and> enableSafetyFilter cfg \<and>
        call (validateRequest c text) (s\<lparr>isProcessing := True\<rparr>) = (Inr v, s1) \<and> \<not> isValid v \<longrightarrow>
          error resp = Some \<lparr>err_type = Validation,
                               err_message = ''Message blocked: '' @ join_with '', '' (errors v),
                               err_code = None, retryable = False\<rparr>) \<and>
     (\<forall>s1 um s3 u s4 am s5 u' s6 u'' s7.
        \<not> isProcessing s \<and>
        (if enableSafetyFilter cfg
         then (\<exists>v. call (validateRequest c text) (s\<lparr>isProcessing := True\<rparr>) = (Inr v, s1) \<and> isValid v)
         else s1 = s\<lparr>isProcessing := True\<rparr>) \<and>
        prepare_user_message c cfg text ctx s1 = (um, s3) \<and>
        addMessage c (chatConfig cfg) um s3 = (Inr u, s4) \<and>
        generateResponseWithRetry c cfg um s4 = (Inr am, s5) \<and>
        addMessage c (chatConfig cfg) am s5 = (Inr u', s6) \<and>
        trimConversationHistory c (chatConfig cfg) None s6 = (Inr u'', s7) \<longrightarrow>
          error resp = None \<and> message resp = am)"
proof -
  let ?s0 = "s\<lparr>isProcessing := True\<rparr>"
  let ?sys = "\<lambda>e. Some \<lparr>err_type = System, err_message = error_message_or e ''Unknown error occurred'',
                               err_code = None, retryable = True\<rparr>"
  let ?adm = "\<lambda>s1. if enableSafetyFilter cfg
         then (\<exists>v. call (validateRequest c text) ?s0 = (Inr v, s1) \<and> isValid v)
         else s1 = ?s0"
  let ?A = "\<lambda>resp. role (message resp) = Assistant"
  let ?P = "\<lambda>resp. case error resp of
        None \<Rightarrow> True
      | Some e \<Rightarrow> content (message resp) = ''I apologize, but I encountered an error: '' @ err_message e"
  let ?B = "\<lambda>resp. \<forall>e. \<not> isProcessing s \<and> fst (sendMessage_try c cfg text ctx ?s0) = Inl e \<longrightarrow>
          error resp = ?sys e"
  let ?C = "\<lambda>resp. error resp = None \<longrightarrow>
        (\<exists>um t t'. ChatManager_generateResponse c cfg um t = (Inr (message resp), t'))"
  let ?E = "\<lambda>resp. \<forall>s1 um s3 u s4 e s5.
        \<not> isProcessing s \<and> ?adm s1 \<and>
        prepare_user_message c cfg text ctx s1 = (um, s3) \<and>
        addMessage c (chatConfig cfg) um s3 = (Inr u, s4) \<and>
        generateResponseWithRetry c cfg um s4 = (Inl e, s5) \<longrightarrow>
          error resp = ?sys e"
  let ?G = "\<lambda>resp. \<forall>s1 um s3 e s4.
        \<not> isProcessing s \<and> ?adm s1 \<and>
        prepare_user_message c cfg text ctx s1 = (um, s3) \<and>
        addMessage c (chatConfig cfg) um s3 = (Inl e, s4) \<longrightarrow>
          error resp = ?sys e"
  let ?F = "\<lambda>resp. \<forall>v s1.
        \<not> isProcessing s \<and> enableSafetyFilter cfg \<and>
        call (validateRequest c text) ?s0 = (Inr v, s1) \<and> \<not> isValid v \<longrightarrow>
          error resp = Some \<lparr>err_type = Validation,
                               err_message = ''Message blocked: '' @ join_with '', '' (errors v),
                               err_code = None, retryable = False\<rparr>"
  let ?H = "\<lambda>resp. \<forall>s1 um s3 u s4 am s5 u' s6 u'' s7.
        \<not> isProcessing s \<and> ?adm s1 \<and>
        prepare_user_message c cfg text ctx s1 = (um, s3) \<and>
        addMessage c (chatConfig cfg) um s3 = (Inr u, s4) \<and>
        generateResponseWithRetry c cfg um s4 = (Inr am, s5) \<and>
        addMessage c (chatConfig cfg) am s5 = (Inr u', s6) \<and>
        trimConversationHistory c (chatConfig cfg) None s6 = (Inr u'', s7) \<longrightarrow>
          error resp = None \<and> message resp = am"
  have "\<exists>resp s'. sendMessage c cfg text ctx s = (Inr resp, s') \<and> ?A resp \<and> ?P resp \<and> ?B resp \<and>
          ?C resp \<and> ?E resp \<and> ?G resp \<and> ?F resp \<and> ?H resp"
  proof (cases "isProcessing s")
    case True
    obtain r s1 where ce: "createErrorResponse c ''Another message is currently being processed'' None s = (r, s1)"
      by (cases "createErrorResponse c ''Another message is currently being processed'' None s")
    with True have sm: "sendMessage c cfg text ctx s = (Inr r, s1)" by (simp add: sendMessage_def)
    from createErrorResponse_shape[OF ce] have A: "?A r" and P: "?P r" and ne: "error r \<noteq> None"
      by simp_all
    from True have B: "?B r" and E: "?E r" and G: "?G r" and F: "?F r" and H: "?H r" by simp_all
    from ne have C: "?C r" by blast
    show ?thesis by (intro exI conjI) (rule sm A P B C E G F H)+
  next
    case False
    obtain r0 t0 where body: "sendMessage_try c cfg text ctx ?s0 = (r0, t0)"
      by (cases "sendMessage_try c cfg text ctx ?s0")
    have retry: "r0 = Inl e" if "?adm s1" "prepare_user_message c cfg text ctx s1 = (um, s3)"
          "addMessage c (chatConfig cfg) um s3 = (Inr u, s4)"
          "generateResponseWithRetry c cfg um s4 = (Inl e, s5)" for s1 um s3 u s4 e s5
      using sendMessage_try_admitted[OF that(1), of ctx] process_message_retry_failed[OF that(2,3,4)] body
      by simp
    have append: "r0 = Inl e" if "?adm s1" "prepare_user_message c cfg text ctx s1 = (um, s3)"
          "addMessage c (chatConfig cfg) um s3 = (Inl e, s4)" for s1 um s3 e s4
      using sendMessage_try_admitted[OF that(1), of ctx] process_message_append_failed[OF that(2,3)] body
      by simp
    have finished: "r0 = Inr \<lparr>message = am, suggestions = Some (generateSuggestions am),
                         actions = Some (extractActions am), error = None\<rparr>"
      if "?adm s1" "prepare_user_message c cfg text ctx s1 = (um, s3)"
          "addMessage c (chatConfig cfg) um s3 = (Inr u, s4)"
          "generateResponseWithRetry c cfg um s4 = (Inr am, s5)"
          "addMessage c (chatConfig cfg) am s5 = (Inr u', s6)"
          "trimConversationHistory c (chatConfig cfg) None s6 = (Inr u'', s7)"
      for s1 um s3 u s4 am s5 u' s6 u'' s7
      using sendMessage_try_admitted[OF that(1), of ctx] process_message_succeeds[OF that(2,3,4,5,6)] body
      by simp
    have rejected: "r0 = Inr (fst (createErrorResponse c (''Message blocked: '' @ join_with '', '' (errors v)) (Some Validation) s1))"
      if "enableSafetyFilter cfg" "call (validateRequest c text) ?s0 = (Inr v, s1)" "\<not> isValid v" for v s1
      using sendMessage_try_rejected[OF that, of ctx] body by simp
    show ?thesis
    proof (cases r0)
      case (Inr resp)
      with False body have sm: "sendMessage c cfg text ctx s = (Inr resp, t0\<lparr>isProcessing := False\<rparr>)"
        by (simp add: sendMessage_def try_catch_finally_def)
      have A: "?A resp" and P: "?P resp"
        using sendMessage_try_Inr[of c cfg "text" ctx ?s0 resp t0] body Inr by simp_all
      have C: "?C resp"
        using sendMessage_try_generated[of c cfg "text" ctx ?s0 resp t0] body Inr by blast
      have B: "?B resp" using body Inr by simp
      have E: "?E resp" using retry Inr by blast
      have G: "?G resp" using append Inr by blast
      have H: "?H resp"
      proof (intro allI impI)
        fix s1 um s3 u s4 am s5 u' s6 u'' s7
        assume h: "\<not> isProcessing s \<and> ?adm s1 \<and>
          prepare_user_message c cfg text ctx s1 = (um, s3) \<and>
          addMessage c (chatConfig cfg) um s3 = (Inr u, s4) \<and>
          generateResponseWithRetry c cfg um s4 = (Inr am, s5) \<and>
          addMessage c (chatConfig cfg) am s5 = (Inr u', s6) \<and>
          trimConversationHistory c (chatConfig cfg) None s6 = (Inr u'', s7)"
        then have "r0 = Inr \<lparr>message = am, suggestions = Some (generateSuggestions am),
                         actions = Some (extractActions am), error = None\<rparr>"
          using finished[of s1 um s3 u s4 am s5 u' s6 u'' s7] by blast
        with Inr show "error resp = None \<and> message resp = am" by auto
      qed
      have F: "?F resp"
      proof (intro allI impI)
        fix v s1
        assume h: "\<not> isProcessing s \<and> enableSafetyFilter cfg \<and>
          call (validateRequest c text) ?s0 = (Inr v, s1) \<and> \<not> isValid v"
        obtain r s2 where ce: "createErrorResponse c (''Message blocked: '' @ join_with '', '' (errors v)) (Some Validation) s1 = (r, s2)"
          by (cases "createErrorResponse c (''Message blocked: '' @ join_with '', '' (errors v)) (Some Validation) s1")
        from h rejected[of v s1] ce Inr have "resp = r" by simp
        with createErrorResponse_shape[OF ce]
        show "error resp = Some \<lparr>err_type = Validation,
                               err_message = ''Message blocked: '' @ join_with '', '' (errors v),
                               err_code = None, retryable = False\<rparr>"
          by simp
      qed
      show ?thesis by (intro exI conjI) (rule sm A P B C E G F H)+
    next
      case (Inl e)
      obtain r s1 where ce: "createErrorResponse c (error_message_or e ''Unknown error occurred'') (Some System) t0 = (r, s1)"
        by (cases "createErrorResponse c (error_message_or e ''Unknown error occurred'') (Some System) t0")
      with False body Inl have sm: "sendMessage c cfg text ctx s = (Inr r, s1\<lparr>isProcessing := False\<rparr>)"
        by (simp add: sendMessage_def try_catch_finally_def)
      from createErrorResponse_shape[OF ce]
      have A: "?A r" and P: "?P r" and err: "error r = ?sys e" by simp_all
      have B: "?B r" using body Inl err by simp
      have C: "?C r" using err by simp
      have E: "?E r" using retry Inl err by blast
      have G: "?G r" using append Inl err by blast
      have F: "?F r" using rejected Inl by blast
      have H: "?H r"
      proof (intro allI impI)
        fix s1 um s3 u s4 am s5 u' s6 u'' s7
        assume h: "\<not> isProcessing s \<and> ?adm s1 \<and>
          prepare_user_message c cfg text ctx s1 = (um, s3) \<and>
          addMessage c (chatConfig cfg) um s3 = (Inr u, s4) \<and>
          generateResponseWithRetry c cfg um s4 = (Inr am, s5) \<and>
          addMessage c (chatConfig cfg) am s5 = (Inr u', s6) \<and>
          trimConversationHistory c (chatConfig cfg) None s6 = (Inr u'', s7)"
        then have "r0 = Inr \<lparr>message = am, suggestions = Some (generateSuggestions am),
                         actions = Some (extractActions am), error = None\<rparr>"
          using finished[of s1 um s3 u s4 am s5 u' s6 u'' s7] by blast
        with Inl show "error r = None \<and> message r = am" by simp
      qed
      show ?thesis by (intro exI conjI) (rule sm A P B C E G F H)+
    qed
  qed
  then show ?thesis by simp
qed

theorem sendMessage_never_throws_witness:
  "\<not> isProcessing fresh_manager \<and>
   enableSafetyFilter default_config \<and>
   call (validateRequest (mock_collaborators accepts (Inl NonError) (\<lambda>n. ([], Some
   (new_Error ''Persistent error'')))) ''Test message'') (fresh_manager\<lparr>isProcessing :=
   True\<rparr>) = (Inr accepts, (fresh_manager\<lparr>isProcessing := True\<rparr>)) \<and>
   isValid accepts \<and>
   prepare_user_message (mock_collaborators accepts (Inl NonError) (\<lambda>n. ([], Some (new_Error
   ''Persistent error'')))) default_config ''Test message'' None (fresh_manager\<lparr>isProcessing
   := True\<rparr>) = (\<lparr>msg_id = ''msg_1_k3j9x0q2z'', role = User, content =
   ''Test message'', timestamp = 2, msg_context = None, metadata = None\<rparr>,
   (fresh_manager\<lparr>isProcessing := True, world := \<lparr>clock = 3, llm_calls =
   0\<rparr>\<rparr>)) \<and>
   addMessage (mock_collaborators accepts (Inl NonError) (\<lambda>n. ([], Some (new_Error
   ''Persistent error'')))) (chatConfig default_config) \<lparr>msg_id = ''msg_1_k3j9x0q2z'', role =
   User, content = ''Test message'', timestamp = 2, msg_context = None, metadata = None\<rparr>
   (fresh_manager\<lparr>isProcessing := True, world := \<lparr>clock = 3, llm_calls =
   0\<rparr>\<rparr>) = (Inr (), \<lparr>isProcessing = True, currentConversation = Some
   \<lparr>conv_id = ''conv_0'', title = ''Chat'', messages = [\<lparr>msg_id = ''msg_1_k3j9x0q2z'',
   role = User, content = ''Test message'', timestamp = 2, msg_context = None, metadata =
   None\<rparr>], createdAt = 0, lastModified = 3, messageCount = 1, totalTokens = 0, activeContext
   = None\<rparr>, delays = [], world = \<lparr>clock = 4, llm_calls = 0\<rparr>\<rparr>) \<and>
   generateResponseWithRetry (mock_collaborators accepts (Inl NonError) (\<lambda>n. ([], Some
   (new_Error ''Persistent error'')))) default_config \<lparr>msg_id = ''msg_1_k3j9x0q2z'', role =
   User, content = ''Test message'', timestamp = 2, msg_context = None, metadata = None\<rparr>
   \<lparr>isProcessing = True, currentConversation = Some \<lparr>conv_id = ''conv_0'', title =
   ''Chat'', messages = [\<lparr>msg_id = ''msg_1_k3j9x0q2z'', role = User, content =
   ''Test message'', timestamp = 2, msg_context = None, metadata = None\<rparr>], createdAt = 0,
   lastModified = 3, messageCount = 1, totalTokens = 0, activeContext = None\<rparr>, delays = [],
   world = \<lparr>clock = 4, llm_calls = 0\<rparr>\<rparr> = (Inl (new_Error
   ''LLM generation failed: Persistent error''), \<lparr>isProcessing = True, currentConversation =
   Some \<lparr>conv_id = ''conv_0'', title = ''Chat'', messages = [\<lparr>msg_id =
   ''msg_1_k3j9x0q2z'', role = User, content = ''Test message'', timestamp = 2, msg_context = None,
   metadata = None\<rparr>], createdAt = 0, lastModified = 3, messageCount = 1, totalTokens = 0,
   activeContext = None\<rparr>, delays = [1000, 2000], world = \<lparr>clock = 7, llm_calls =
   3\<rparr>\<rparr>) \<and>
   map_sum id (\<lambda>resp. (role (message resp), content (message resp), error resp)) (fst
   (sendMessage (mock_collaborators accepts (Inl NonError) (\<lambda>n. ([], Some (new_Error
   ''Persistent error'')))) default_config ''Test message'' None fresh_manager)) = Inr (Assistant,
   ''I apologize, but I encountered an error: LLM generation failed: Persistent error'', Some
   \<lparr>err_type = System, err_message = ''LLM generation failed: Persistent error'', err_code =
   None, retryable = True\<rparr>) \<and>
   \<not> isProcessing (fresh_manager\<lparr>currentConversation := None\<rparr>) \<and>
   fst (sendMessage_try (mock_collaborators accepts (Inl NonError) (\<lambda>n. ([''Hello '',
   ''world!''], None))) default_config ''Test message'' None
   ((fresh_manager\<lparr>currentConversation := None\<rparr>)\<lparr>isProcessing := True\<rparr>))
   = Inl (new_Error ''No active conversation'') \<and>
   call (validateRequest (mock_collaborators accepts (Inl NonError) (\<lambda>n. ([''Hello '',
   ''world!''], None))) ''Test message'') ((fresh_manager\<lparr>currentConversation :=
   None\<rparr>)\<lparr>isProcessing := True\<rparr>) = (Inr accepts,
   (fresh_manager\<lparr>currentConversation := None, isProcessing := True\<rparr>)) \<and>
   prepare_user_message (mock_collaborators accepts (Inl NonError) (\<lambda>n. ([''Hello '',
   ''world!''], None))) default_config ''Test message'' None
   (fresh_manager\<lparr>currentConversation := None, isProcessing := True\<rparr>) =
   (\<lparr>msg_id = ''msg_1_k3j9x0q2z'', role = User, content = ''Test message'', timestamp = 2,
   msg_context = None, metadata = None\<rparr>, (fresh_manager\<lparr>currentConversation := None,
   isProcessing := True, world := \<lparr>clock = 3, llm_calls = 0\<rparr>\<rparr>)) \<and>
   addMessage (mock_collaborators accepts (Inl NonError) (\<lambda>n. ([''Hello '', ''world!''],
   None))) (chatConfig default_config) \<lparr>msg_id = ''msg_1_k3j9x0q2z'', role = User, content =
   ''Test message'', timestamp = 2, msg_context = None, metadata = None\<rparr>
   (fresh_manager\<lparr>currentConversation := None, isProcessing := True, world := \<lparr>clock =
   3, llm_calls = 0\<rparr>\<rparr>) = (Inl (new_Error ''No active conversation''),
   (fresh_manager\<lparr>currentConversation := None, isProcessing := True, world := \<lparr>clock =
   3, llm_calls = 0\<rparr>\<rparr>)) \<and>
   map_sum id (\<lambda>resp. (role (message resp), content (message resp), error resp)) (fst
   (sendMessage (mock_collaborators accepts (Inl NonError) (\<lambda>n. ([''Hello '', ''world!''],
   None))) default_config ''Test message'' None (fresh_manager\<lparr>currentConversation :=
   None\<rparr>))) = Inr (Assistant,
   ''I apologize, but I encountered an error: No active conversation'', Some \<lparr>err_type =
   System, err_message = ''No active conversation'', err_code = None, retryable = True\<rparr>) \<and>
   call (validateRequest (mock_collaborators rejects (Inl NonError) (\<lambda>n. ([''Hello '',
   ''world!''], None))) ''rm -rf /'') (fresh_manager\<lparr>isProcessing := True\<rparr>) = (Inr
   rejects, (fresh_manager\<lparr>isProcessing := True\<rparr>)) \<and>
   \<not> isValid rejects \<and>
   map_sum id (\<lambda>resp. (role (message resp), content (message resp), error resp)) (fst
   (sendMessage (mock_collaborators rejects (Inl NonError) (\<lambda>n. ([''Hello '', ''world!''],
   None))) default_config ''rm -rf /'' None fresh_manager)) = Inr (Assistant,
   ''I apologize, but I encountered an error: Message blocked: Dangerous content detected'', Some
   \<lparr>err_type = Validation, err_message = ''Message blocked: Dangerous content detected'',
   err_code = None, retryable = False\<rparr>) \<and>
   call (validateRequest (mock_collaborators accepts (Inl NonError) (\<lambda>n. ([''Hello '',
   ''world!''], None))) ''Hello, how are you?'') (fresh_manager\<lparr>isProcessing := True\<rparr>)
   = (Inr accepts, (fresh_manager\<lparr>isProcessing := True\<rparr>)) \<and>
   call (getCurrentContext (mock_collaborators accepts (Inl NonError) (\<lambda>n. ([''Hello '',
   ''world!''], None)))) (fresh_manager\<lparr>isProcessing := True, world := \<lparr>clock = 3,
   llm_calls = 0\<rparr>\<rparr>) = (Inl NonError, (fresh_manager\<lparr>isProcessing := True, world
   := \<lparr>clock = 3, llm_calls = 0\<rparr>\<rparr>)) \<and>
   prepare_user_message (mock_collaborators accepts (Inl NonError) (\<lambda>n. ([''Hello '',
   ''world!''], None))) default_config ''Hello, how are you?'' None
   (fresh_manager\<lparr>isProcessing := True\<rparr>) = (\<lparr>msg_id = ''msg_1_k3j9x0q2z'', role
   = User, content = ''Hello, how are you?'', timestamp = 2, msg_context = None, metadata =
   None\<rparr>, (fresh_manager\<lparr>isProcessing := True, world := \<lparr>clock = 3, llm_calls =
   0\<rparr>\<rparr>)) \<and>
   addMessage (mock_collaborators accepts (Inl NonError) (\<lambda>n. ([''Hello '', ''world!''],
   None))) (chatConfig default_config) \<lparr>msg_id = ''msg_1_k3j9x0q2z'', role = User, content =
   ''Hello, how are you?'', timestamp = 2, msg_context = None, metadata = None\<rparr>
   (fresh_manager\<lparr>isProcessing := True, world := \<lparr>clock = 3, llm_calls =
   0\<rparr>\<rparr>) = (Inr (), \<lparr>isProcessing = True, currentConversation = Some
   \<lparr>conv_id = ''conv_0'', title = ''Chat'', messages = [\<lparr>msg_id = ''msg_1_k3j9x0q2z'',
   role = User, content = ''Hello, how are you?'', timestamp = 2, msg_context = None, metadata =
   None\<rparr>], createdAt = 0, lastModified = 3, messageCount = 1, totalTokens = 0, activeContext
   = None\<rparr>, delays = [], world = \<lparr>clock = 4, llm_calls = 0\<rparr>\<rparr>) \<and>
   generateResponseWithRetry (mock_collaborators accepts (Inl NonError) (\<lambda>n. ([''Hello '',
   ''world!''], None))) default_config \<lparr>msg_id = ''msg_1_k3j9x0q2z'', role = User, content =
   ''Hello, how are you?'', timestamp = 2, msg_context = None, metadata = None\<rparr>
   \<lparr>isProcessing = True, currentConversation = Some \<lparr>conv_id = ''conv_0'', title =
   ''Chat'', messages = [\<lparr>msg_id = ''msg_1_k3j9x0q2z'', role = User, content =
   ''Hello, how are you?'', timestamp = 2, msg_context = None, metadata = None\<rparr>], createdAt =
   0, lastModified = 3, messageCount = 1, totalTokens = 0, activeContext = None\<rparr>, delays =
   [], world = \<lparr>clock = 4, llm_calls = 0\<rparr>\<rparr> = (Inr \<lparr>msg_id =
   ''msg_6_k3j9x0q2z'', role = Assistant, content = ''Hello world!'', timestamp = 7, msg_context =
   None, metadata = Some \<lparr>tokenCount = Some 50, processingTime = Some 1, model = Some
   ''llm-service'', truncated = None\<rparr>\<rparr>, \<lparr>isProcessing = True,
   currentConversation = Some \<lparr>conv_id = ''conv_0'', title = ''Chat'', messages =
   [\<lparr>msg_id = ''msg_1_k3j9x0q2z'', role = User, content = ''Hello, how are you?'', timestamp
   = 2, msg_context = None, metadata = None\<rparr>], createdAt = 0, lastModified = 3, messageCount
   = 1, totalTokens = 0, activeContext = None\<rparr>, delays = [], world = \<lparr>clock = 8,
   llm_calls = 1\<rparr>\<rparr>) \<and>
   addMessage (mock_collaborators accepts (Inl NonError) (\<lambda>n. ([''Hello '', ''world!''],
   None))) (chatConfig default_config) \<lparr>msg_id = ''msg_6_k3j9x0q2z'', role = Assistant,
   content = ''Hello world!'', timestamp = 7, msg_context = None, metadata = Some \<lparr>tokenCount
   = Some 50, processingTime = Some 1, model = Some ''llm-service'', truncated =
   None\<rparr>\<rparr> \<lparr>isProcessing = True, currentConversation = Some \<lparr>conv_id =
   ''conv_0'', title = ''Chat'', messages = [\<lparr>msg_id = ''msg_1_k3j9x0q2z'', role = User,
   content = ''Hello, how are you?'', timestamp = 2, msg_context = None, metadata = None\<rparr>],
   createdAt = 0, lastModified = 3, messageCount = 1, totalTokens = 0, activeContext = None\<rparr>,
   delays = [], world = \<lparr>clock = 8, llm_calls = 1\<rparr>\<rparr> = (Inr (),
   \<lparr>isProcessing = True, currentConversation = Some \<lparr>conv_id = ''conv_0'', title =
   ''Chat'', messages = [\<lparr>msg_id = ''msg_1_k3j9x0q2z'', role = User, content =
   ''Hello, how are you?'', timestamp = 2, msg_context = None, metadata = None\<rparr>,
   \<lparr>msg_id = ''msg_6_k3j9x0q2z'', role = Assistant, content = ''Hello world!'', timestamp =
   7, msg_context = None, metadata = Some \<lparr>tokenCount = Some 50, processingTime = Some 1,
   model = Some ''llm-service'', truncated = None\<rparr>\<rparr>], createdAt = 0, lastModified = 8,
   messageCount = 2, totalTokens = 50, activeContext = None\<rparr>, delays = [], world =
   \<lparr>clock = 9, llm_calls = 1\<rparr>\<rparr>) \<and>
   trimConversationHistory (mock_collaborators accepts (Inl NonError) (\<lambda>n. ([''Hello '',
   ''world!''], None))) (chatConfig default_config) None \<lparr>isProcessing = True,
   currentConversation = Some \<lparr>conv_id = ''conv_0'', title = ''Chat'', messages =
   [\<lparr>msg_id = ''msg_1_k3j9x0q2z'', role = User, content = ''Hello, how are you?'', timestamp
   = 2, msg_context = None, metadata = None\<rparr>, \<lparr>msg_id = ''msg_6_k3j9x0q2z'', role =
   Assistant, content = ''Hello world!'', timestamp = 7, msg_context = None, metadata = Some
   \<lparr>tokenCount = Some 50, processingTime = Some 1, model = Some ''llm-service'', truncated =
   None\<rparr>\<rparr>], createdAt = 0, lastModified = 8, messageCount = 2, totalTokens = 50,
   activeContext = None\<rparr>, delays = [], world = \<lparr>clock = 9, llm_calls =
   1\<rparr>\<rparr> = (Inr (), \<lparr>isProcessing = True, currentConversation = Some
   \<lparr>conv_id = ''conv_0'', title = ''Chat'', messages = [\<lparr>msg_id = ''msg_1_k3j9x0q2z'',
   role = User, content = ''Hello, how are you?'', timestamp = 2, msg_context = None, metadata =
   None\<rparr>, \<lparr>msg_id = ''msg_6_k3j9x0q2z'', role = Assistant, content = ''Hello world!'',
   timestamp = 7, msg_context = None, metadata = Some \<lparr>tokenCount = Some 50, processingTime =
   Some 1, model = Some ''llm-service'', truncated = None\<rparr>\<rparr>], createdAt = 0,
   lastModified = 8, messageCount = 2, totalTokens = 50, activeContext = None\<rparr>, delays = [],
   world = \<lparr>clock = 9, llm_calls = 1\<rparr>\<rparr>) \<and>
   map_sum id (\<lambda>resp. (role (message resp), content (message resp), error resp)) (fst
   (sendMessage (mock_collaborators accepts (Inl NonError) (\<lambda>n. ([''Hello '', ''world!''],
   None))) default_config ''Hello, how are you?'' None fresh_manager)) = Inr (Assistant,
   ''Hello world!'', None) \<and>
   (\<exists>um t t'. ChatManager_generateResponse (mock_collaborators accepts (Inl NonError)
    (\<lambda>n. ([''Hello '', ''world!''], None))) default_config um t = (Inr (message (projr (fst
    (sendMessage (mock_collaborators accepts (Inl NonError) (\<lambda>n. ([''Hello '', ''world!''],
    None))) default_config ''Hello, how are you?'' None fresh_manager)))), t'))"
proof -
  have idle:
    "\<not> isProcessing fresh_manager"
    by (simp add: fresh_manager_def)
  have safety:
    "enableSafetyFilter default_config"
    by (simp add: default_config_def)
  have val:
    "call (validateRequest (mock_collaborators accepts (Inl NonError) (\<lambda>n. ([], Some
     (new_Error ''Persistent error'')))) ''Test message'') (fresh_manager\<lparr>isProcessing :=
     True\<rparr>) = (Inr accepts, (fresh_manager\<lparr>isProcessing := True\<rparr>))"
    by (simp add: cm_eval)
  have ok:
    "isValid accepts"
    by (simp add: accepts_def)
  from safety val ok
  have adm:
    "if enableSafetyFilter default_config then (\<exists>v. call (validateRequest
     (mock_collaborators accepts (Inl NonError) (\<lambda>n. ([], Some (new_Error
     ''Persistent error'')))) ''Test message'') (fresh_manager\<lparr>isProcessing := True\<rparr>)
     = (Inr v, (fresh_manager\<lparr>isProcessing := True\<rparr>)) \<and> isValid v) else
     (fresh_manager\<lparr>isProcessing := True\<rparr>) = fresh_manager\<lparr>isProcessing :=
     True\<rparr>"
    by auto
  have prep:
    "prepare_user_message (mock_collaborators accepts (Inl NonError) (\<lambda>n. ([], Some
     (new_Error ''Persistent error'')))) default_config ''Test message'' None
     (fresh_manager\<lparr>isProcessing := True\<rparr>) = (\<lparr>msg_id = ''msg_1_k3j9x0q2z'',
     role = User, content = ''Test message'', timestamp = 2, msg_context = None, metadata =
     None\<rparr>, (fresh_manager\<lparr>isProcessing := True, world := \<lparr>clock = 3, llm_calls
     = 0\<rparr>\<rparr>))"
    by (simp add: cm_eval)
  have add:
    "addMessage (mock_collaborators accepts (Inl NonError) (\<lambda>n. ([], Some (new_Error
     ''Persistent error'')))) (chatConfig default_config) \<lparr>msg_id = ''msg_1_k3j9x0q2z'', role
     = User, content = ''Test message'', timestamp = 2, msg_context = None, metadata = None\<rparr>
     (fresh_manager\<lparr>isProcessing := True, world := \<lparr>clock = 3, llm_calls =
     0\<rparr>\<rparr>) = (Inr (), \<lparr>isProcessing = True, currentConversation = Some
     \<lparr>conv_id = ''conv_0'', title = ''Chat'', messages = [\<lparr>msg_id =
     ''msg_1_k3j9x0q2z'', role = User, content = ''Test message'', timestamp = 2, msg_context =
     None, metadata = None\<rparr>], createdAt = 0, lastModified = 3, messageCount = 1, totalTokens
     = 0, activeContext = None\<rparr>, delays = [], world = \<lparr>clock = 4, llm_calls =
     0\<rparr>\<rparr>)"
    by (simp add: cm_eval)
  have gen:
    "generateResponseWithRetry (mock_collaborators accepts (Inl NonError) (\<lambda>n. ([], Some
     (new_Error ''Persistent error'')))) default_config \<lparr>msg_id = ''msg_1_k3j9x0q2z'', role =
     User, content = ''Test message'', timestamp = 2, msg_context = None, metadata = None\<rparr>
     \<lparr>isProcessing = True, currentConversation = Some \<lparr>conv_id = ''conv_0'', title =
     ''Chat'', messages = [\<lparr>msg_id = ''msg_1_k3j9x0q2z'', role = User, content =
     ''Test message'', timestamp = 2, msg_context = None, metadata = None\<rparr>], createdAt = 0,
     lastModified = 3, messageCount = 1, totalTokens = 0, activeContext = None\<rparr>, delays = [],
     world = \<lparr>clock = 4, llm_calls = 0\<rparr>\<rparr> = (Inl (new_Error
     ''LLM generation failed: Persistent error''), \<lparr>isProcessing = True, currentConversation
     = Some \<lparr>conv_id = ''conv_0'', title = ''Chat'', messages = [\<lparr>msg_id =
     ''msg_1_k3j9x0q2z'', role = User, content = ''Test message'', timestamp = 2, msg_context =
     None, metadata = None\<rparr>], createdAt = 0, lastModified = 3, messageCount = 1, totalTokens
     = 0, activeContext = None\<rparr>, delays = [1000, 2000], world = \<lparr>clock = 7, llm_calls
     = 3\<rparr>\<rparr>)"
    by (simp add: cm_eval)
  from sendMessage_never_throws
    [of "(mock_collaborators accepts (Inl NonError) (\<lambda>n. ([], Some (new_Error
         ''Persistent error''))))"
        default_config "''Test message''" None "fresh_manager"]
  obtain resp1 t1 where sm_resp1:
      "sendMessage (mock_collaborators accepts (Inl NonError) (\<lambda>n. ([], Some (new_Error
       ''Persistent error'')))) default_config ''Test message'' None fresh_manager = (Inr resp1, t1)"
    and A_resp1:
      "role (message resp1) = Assistant"
    and P_resp1:
      "case error resp1 of None \<Rightarrow> True | Some e \<Rightarrow> content (message resp1) =
       ''I apologize, but I encountered an error: '' @ err_message e"
    and E_resp1:
      "\<forall>s1 um s3 u s4 e s5. \<not> isProcessing fresh_manager \<and> (if enableSafetyFilter
       default_config then (\<exists>v. call (validateRequest (mock_collaborators accepts (Inl
       NonError) (\<lambda>n. ([], Some (new_Error ''Persistent error'')))) ''Test message'')
       (fresh_manager\<lparr>isProcessing := True\<rparr>) = (Inr v, s1) \<and> isValid v) else s1 =
       fresh_manager\<lparr>isProcessing := True\<rparr>) \<and> prepare_user_message
       (mock_collaborators accepts (Inl NonError) (\<lambda>n. ([], Some (new_Error
       ''Persistent error'')))) default_config ''Test message'' None s1 = (um, s3) \<and> addMessage
       (mock_collaborators accepts (Inl NonError) (\<lambda>n. ([], Some (new_Error
       ''Persistent error'')))) (chatConfig default_config) um s3 = (Inr u, s4) \<and>
       generateResponseWithRetry (mock_collaborators accepts (Inl NonError) (\<lambda>n. ([], Some
       (new_Error ''Persistent error'')))) default_config um s4 = (Inl e, s5) \<longrightarrow>
       error resp1 = Some \<lparr>err_type = System, err_message = error_message_or e
       ''Unknown error occurred'', err_code = None, retryable = True\<rparr>"
    by (elim exE conjE) (rule that, assumption+)
  from E_resp1 idle adm prep add gen
  have
    "error resp1 = Some \<lparr>err_type = System, err_message = error_message_or (new_Error
     ''LLM generation failed: Persistent error'') ''Unknown error occurred'', err_code = None,
     retryable = True\<rparr>"
    by blast
  with sm_resp1 A_resp1 P_resp1
  have exhausted:
    "map_sum id (\<lambda>resp. (role (message resp), content (message resp), error resp)) (fst
     (sendMessage (mock_collaborators accepts (Inl NonError) (\<lambda>n. ([], Some (new_Error
     ''Persistent error'')))) default_config ''Test message'' None fresh_manager)) = Inr (Assistant,
     ''I apologize, but I encountered an error: LLM generation failed: Persistent error'', Some
     \<lparr>err_type = System, err_message = ''LLM generation failed: Persistent error'', err_code
     = None, retryable = True\<rparr>)"
    by (simp add: error_message_or_def new_Error_def)
  have idle2:
    "\<not> isProcessing (fresh_manager\<lparr>currentConversation := None\<rparr>)"
    by (simp add: fresh_manager_def)
  have thrown:
    "fst (sendMessage_try (mock_collaborators accepts (Inl NonError) (\<lambda>n. ([''Hello '',
     ''world!''], None))) default_config ''Test message'' None
     ((fresh_manager\<lparr>currentConversation := None\<rparr>)\<lparr>isProcessing :=
     True\<rparr>)) = Inl (new_Error ''No active conversation'')"
    by (simp add: cm_eval)
  have val2:
    "call (validateRequest (mock_collaborators accepts (Inl NonError) (\<lambda>n. ([''Hello '',
     ''world!''], None))) ''Test message'') ((fresh_manager\<lparr>currentConversation :=
     None\<rparr>)\<lparr>isProcessing := True\<rparr>) = (Inr accepts,
     (fresh_manager\<lparr>currentConversation := None, isProcessing := True\<rparr>))"
    by (simp add: cm_eval)
  from safety val2 ok
  have adm2:
    "if enableSafetyFilter default_config then (\<exists>v. call (validateRequest
     (mock_collaborators accepts (Inl NonError) (\<lambda>n. ([''Hello '', ''world!''], None)))
     ''Test message'') ((fresh_manager\<lparr>currentConversation :=
     None\<rparr>)\<lparr>isProcessing := True\<rparr>) = (Inr v,
     (fresh_manager\<lparr>currentConversation := None, isProcessing := True\<rparr>)) \<and>
     isValid v) else (fresh_manager\<lparr>currentConversation := None, isProcessing :=
     True\<rparr>) = (fresh_manager\<lparr>currentConversation := None\<rparr>)\<lparr>isProcessing
     := True\<rparr>"
    by auto
  have prep2:
    "prepare_user_message (mock_collaborators accepts (Inl NonError) (\<lambda>n. ([''Hello '',
     ''world!''], None))) default_config ''Test message'' None
     (fresh_manager\<lparr>currentConversation := None, isProcessing := True\<rparr>) =
     (\<lparr>msg_id = ''msg_1_k3j9x0q2z'', role = User, content = ''Test message'', timestamp = 2,
     msg_context = None, metadata = None\<rparr>, (fresh_manager\<lparr>currentConversation := None,
     isProcessing := True, world := \<lparr>clock = 3, llm_calls = 0\<rparr>\<rparr>))"
    by (simp add: cm_eval)
  have add2:
    "addMessage (mock_collaborators accepts (Inl NonError) (\<lambda>n. ([''Hello '', ''world!''],
     None))) (chatConfig default_config) \<lparr>msg_id = ''msg_1_k3j9x0q2z'', role = User, content
     = ''Test message'', timestamp = 2, msg_context = None, metadata = None\<rparr>
     (fresh_manager\<lparr>currentConversation := None, isProcessing := True, world := \<lparr>clock
     = 3, llm_calls = 0\<rparr>\<rparr>) = (Inl (new_Error ''No active conversation''),
     (fresh_manager\<lparr>currentConversation := None, isProcessing := True, world := \<lparr>clock
     = 3, llm_calls = 0\<rparr>\<rparr>))"
    by (simp add: cm_eval)
  from sendMessage_never_throws
    [of "(mock_collaborators accepts (Inl NonError) (\<lambda>n. ([''Hello '', ''world!''], None)))"
        default_config "''Test message''" None "(fresh_manager\<lparr>currentConversation := None\<rparr>)"]
  obtain resp2 t2 where sm_resp2:
      "sendMessage (mock_collaborators accepts (Inl NonError) (\<lambda>n. ([''Hello '',
       ''world!''], None))) default_config ''Test message'' None
       (fresh_manager\<lparr>currentConversation := None\<rparr>) = (Inr resp2, t2)"
    and A_resp2:
      "role (message resp2) = Assistant"
    and P_resp2:
      "case error resp2 of None \<Rightarrow> True | Some e \<Rightarrow> content (message resp2) =
       ''I apologize, but I encountered an error: '' @ err_message e"
    and B_resp2:
      "\<forall>e. \<not> isProcessing (fresh_manager\<lparr>currentConversation := None\<rparr>)
       \<and> fst (sendMessage_try (mock_collaborators accepts (Inl NonError) (\<lambda>n.
       ([''Hello '', ''world!''], None))) default_config ''Test message'' None
       ((fresh_manager\<lparr>currentConversation := None\<rparr>)\<lparr>isProcessing :=
       True\<rparr>)) = Inl e \<longrightarrow> error resp2 = Some \<lparr>err_type = System,
       err_message = error_message_or e ''Unknown error occurred'', err_code = None, retryable =
       True\<rparr>"
    and G_resp2:
      "\<forall>s1 um s3 e s4. \<not> isProcessing (fresh_manager\<lparr>currentConversation :=
       None\<rparr>) \<and> (if enableSafetyFilter default_config then (\<exists>v. call
       (validateRequest (mock_collaborators accepts (Inl NonError) (\<lambda>n. ([''Hello '',
       ''world!''], None))) ''Test message'') ((fresh_manager\<lparr>currentConversation :=
       None\<rparr>)\<lparr>isProcessing := True\<rparr>) = (Inr v, s1) \<and> isValid v) else s1 =
       (fresh_manager\<lparr>currentConversation := None\<rparr>)\<lparr>isProcessing :=
       True\<rparr>) \<and> prepare_user_message (mock_collaborators accepts (Inl NonError)
       (\<lambda>n. ([''Hello '', ''world!''], None))) default_config ''Test message'' None s1 =
       (um, s3) \<and> addMessage (mock_collaborators accepts (Inl NonError) (\<lambda>n.
       ([''Hello '', ''world!''], None))) (chatConfig default_config) um s3 = (Inl e, s4)
       \<longrightarrow> error resp2 = Some \<lparr>err_type = System, err_message =
       error_message_or e ''Unknown error occurred'', err_code = None, retryable = True\<rparr>"
    by (elim exE conjE) (rule that, assumption+)
  from B_resp2 idle2 thrown
  have caught:
    "error resp2 = Some \<lparr>err_type = System, err_message = error_message_or (new_Error
     ''No active conversation'') ''Unknown error occurred'', err_code = None, retryable =
     True\<rparr>"
    by blast
  from G_resp2 idle2 adm2 prep2 add2
  have
    "error resp2 = Some \<lparr>err_type = System, err_message = error_message_or (new_Error
     ''No active conversation'') ''Unknown error occurred'', err_code = None, retryable =
     True\<rparr>"
    by blast
  with sm_resp2 A_resp2 P_resp2
  have ledger:
    "map_sum id (\<lambda>resp. (role (message resp), content (message resp), error resp)) (fst
     (sendMessage (mock_collaborators accepts (Inl NonError) (\<lambda>n. ([''Hello '', ''world!''],
     None))) default_config ''Test message'' None (fresh_manager\<lparr>currentConversation :=
     None\<rparr>))) = Inr (Assistant,
     ''I apologize, but I encountered an error: No active conversation'', Some \<lparr>err_type =
     System, err_message = ''No active conversation'', err_code = None, retryable = True\<rparr>)"
    by (simp add: error_message_or_def new_Error_def)
  have val3:
    "call (validateRequest (mock_collaborators rejects (Inl NonError) (\<lambda>n. ([''Hello '',
     ''world!''], None))) ''rm -rf /'') (fresh_manager\<lparr>isProcessing := True\<rparr>) = (Inr
     rejects, (fresh_manager\<lparr>isProcessing := True\<rparr>))"
    by (simp add: cm_eval)
  have bad:
    "\<not> isValid rejects"
    by (simp add: rejects_def)
  from sendMessage_never_throws
    [of "(mock_collaborators rejects (Inl NonError) (\<lambda>n. ([''Hello '', ''world!''], None)))"
        default_config "''rm -rf /''" None "fresh_manager"]
  obtain resp3 t3 where sm_resp3:
      "sendMessage (mock_collaborators rejects (Inl NonError) (\<lambda>n. ([''Hello '',
       ''world!''], None))) default_config ''rm -rf /'' None fresh_manager = (Inr resp3, t3)"
    and A_resp3:
      "role (message resp3) = Assistant"
    and P_resp3:
      "case error resp3 of None \<Rightarrow> True | Some e \<Rightarrow> content (message resp3) =
       ''I apologize, but I encountered an error: '' @ err_message e"
    and F_resp3:
      "\<forall>v s1. \<not> isProcessing fresh_manager \<and> enableSafetyFilter default_config
       \<and> call (validateRequest (mock_collaborators rejects (Inl NonError) (\<lambda>n.
       ([''Hello '', ''world!''], None))) ''rm -rf /'') (fresh_manager\<lparr>isProcessing :=
       True\<rparr>) = (Inr v, s1) \<and> \<not> isValid v \<longrightarrow> error resp3 = Some
       \<lparr>err_type = Validation, err_message = ''Message blocked: '' @ join_with '', '' (errors
       v), err_code = None, retryable = False\<rparr>"
    by (elim exE conjE) (rule that, assumption+)
  from F_resp3 idle safety val3 bad
  have
    "error resp3 = Some \<lparr>err_type = Validation, err_message = ''Message blocked: '' @
     join_with '', '' (errors rejects), err_code = None, retryable = False\<rparr>"
    by blast
  with sm_resp3 A_resp3 P_resp3
  have blocked:
    "map_sum id (\<lambda>resp. (role (message resp), content (message resp), error resp)) (fst
     (sendMessage (mock_collaborators rejects (Inl NonError) (\<lambda>n. ([''Hello '', ''world!''],
     None))) default_config ''rm -rf /'' None fresh_manager)) = Inr (Assistant,
     ''I apologize, but I encountered an error: Message blocked: Dangerous content detected'', Some
     \<lparr>err_type = Validation, err_message = ''Message blocked: Dangerous content detected'',
     err_code = None, retryable = False\<rparr>)"
    by (simp add: rejects_def join_with_def)
  have val4:
    "call (validateRequest (mock_collaborators accepts (Inl NonError) (\<lambda>n. ([''Hello '',
     ''world!''], None))) ''Hello, how are you?'') (fresh_manager\<lparr>isProcessing :=
     True\<rparr>) = (Inr accepts, (fresh_manager\<lparr>isProcessing := True\<rparr>))"
    by (simp add: cm_eval)
  from safety val4 ok
  have adm4:
    "if enableSafetyFilter default_config then (\<exists>v. call (validateRequest
     (mock_collaborators accepts (Inl NonError) (\<lambda>n. ([''Hello '', ''world!''], None)))
     ''Hello, how are you?'') (fresh_manager\<lparr>isProcessing := True\<rparr>) = (Inr v,
     (fresh_manager\<lparr>isProcessing := True\<rparr>)) \<and> isValid v) else
     (fresh_manager\<lparr>isProcessing := True\<rparr>) = fresh_manager\<lparr>isProcessing :=
     True\<rparr>"
    by auto
  have gather:
    "call (getCurrentContext (mock_collaborators accepts (Inl NonError) (\<lambda>n. ([''Hello '',
     ''world!''], None)))) (fresh_manager\<lparr>isProcessing := True, world := \<lparr>clock = 3,
     llm_calls = 0\<rparr>\<rparr>) = (Inl NonError, (fresh_manager\<lparr>isProcessing := True,
     world := \<lparr>clock = 3, llm_calls = 0\<rparr>\<rparr>))"
    by (simp add: cm_eval)
  have prep4:
    "prepare_user_message (mock_collaborators accepts (Inl NonError) (\<lambda>n. ([''Hello '',
     ''world!''], None))) default_config ''Hello, how are you?'' None
     (fresh_manager\<lparr>isProcessing := True\<rparr>) = (\<lparr>msg_id = ''msg_1_k3j9x0q2z'',
     role = User, content = ''Hello, how are you?'', timestamp = 2, msg_context = None, metadata =
     None\<rparr>, (fresh_manager\<lparr>isProcessing := True, world := \<lparr>clock = 3, llm_calls
     = 0\<rparr>\<rparr>))"
    by (simp add: cm_eval)
  have add4:
    "addMessage (mock_collaborators accepts (Inl NonError) (\<lambda>n. ([''Hello '', ''world!''],
     None))) (chatConfig default_config) \<lparr>msg_id = ''msg_1_k3j9x0q2z'', role = User, content
     = ''Hello, how are you?'', timestamp = 2, msg_context = None, metadata = None\<rparr>
     (fresh_manager\<lparr>isProcessing := True, world := \<lparr>clock = 3, llm_calls =
     0\<rparr>\<rparr>) = (Inr (), \<lparr>isProcessing = True, currentConversation = Some
     \<lparr>conv_id = ''conv_0'', title = ''Chat'', messages = [\<lparr>msg_id =
     ''msg_1_k3j9x0q2z'', role = User, content = ''Hello, how are you?'', timestamp = 2, msg_context
     = None, metadata = None\<rparr>], createdAt = 0, lastModified = 3, messageCount = 1,
     totalTokens = 0, activeContext = None\<rparr>, delays = [], world = \<lparr>clock = 4,
     llm_calls = 0\<rparr>\<rparr>)"
    by (simp add: cm_eval)
  have gen4:
    "generateResponseWithRetry (mock_collaborators accepts (Inl NonError) (\<lambda>n. ([''Hello '',
     ''world!''], None))) default_config \<lparr>msg_id = ''msg_1_k3j9x0q2z'', role = User, content
     = ''Hello, how are you?'', timestamp = 2, msg_context = None, metadata = None\<rparr>
     \<lparr>isProcessing = True, currentConversation = Some \<lparr>conv_id = ''conv_0'', title =
     ''Chat'', messages = [\<lparr>msg_id = ''msg_1_k3j9x0q2z'', role = User, content =
     ''Hello, how are you?'', timestamp = 2, msg_context = None, metadata = None\<rparr>], createdAt
     = 0, lastModified = 3, messageCount = 1, totalTokens = 0, activeContext = None\<rparr>, delays
     = [], world = \<lparr>clock = 4, llm_calls = 0\<rparr>\<rparr> = (Inr \<lparr>msg_id =
     ''msg_6_k3j9x0q2z'', role = Assistant, content = ''Hello world!'', timestamp = 7, msg_context =
     None, metadata = Some \<lparr>tokenCount = Some 50, processingTime = Some 1, model = Some
     ''llm-service'', truncated = None\<rparr>\<rparr>, \<lparr>isProcessing = True,
     currentConversation = Some \<lparr>conv_id = ''conv_0'', title = ''Chat'', messages =
     [\<lparr>msg_id = ''msg_1_k3j9x0q2z'', role = User, content = ''Hello, how are you?'',
     timestamp = 2, msg_context = None, metadata = None\<rparr>], createdAt = 0, lastModified = 3,
     messageCount = 1, totalTokens = 0, activeContext = None\<rparr>, delays = [], world =
     \<lparr>clock = 8, llm_calls = 1\<rparr>\<rparr>)"
    by (simp add: cm_eval)
  have add5:
    "addMessage (mock_collaborators accepts (Inl NonError) (\<lambda>n. ([''Hello '', ''world!''],
     None))) (chatConfig default_config) \<lparr>msg_id = ''msg_6_k3j9x0q2z'', role = Assistant,
     content = ''Hello world!'', timestamp = 7, msg_context = None, metadata = Some
     \<lparr>tokenCount = Some 50, processingTime = Some 1, model = Some ''llm-service'', truncated
     = None\<rparr>\<rparr> \<lparr>isProcessing = True, currentConversation = Some \<lparr>conv_id
     = ''conv_0'', title = ''Chat'', messages = [\<lparr>msg_id = ''msg_1_k3j9x0q2z'', role = User,
     content = ''Hello, how are you?'', timestamp = 2, msg_context = None, metadata = None\<rparr>],
     createdAt = 0, lastModified = 3, messageCount = 1, totalTokens = 0, activeContext =
     None\<rparr>, delays = [], world = \<lparr>clock = 8, llm_calls = 1\<rparr>\<rparr> = (Inr (),
     \<lparr>isProcessing = True, currentConversation = Some \<lparr>conv_id = ''conv_0'', title =
     ''Chat'', messages = [\<lparr>msg_id = ''msg_1_k3j9x0q2z'', role = User, content =
     ''Hello, how are you?'', timestamp = 2, msg_context = None, metadata = None\<rparr>,
     \<lparr>msg_id = ''msg_6_k3j9x0q2z'', role = Assistant, content = ''Hello world!'', timestamp =
     7, msg_context = None, metadata = Some \<lparr>tokenCount = Some 50, processingTime = Some 1,
     model = Some ''llm-service'', truncated = None\<rparr>\<rparr>], createdAt = 0, lastModified =
     8, messageCount = 2, totalTokens = 50, activeContext = None\<rparr>, delays = [], world =
     \<lparr>clock = 9, llm_calls = 1\<rparr>\<rparr>)"
    by (simp add: cm_eval)
  have trim:
    "trimConversationHistory (mock_collaborators accepts (Inl NonError) (\<lambda>n. ([''Hello '',
     ''world!''], None))) (chatConfig default_config) None \<lparr>isProcessing = True,
     currentConversation = Some \<lparr>conv_id = ''conv_0'', title = ''Chat'', messages =
     [\<lparr>msg_id = ''msg_1_k3j9x0q2z'', role = User, content = ''Hello, how are you?'',
     timestamp = 2, msg_context = None, metadata = None\<rparr>, \<lparr>msg_id =
     ''msg_6_k3j9x0q2z'', role = Assistant, content = ''Hello world!'', timestamp = 7, msg_context =
     None, metadata = Some \<lparr>tokenCount = Some 50, processingTime = Some 1, model = Some
     ''llm-service'', truncated = None\<rparr>\<rparr>], createdAt = 0, lastModified = 8,
     messageCount = 2, totalTokens = 50, activeContext = None\<rparr>, delays = [], world =
     \<lparr>clock = 9, llm_calls = 1\<rparr>\<rparr> = (Inr (), \<lparr>isProcessing = True,
     currentConversation = Some \<lparr>conv_id = ''conv_0'', title = ''Chat'', messages =
     [\<lparr>msg_id = ''msg_1_k3j9x0q2z'', role = User, content = ''Hello, how are you?'',
     timestamp = 2, msg_context = None, metadata = None\<rparr>, \<lparr>msg_id =
     ''msg_6_k3j9x0q2z'', role = Assistant, content = ''Hello world!'', timestamp = 7, msg_context =
     None, metadata = Some \<lparr>tokenCount = Some 50, processingTime = Some 1, model = Some
     ''llm-service'', truncated = None\<rparr>\<rparr>], createdAt = 0, lastModified = 8,
     messageCount = 2, totalTokens = 50, activeContext = None\<rparr>, delays = [], world =
     \<lparr>clock = 9, llm_calls = 1\<rparr>\<rparr>)"
    by (simp add: cm_eval)
  from sendMessage_never_throws
    [of "(mock_collaborators accepts (Inl NonError) (\<lambda>n. ([''Hello '', ''world!''], None)))"
        default_config "''Hello, how are you?''" None "fresh_manager"]
  obtain resp4 t4 where sm_resp4:
      "sendMessage (mock_collaborators accepts (Inl NonError) (\<lambda>n. ([''Hello '',
       ''world!''], None))) default_config ''Hello, how are you?'' None fresh_manager = (Inr resp4,
       t4)"
    and A_resp4:
      "role (message resp4) = Assistant"
    and C_resp4:
      "error resp4 = None \<longrightarrow> (\<exists>um t t'. ChatManager_generateResponse
       (mock_collaborators accepts (Inl NonError) (\<lambda>n. ([''Hello '', ''world!''], None)))
       default_config um t = (Inr (message resp4), t'))"
    and H_resp4:
      "\<forall>s1 um s3 u s4 am s5 v s6 w s7. \<not> isProcessing fresh_manager \<and> (if
       enableSafetyFilter default_config then (\<exists>v. call (validateRequest (mock_collaborators
       accepts (Inl NonError) (\<lambda>n. ([''Hello '', ''world!''], None)))
       ''Hello, how are you?'') (fresh_manager\<lparr>isProcessing := True\<rparr>) = (Inr v, s1)
       \<and> isValid v) else s1 = fresh_manager\<lparr>isProcessing := True\<rparr>) \<and>
       prepare_user_message (mock_collaborators accepts (Inl NonError) (\<lambda>n. ([''Hello '',
       ''world!''], None))) default_config ''Hello, how are you?'' None s1 = (um, s3) \<and>
       addMessage (mock_collaborators accepts (Inl NonError) (\<lambda>n. ([''Hello '', ''world!''],
       None))) (chatConfig default_config) um s3 = (Inr u, s4) \<and> generateResponseWithRetry
       (mock_collaborators accepts (Inl NonError) (\<lambda>n. ([''Hello '', ''world!''], None)))
       default_config um s4 = (Inr am, s5) \<and> addMessage (mock_collaborators accepts (Inl
       NonError) (\<lambda>n. ([''Hello '', ''world!''], None))) (chatConfig default_config) am s5 =
       (Inr v, s6) \<and> trimConversationHistory (mock_collaborators accepts (Inl NonError)
       (\<lambda>n. ([''Hello '', ''world!''], None))) (chatConfig default_config) None s6 = (Inr w,
       s7) \<longrightarrow> error resp4 = None \<and> message resp4 = am"
    by (elim exE conjE) (rule that, assumption+)
  from H_resp4 idle adm4 prep4 add4 gen4 add5 trim
  have fine:
    "error resp4 = None \<and> message resp4 = \<lparr>msg_id = ''msg_6_k3j9x0q2z'', role =
     Assistant, content = ''Hello world!'', timestamp = 7, msg_context = None, metadata = Some
     \<lparr>tokenCount = Some 50, processingTime = Some 1, model = Some ''llm-service'', truncated
     = None\<rparr>\<rparr>"
    by blast
  with sm_resp4 A_resp4
  have answered:
    "map_sum id (\<lambda>resp. (role (message resp), content (message resp), error resp)) (fst
     (sendMessage (mock_collaborators accepts (Inl NonError) (\<lambda>n. ([''Hello '', ''world!''],
     None))) default_config ''Hello, how are you?'' None fresh_manager)) = Inr (Assistant,
     ''Hello world!'', None)"
    by simp
  from fine C_resp4 sm_resp4
  have generated:
    "\<exists>um t t'. ChatManager_generateResponse (mock_collaborators accepts (Inl NonError)
     (\<lambda>n. ([''Hello '', ''world!''], None))) default_config um t = (Inr (message (projr (fst
     (sendMessage (mock_collaborators accepts (Inl NonError) (\<lambda>n. ([''Hello '', ''world!''],
     None))) default_config ''Hello, how are you?'' None fresh_manager)))), t')"
    by simp
  show ?thesis
    by (intro conjI)
       (rule idle safety val ok prep add gen exhausted idle2 thrown val2 prep2 add2 ledger
             val3 bad blocked val4 gather prep4 add4 gen4 add5 trim answered generated)+
qed

text \<open>
  Claim C1, as amended. A call of \<open>sendMessage\<close> while \<open>isProcessing\<close> is set returns
  at once an error response: the apology for \<open>Another message is currently being
  processed\<close>, with an error of type \<open>system\<close> (the default of
  \<open>createErrorResponse\<close>) that is retryable. The flag, the conversation and the sleep log
  are as before; of the collaborators only the clock and the random source were used, to
  build the message.
\<close>

theorem sendMessage_busy:
  "isProcessing s \<longrightarrow>
     (\<exists>resp s'.
        sendMessage c cfg text ctx s = (Inr resp, s') \<and>
        error resp = Some \<lparr>err_type = System,
                             err_message = ''Another message is currently being processed'',
                             err_code = None, retryable = True\<rparr> \<and>
        role (message resp) = Assistant \<and>
        content (message resp) =
          ''I apologize, but I encountered an error: Another message is currently being processed'' \<and>
        isProcessing s' \<and> currentConversation s' = currentConversation s \<and> delays s' = delays s \<and>
        world s' = snd (date_now c (snd (random_suffix c (snd (date_now c (world s)))))))"
proof
  assume busy: "isProcessing s"
  obtain r s1 where ce: "createErrorResponse c ''Another message is currently being processed'' None s = (r, s1)"
    by (cases "createErrorResponse c ''Another message is currently being processed'' None s")
  with busy have sm: "sendMessage c cfg text ctx s = (Inr r, s1)" by (simp add: sendMessage_def)
  have w: "world s1 = snd (date_now c (snd (random_suffix c (snd (date_now c (world s))))))"
    using ce
    by (auto simp: createErrorResponse_def createAssistantMessage_def create_message_def
        generateMessageId_def call_def Let_def split: prod.splits)
  from createErrorResponse_shape[OF ce] sm busy w
  show "\<exists>resp s'.
        sendMessage c cfg text ctx s = (Inr resp, s') \<and>
        error resp = Some \<lparr>err_type = System,
                             err_message = ''Another message is currently being processed'',
                             err_code = None, retryable = True\<rparr> \<and>
        role (message resp) = Assistant \<and>
        content (message resp) =
          ''I apologize, but I encountered an error: Another message is currently being processed'' \<and>
        isProcessing s' \<and> currentConversation s' = currentConversation s \<and> delays s' = delays s \<and>
        world s' = snd (date_now c (snd (random_suffix c (snd (date_now c (world s))))))"
    by simp
qed

theorem sendMessage_busy_witness:
  "isProcessing (fresh_manager\<lparr>isProcessing := True\<rparr>) \<and>
   map_option retryable
     (error (projr (fst (sendMessage (mock_collaborators accepts (Inl NonError) (\<lambda>n. ([''Slow response''], None)))
          default_config ''Second message'' None (fresh_manager\<lparr>isProcessing := True\<rparr>))))) = Some True \<and>
   isProcessing (snd (sendMessage (mock_collaborators accepts (Inl NonError) (\<lambda>n. ([''Slow response''], None)))
          default_config ''Second message'' None (fresh_manager\<lparr>isProcessing := True\<rparr>)))"
  using sendMessage_busy
    [of "fresh_manager\<lparr>isProcessing := True\<rparr>"
        "mock_collaborators accepts (Inl NonError) (\<lambda>n. ([''Slow response''], None))"
        default_config "''Second message''" None]
  by (auto simp: fresh_manager_def)

text \<open>
  Claim C1 as stated fails on the error it describes: for a second message sent while the
  first is in flight, the error type is \<open>system\<close>, not \<open>validation\<close>, and
  \<open>retryable\<close> is true.
\<close>

theorem sendMessage_busy_counterexample:
  "isProcessing (fresh_manager\<lparr>isProcessing := True\<rparr>) \<and>
   fst (sendMessage (mock_collaborators accepts (Inl NonError) (\<lambda>n. ([''Slow response''], None)))
          default_config ''Second message'' None (fresh_manager\<lparr>isProcessing := True\<rparr>)) =
     Inr \<lparr>message =
            \<lparr>msg_id = ''msg_1_k3j9x0q2z'', role = Assistant,
             content = ''I apologize, but I encountered an error: Another message is currently being processed'',
             timestamp = 2, msg_context = None, metadata = None\<rparr>,
          suggestions = None, actions = None,
          error = Some \<lparr>err_type = System,
                        err_message = ''Another message is currently being processed'',
                        err_code = None, retryable = True\<rparr>\<rparr>"
  by (simp add: cm_eval)

lemma foldl_push_filter:
  "foldl (\<lambda>acts (language, code). if P language code then acts @ [f language code] else acts) acc xs =
   acc @ map (\<lambda>(language, code). f language code) (filter (\<lambda>(language, code). P language code) xs)"
  by (induction xs arbitrary: acc) (auto split: prod.splits)

lemma find_fence_Some: "find_fence s = Some (code, rest) \<Longrightarrow> s = code @ fence @ rest"
proof (induction s arbitrary: code rest)
  case Nil
  then show ?case by simp
next
  case (Cons c cs)
  show ?case
  proof (cases "startsWith (c # cs) fence")
    case True
    with Cons.prems have "code = []" "rest = drop 3 (c # cs)" by simp_all
    moreover from True have "c # cs = fence @ drop 3 (c # cs)"
      by (metis append_take_drop_id fence_def length_Cons list.size(3) numeral_3_eq_3 startsWith_def)
    ultimately show ?thesis by simp
  next
    case False
    with Cons.prems obtain code' where "find_fence cs = Some (code', rest)" "code = c # code'"
      by (auto split: option.splits)
    with Cons.IH show ?thesis by simp
  qed
qed

lemma match_code_block_Some:
  assumes "match_code_block s = Some (language, code, rest)"
  shows "s = fence @ language @ [CHR 0x0A] @ code @ fence @ rest \<and> list_all is_word_char language"
proof -
  from assms have sw: "startsWith s fence"
    by (auto simp: match_code_block_def split: if_splits)
  from assms sw obtain s2 where l: "language = takeWhile is_word_char (drop 3 s)"
    and d: "dropWhile is_word_char (drop 3 s) = CHR 0x0A # s2"
    and f: "find_fence s2 = Some (code, rest)"
    by (auto simp: match_code_block_def Let_def split: if_splits list.splits option.splits)
  from sw have "s = fence @ drop 3 s"
    by (metis append_take_drop_id fence_def length_Cons list.size(3) numeral_3_eq_3 startsWith_def)
  also have "drop 3 s = language @ CHR 0x0A # s2"
    using l d takeWhile_dropWhile_id[of is_word_char "drop 3 s"] by simp
  also have "s2 = code @ fence @ rest" by (rule find_fence_Some[OF f])
  finally have "s = fence @ language @ [CHR 0x0A] @ code @ fence @ rest" by simp
  moreover have "list_all is_word_char language"
    unfolding l list_all_iff by (auto dest: set_takeWhileD)
  ultimately show ?thesis by simp
qed

lemma block_at_here: "block_at (fence @ language @ [CHR 0x0A] @ code @ fence @ rest) 0 language code"
proof -
  let ?pre = "fence @ language @ [CHR 0x0A] @ code @ fence"
  have len: "length ?pre = length language + length code + 7" by (simp add: fence_def)
  have g: "take (length xs) (xs @ ys) = xs" for xs ys :: string by simp
  have "take (length language + length code + 7) (?pre @ rest) = ?pre"
    using g[of ?pre rest] unfolding len .
  then show ?thesis by (simp add: block_at_def)
qed

lemma block_at_shift: "block_at rest p language code \<Longrightarrow> block_at (pre @ rest) (length pre + p) language code"
  by (simp add: block_at_def)

lemma code_block_matches_positions:
  "\<exists>ps. map snd ps = code_block_matches s \<and>
        (\<forall>(p, language, code) \<in> set ps. block_at s p language code \<and> list_all is_word_char language) \<and>
        sorted_wrt (\<lambda>(p, language, code) (q, language', code'). p + length language + length code + 7 \<le> q) ps"
proof (induction s rule: code_block_matches.induct)
  case 1
  show ?case by (rule exI[of _ "[]"]) simp
next
  case (2 c cs)
  show ?case
  proof (cases "match_code_block (c # cs)")
    case None
    from 2(1)[OF None] obtain ps where m: "map snd ps = code_block_matches cs"
      and b: "\<forall>(p, language, code) \<in> set ps. block_at cs p language code \<and> list_all is_word_char language"
      and s: "sorted_wrt (\<lambda>(p, language, code) (q, language', code'). p + length language + length code + 7 \<le> q) ps"
      by blast
    let ?ps = "map (\<lambda>(p, language, code). (Suc p, language, code)) ps"
    have "map snd ?ps = code_block_matches (c # cs)"
      using m None by (simp add: case_prod_unfold comp_def)
    moreover have "\<forall>(p, language, code) \<in> set ?ps. block_at (c # cs) p language code \<and> list_all is_word_char language"
      using b block_at_shift[of cs _ _ _ "[c]"] by (auto simp: case_prod_unfold)
    moreover have "sorted_wrt (\<lambda>(p, language, code) (q, language', code'). p + length language + length code + 7 \<le> q) ?ps"
      unfolding sorted_wrt_map by (rule sorted_wrt_mono_rel[OF _ s]) auto
    ultimately show ?thesis by blast
  next
    case (Some t)
    obtain language code rest where t: "t = (language, code, rest)" by (cases t)
    from match_code_block_Some[OF Some[unfolded t]]
    have eq: "c # cs = fence @ language @ [CHR 0x0A] @ code @ fence @ rest" and w: "list_all is_word_char language"
      by simp_all
    let ?pre = "fence @ language @ [CHR 0x0A] @ code @ fence"
    have len: "length ?pre = length language + length code + 7" by (simp add: fence_def)
    from 2(2)[OF Some[unfolded t] refl refl] obtain ps where m: "map snd ps = code_block_matches rest"
      and b: "\<forall>(p, language, code) \<in> set ps. block_at rest p language code \<and> list_all is_word_char language"
      and s: "sorted_wrt (\<lambda>(p, language, code) (q, language', code'). p + length language + length code + 7 \<le> q) ps"
      by blast
    let ?ps = "(0, language, code) # map (\<lambda>(p, l, c). (length ?pre + p, l, c)) ps"
    have "map snd ?ps = code_block_matches (c # cs)"
      using m Some t by (simp add: case_prod_unfold comp_def)
    moreover have "\<forall>(p, language, code) \<in> set ?ps. block_at (c # cs) p language code \<and> list_all is_word_char language"
    proof -
      have "block_at (c # cs) 0 language code" unfolding eq by (rule block_at_here)
      moreover have "block_at (c # cs) (length ?pre + p) l c'" if "block_at rest p l c'" for p l c'
        using block_at_shift[OF that, of ?pre] unfolding eq by simp
      ultimately show ?thesis using b w by (auto simp: case_prod_unfold)
    qed
    moreover have "sorted_wrt (\<lambda>(p, language, code) (q, language', code'). p + length language + length code + 7 \<le> q) ?ps"
    proof -
      have "sorted_wrt (\<lambda>(p, language, code) (q, language', code'). p + length language + length code + 7 \<le> q)
              (map (\<lambda>(p, l, c). (length ?pre + p, l, c)) ps)"
        unfolding sorted_wrt_map by (rule sorted_wrt_mono_rel[OF _ s]) auto
      then show ?thesis using len by (auto simp: case_prod_unfold)
    qed
    ultimately show ?thesis by blast
  qed
qed

lemma find_fence_render:
  "\<not> str_includes (code @ [CHR 0x60, CHR 0x60]) fence \<Longrightarrow> find_fence (code @ fence @ rest) = Some (code, rest)"
proof (induction code)
  case Nil
  show ?case by (simp add: fence_def startsWith_def)
next
  case (Cons c cs)
  from Cons.prems have n: "\<not> startsWith (c # cs @ [CHR 0x60, CHR 0x60]) fence"
    and r: "\<not> str_includes (cs @ [CHR 0x60, CHR 0x60]) fence" by simp_all
  have g: "take 3 (xs @ ys) = take 3 xs" if "3 \<le> length xs" for xs ys :: string
    using that by simp
  have e: "c # cs @ fence @ rest = (c # cs @ [CHR 0x60, CHR 0x60]) @ (CHR 0x60 # rest)"
    by (simp add: fence_def)
  have l: "3 \<le> length (c # cs @ [CHR 0x60, CHR 0x60])" by simp
  have t: "take 3 (c # cs @ fence @ rest) = take 3 (c # cs @ [CHR 0x60, CHR 0x60])"
    unfolding e by (rule g[OF l])
  have lf: "length fence = 3" by (simp add: fence_def)
  from n have "take 3 (c # cs @ [CHR 0x60, CHR 0x60]) \<noteq> fence"
    unfolding startsWith_def lf .
  then have "take 3 (c # cs @ fence @ rest) \<noteq> fence" unfolding t .
  then have "\<not> startsWith (c # cs @ fence @ rest) fence"
    unfolding startsWith_def lf .
  with Cons.IH[OF r] show ?case by simp
qed

lemma match_code_block_render:
  assumes "list_all is_word_char language" and "\<not> str_includes (code @ [CHR 0x60, CHR 0x60]) fence"
  shows "match_code_block (fence @ language @ [CHR 0x0A] @ code @ fence @ rest) = Some (language, code, rest)"
proof -
  have nl: "\<not> is_word_char (CHR 0x0A)" by (simp add: is_word_char_def)
  have sw: "startsWith (fence @ language @ [CHR 0x0A] @ code @ fence @ rest) fence"
    by (simp add: startsWith_def fence_def)
  have d3: "drop 3 (fence @ language @ [CHR 0x0A] @ code @ fence @ rest) = language @ CHR 0x0A # code @ fence @ rest"
    by (simp add: fence_def)
  from assms(1) have all: "\<forall>x\<in>set language. is_word_char x" by (simp add: list_all_iff)
  have tw: "takeWhile is_word_char (language @ CHR 0x0A # code @ fence @ rest) = language"
    using all nl by (simp add: takeWhile_tail)
  have dw: "dropWhile is_word_char (language @ CHR 0x0A # code @ fence @ rest) = CHR 0x0A # code @ fence @ rest"
    using all nl by (simp add: dropWhile_append3)
  show ?thesis
    unfolding match_code_block_def
    by (simp only: sw d3 tw dw Let_def if_True list.case refl find_fence_render[OF assms(2)] option.case prod.case)
qed

lemma code_block_matches_unfold:
  "s \<noteq> [] \<Longrightarrow> code_block_matches s =
     (case match_code_block s of
        Some (language, code, rest) \<Rightarrow> (language, code) # code_block_matches rest
      | None \<Rightarrow> code_block_matches (tl s))"
  by (cases s) (auto split: option.splits)

lemma code_block_matches_block:
  assumes "list_all is_word_char language" and "\<not> str_includes (code @ [CHR 0x60, CHR 0x60]) fence"
  shows "code_block_matches (fence @ language @ [CHR 0x0A] @ code @ fence @ rest) =
         (language, code) # code_block_matches rest"
proof -
  have "fence @ language @ [CHR 0x0A] @ code @ fence @ rest \<noteq> []" by (simp add: fence_def)
  from code_block_matches_unfold[OF this] match_code_block_render[OF assms, of rest]
  show ?thesis by simp
qed

lemma code_block_matches_prose:
  "CHR 0x60 \<notin> set p \<Longrightarrow> code_block_matches (p @ rest) = code_block_matches rest"
proof (induction p)
  case Nil
  show ?case by simp
next
  case (Cons c cs)
  then have "c \<noteq> CHR 0x60" by auto
  then have "match_code_block (c # cs @ rest) = None"
    by (simp add: match_code_block_def startsWith_def fence_def)
  with Cons show ?case by simp
qed

lemma file_actions_render:
  assumes "list_all well_formed segs"
  shows "foldl (\<lambda>acts (language, code).
                     if length code > 50 \<and> language \<noteq> []
                     then acts @ [\<lparr>act_type = Create_file, payload = File_payload code language,
                                   description = ''Create '' @ language @ '' file with this code''\<rparr>]
                     else acts)
                  acc (code_block_matches (render_all segs)) =
         acc @ concat (map block_action segs)"
  using assms
proof (induction segs arbitrary: acc)
  case Nil
  show ?case by (simp add: render_all_def)
next
  case (Cons sg segs)
  from Cons.prems have wf: "well_formed sg" and rest: "list_all well_formed segs" by simp_all
  show ?case
  proof (cases sg)
    case (Prose p)
    with wf have "code_block_matches (render_all (sg # segs)) = code_block_matches (render_all segs)"
      using code_block_matches_prose[of p "render_all segs"] by (simp add: render_all_def)
    with Cons.IH[OF rest] Prose show ?thesis by simp
  next
    case (Block language code)
    with wf have "code_block_matches (render_all (sg # segs)) = (language, code) # code_block_matches (render_all segs)"
      using code_block_matches_block[of language code "render_all segs"] by (simp add: render_all_def)
    with Cons.IH[OF rest] Block show ?thesis by auto
  qed
qed

text \<open>
  Claim C8, as amended. Every \<open>create_file\<close> action of \<open>extractActions\<close> carries the
  code and the language of a fenced block that stands in the text, with a language
  identifier of word characters that is not empty and code longer than 50 characters, and
  the actions come in the order of their blocks, which do not overlap. When the text is a
  sequence of well-formed segments, the \<open>create_file\<close> actions are exactly those of its
  blocks with a language identifier and code longer than 50 characters, one for each, in
  their order. When the lower-cased text contains both \<open>create\<close> and \<open>spec\<close>, one
  \<open>create_spec\<close> action with an empty payload follows them: a \<open>create_spec\<close>
  action is always the last action, wherever the two words stand.
\<close>

theorem extractActions_blocks_then_spec:
  "(\<exists>blocks.
      extractActions m =
        map (\<lambda>(p, language, code).
               \<lparr>act_type = Create_file, payload = File_payload code language,
                description = ''Create '' @ language @ '' file with this code''\<rparr>) blocks @
        (if str_includes (toLowerCase (content m)) ''create'' \<and> str_includes (toLowerCase (content m)) ''spec''
         then [\<lparr>act_type = Create_spec, payload = Empty_payload, description = ''Create a new feature spec''\<rparr>]
         else []) \<and>
      (\<forall>(p, language, code) \<in> set blocks.
         block_at (content m) p language code \<and> language \<noteq> [] \<and> list_all is_word_char language \<and>
         50 < length code) \<and>
      sorted_wrt (\<lambda>(p, language, code) (q, language', code'). p + length language + length code + 7 \<le> q)
        blocks) \<and>
   (\<forall>segs. list_all well_formed segs \<and> content m = render_all segs \<longrightarrow>
      extractActions m =
        concat (map block_action segs) @
        (if str_includes (toLowerCase (content m)) ''create'' \<and> str_includes (toLowerCase (content m)) ''spec''
         then [\<lparr>act_type = Create_spec, payload = Empty_payload, description = ''Create a new feature spec''\<rparr>]
         else [])) \<and>
   (\<forall>i<length (extractActions m).
      act_type (extractActions m ! i) = Create_spec \<longrightarrow> Suc i = length (extractActions m))"
proof -
  let ?f = "\<lambda>language code.
      \<lparr>act_type = Create_file, payload = File_payload code language,
       description = ''Create '' @ language @ '' file with this code''\<rparr>"
  let ?P = "\<lambda>language code. length code > 50 \<and> language \<noteq> []"
  let ?R = "\<lambda>(p, language, code) (q, language', code'). p + length language + length code + 7 \<le> (q :: nat)"
  let ?files = "map (\<lambda>(language, code). ?f language code)
         (filter (\<lambda>(language, code). ?P language code) (code_block_matches (content m)))"
  let ?spec = "(if str_includes (toLowerCase (content m)) ''create'' \<and> str_includes (toLowerCase (content m)) ''spec''
      then [\<lparr>act_type = Create_spec, payload = Empty_payload, description = ''Create a new feature spec''\<rparr>]
      else [])"
  have fold: "foldl (\<lambda>acts (language, code). if ?P language code then acts @ [?f language code] else acts)
                [] (code_block_matches (content m)) = ?files"
    using foldl_push_filter[of ?P ?f "[]" "code_block_matches (content m)"] by simp
  have eq: "extractActions m = ?files @ ?spec"
    unfolding extractActions_def Let_def fold by simp
  from code_block_matches_positions[of "content m"] obtain ps
    where m: "map snd ps = code_block_matches (content m)"
      and b: "\<forall>(p, language, code) \<in> set ps. block_at (content m) p language code \<and> list_all is_word_char language"
      and s: "sorted_wrt ?R ps"
    by blast
  let ?blocks = "filter (\<lambda>(p, language, code). ?P language code) ps"
  have "?files = map (\<lambda>(p, language, code). ?f language code) ?blocks"
    unfolding m[symmetric] by (simp add: filter_map comp_def case_prod_unfold)
  with eq have one: "extractActions m = map (\<lambda>(p, language, code). ?f language code) ?blocks @ ?spec"
    by simp
  have two: "\<forall>(p, language, code) \<in> set ?blocks.
         block_at (content m) p language code \<and> language \<noteq> [] \<and> list_all is_word_char language \<and>
         50 < length code"
    using b by auto
  have three: "sorted_wrt ?R ?blocks" using s by (rule sorted_wrt_filter)
  have first: "\<exists>blocks.
      extractActions m = map (\<lambda>(p, language, code). ?f language code) blocks @ ?spec \<and>
      (\<forall>(p, language, code) \<in> set blocks.
         block_at (content m) p language code \<and> language \<noteq> [] \<and> list_all is_word_char language \<and>
         50 < length code) \<and>
      sorted_wrt ?R blocks"
    using one two three by (intro exI[of _ ?blocks] conjI)
  have second: "\<forall>segs. list_all well_formed segs \<and> content m = render_all segs \<longrightarrow>
      extractActions m = concat (map block_action segs) @ ?spec"
  proof (intro allI impI)
    fix segs assume a: "list_all well_formed segs \<and> content m = render_all segs"
    from file_actions_render[of segs "[]"] a
    show "extractActions m = concat (map block_action segs) @ ?spec"
      unfolding extractActions_def Let_def by simp
  qed
  have files: "\<forall>a\<in>set ?files. act_type a = Create_file" by auto
  have "\<forall>i<length (?files @ ?spec). act_type ((?files @ ?spec) ! i) = Create_spec \<longrightarrow> Suc i = length (?files @ ?spec)"
  proof (intro allI impI)
    fix i assume i: "i < length (?files @ ?spec)" and a: "act_type ((?files @ ?spec) ! i) = Create_spec"
    have "\<not> i < length ?files"
    proof
      assume l: "i < length ?files"
      then have "(?files @ ?spec) ! i = ?files ! i" by (simp add: nth_append)
      moreover have "act_type (?files ! i) = Create_file" using files l nth_mem by blast
      ultimately show False using a by simp
    qed
    moreover have "length ?spec \<le> 1" by simp
    ultimately show "Suc i = length (?files @ ?spec)" using i by simp
  qed
  then have third: "\<forall>i<length (extractActions m).
      act_type (extractActions m ! i) = Create_spec \<longrightarrow> Suc i = length (extractActions m)"
    unfolding eq .
  from first second third show ?thesis by (intro conjI)
qed

theorem extractActions_blocks_then_spec_witness:
  "list_all well_formed
     [Prose (''Create the spec, then:'' @ [CHR 0x0A]),
      Block ''ts'' (''function hello() { console.log(1234567890123456789012345); }'' @ [CHR 0x0A]),
      Prose [CHR 0x0A],
      Block [] ''no language here, yet much longer than fifty characters in all'',
      Block ''sh'' (''ls'' @ [CHR 0x0A]),
      Prose '' and '',
      Block ''py'' ''def hello(): print(12345678901234567890123456789012345678901234567890)''] \<and>
   content
     \<lparr>msg_id = ''m'', role = Assistant,
      content = ''Create the spec, then:'' @ [CHR 0x0A] @
        fence @ ''ts'' @ [CHR 0x0A] @ ''function hello() { console.log(1234567890123456789012345); }'' @ [CHR 0x0A] @ fence @
        [CHR 0x0A] @ fence @ [CHR 0x0A] @ ''no language here, yet much longer than fifty characters in all'' @ fence @
        fence @ ''sh'' @ [CHR 0x0A] @ ''ls'' @ [CHR 0x0A] @ fence @ '' and '' @
        fence @ ''py'' @ [CHR 0x0A] @ ''def hello(): print(12345678901234567890123456789012345678901234567890)'' @ fence,
      timestamp = 0, msg_context = None, metadata = None\<rparr> =
   render_all
     [Prose (''Create the spec, then:'' @ [CHR 0x0A]),
      Block ''ts'' (''function hello() { console.log(1234567890123456789012345); }'' @ [CHR 0x0A]),
      Prose [CHR 0x0A],
      Block [] ''no language here, yet much longer than fifty characters in all'',
      Block ''sh'' (''ls'' @ [CHR 0x0A]),
      Prose '' and '',
      Block ''py'' ''def hello(): print(12345678901234567890123456789012345678901234567890)''] \<and>
   extractActions
     \<lparr>msg_id = ''m'', role = Assistant,
      content = ''Create the spec, then:'' @ [CHR 0x0A] @
        fence @ ''ts'' @ [CHR 0x0A] @ ''function hello() { console.log(1234567890123456789012345); }'' @ [CHR 0x0A] @ fence @
        [CHR 0x0A] @ fence @ [CHR 0x0A] @ ''no language here, yet much longer than fifty characters in all'' @ fence @
        fence @ ''sh'' @ [CHR 0x0A] @ ''ls'' @ [CHR 0x0A] @ fence @ '' and '' @
        fence @ ''py'' @ [CHR 0x0A] @ ''def hello(): print(12345678901234567890123456789012345678901234567890)'' @ fence,
      timestamp = 0, msg_context = None, metadata = None\<rparr> =
    [\<lparr>act_type = Create_file,
      payload = File_payload (''function hello() { console.log(1234567890123456789012345); }'' @ [CHR 0x0A]) ''ts'',
      description = ''Create ts file with this code''\<rparr>,
     \<lparr>act_type = Create_file,
      payload = File_payload ''def hello(): print(12345678901234567890123456789012345678901234567890)'' ''py'',
      description = ''Create py file with this code''\<rparr>,
     \<lparr>act_type = Create_spec, payload = Empty_payload, description = ''Create a new feature spec''\<rparr>] \<and>
   Suc 2 = length (extractActions
     \<lparr>msg_id = ''m'', role = Assistant,
      content = ''Create the spec, then:'' @ [CHR 0x0A] @
        fence @ ''ts'' @ [CHR 0x0A] @ ''function hello() { console.log(1234567890123456789012345); }'' @ [CHR 0x0A] @ fence @
        [CHR 0x0A] @ fence @ [CHR 0x0A] @ ''no language here, yet much longer than fifty characters in all'' @ fence @
        fence @ ''sh'' @ [CHR 0x0A] @ ''ls'' @ [CHR 0x0A] @ fence @ '' and '' @
        fence @ ''py'' @ [CHR 0x0A] @ ''def hello(): print(12345678901234567890123456789012345678901234567890)'' @ fence,
      timestamp = 0, msg_context = None, metadata = None\<rparr>) \<and>
   (\<exists>p q.
      block_at (content
     \<lparr>msg_id = ''m'', role = Assistant,
      content = ''Create the spec, then:'' @ [CHR 0x0A] @
        fence @ ''ts'' @ [CHR 0x0A] @ ''function hello() { console.log(1234567890123456789012345); }'' @ [CHR 0x0A] @ fence @
        [CHR 0x0A] @ fence @ [CHR 0x0A] @ ''no language here, yet much longer than fifty characters in all'' @ fence @
        fence @ ''sh'' @ [CHR 0x0A] @ ''ls'' @ [CHR 0x0A] @ fence @ '' and '' @
        fence @ ''py'' @ [CHR 0x0A] @ ''def hello(): print(12345678901234567890123456789012345678901234567890)'' @ fence,
      timestamp = 0, msg_context = None, metadata = None\<rparr>) p ''ts'' (''function hello() { console.log(1234567890123456789012345); }'' @ [CHR 0x0A]) \<and>
      block_at (content
     \<lparr>msg_id = ''m'', role = Assistant,
      content = ''Create the spec, then:'' @ [CHR 0x0A] @
        fence @ ''ts'' @ [CHR 0x0A] @ ''function hello() { console.log(1234567890123456789012345); }'' @ [CHR 0x0A] @ fence @
        [CHR 0x0A] @ fence @ [CHR 0x0A] @ ''no language here, yet much longer than fifty characters in all'' @ fence @
        fence @ ''sh'' @ [CHR 0x0A] @ ''ls'' @ [CHR 0x0A] @ fence @ '' and '' @
        fence @ ''py'' @ [CHR 0x0A] @ ''def hello(): print(12345678901234567890123456789012345678901234567890)'' @ fence,
      timestamp = 0, msg_context = None, metadata = None\<rparr>) q ''py'' ''def hello(): print(12345678901234567890123456789012345678901234567890)'' \<and>
      p < q)"
proof -
  let ?m = "\<lparr>msg_id = ''m'', role = Assistant,
      content = ''Create the spec, then:'' @ [CHR 0x0A] @
        fence @ ''ts'' @ [CHR 0x0A] @ ''function hello() { console.log(1234567890123456789012345); }'' @ [CHR 0x0A] @ fence @
        [CHR 0x0A] @ fence @ [CHR 0x0A] @ ''no language here, yet much longer than fifty characters in all'' @ fence @
        fence @ ''sh'' @ [CHR 0x0A] @ ''ls'' @ [CHR 0x0A] @ fence @ '' and '' @
        fence @ ''py'' @ [CHR 0x0A] @ ''def hello(): print(12345678901234567890123456789012345678901234567890)'' @ fence,
      timestamp = 0, msg_context = None, metadata = None\<rparr>"
  let ?segs = "[Prose (''Create the spec, then:'' @ [CHR 0x0A]),
      Block ''ts'' (''function hello() { console.log(1234567890123456789012345); }'' @ [CHR 0x0A]),
      Prose [CHR 0x0A],
      Block [] ''no language here, yet much longer than fifty characters in all'',
      Block ''sh'' (''ls'' @ [CHR 0x0A]),
      Prose '' and '',
      Block ''py'' ''def hello(): print(12345678901234567890123456789012345678901234567890)'']"
  let ?ts = "\<lparr>act_type = Create_file,
      payload = File_payload (''function hello() { console.log(1234567890123456789012345); }'' @ [CHR 0x0A]) ''ts'',
      description = ''Create ts file with this code''\<rparr>"
  let ?py = "\<lparr>act_type = Create_file,
      payload = File_payload ''def hello(): print(12345678901234567890123456789012345678901234567890)'' ''py'',
      description = ''Create py file with this code''\<rparr>"
  let ?spec = "\<lparr>act_type = Create_spec, payload = Empty_payload, description = ''Create a new feature spec''\<rparr>"
  have wf: "list_all well_formed ?segs"
    by (simp add: is_word_char_def startsWith_def fence_def)
  have eq: "content ?m = render_all ?segs"
    by (simp add: render_all_def)
  have mention: "str_includes (toLowerCase (content ?m)) ''create'' \<and>
                 str_includes (toLowerCase (content ?m)) ''spec''"
    by (simp add: toLowerCase_def to_lower_char_def char_of_eq_iff startsWith_def fence_def)
  note inst = extractActions_blocks_then_spec[of ?m]
  from inst have "list_all well_formed ?segs \<and> content ?m = render_all ?segs \<longrightarrow>
      extractActions ?m =
        concat (map block_action ?segs) @
        (if str_includes (toLowerCase (content ?m)) ''create'' \<and> str_includes (toLowerCase (content ?m)) ''spec''
         then [?spec] else [])"
    by blast
  with wf eq mention have ev: "extractActions ?m = [?ts, ?py, ?spec]"
    by simp
  from inst obtain blocks where
      acts: "extractActions ?m =
        map (\<lambda>(p, language, code).
               \<lparr>act_type = Create_file, payload = File_payload code language,
                description = ''Create '' @ language @ '' file with this code''\<rparr>) blocks @
        (if str_includes (toLowerCase (content ?m)) ''create'' \<and> str_includes (toLowerCase (content ?m)) ''spec''
         then [?spec] else [])"
    and stand: "\<forall>(p, language, code) \<in> set blocks.
         block_at (content ?m) p language code \<and> language \<noteq> [] \<and> list_all is_word_char language \<and>
         50 < length code"
    and ord: "sorted_wrt (\<lambda>(p, language, code) (q, language', code'). p + length language + length code + 7 \<le> q)
        blocks"
    by blast
  from acts mention ev
  have "map (\<lambda>(p, language, code).
               \<lparr>act_type = Create_file, payload = File_payload code language,
                description = ''Create '' @ language @ '' file with this code''\<rparr>) blocks = [?ts, ?py]"
    by simp
  then obtain p q where bl: "blocks = [(p, ''ts'', ''function hello() { console.log(1234567890123456789012345); }'' @ [CHR 0x0A]), (q, ''py'', ''def hello(): print(12345678901234567890123456789012345678901234567890)'')]"
    by (auto simp: map_eq_Cons_conv)
  from stand ord have pos: "block_at (content ?m) p ''ts'' (''function hello() { console.log(1234567890123456789012345); }'' @ [CHR 0x0A]) \<and>
      block_at (content ?m) q ''py'' ''def hello(): print(12345678901234567890123456789012345678901234567890)'' \<and> p < q"
    unfolding bl by simp
  have len: "Suc 2 = length (extractActions ?m)" unfolding ev by simp
  from pos have ex: "\<exists>p q. block_at (content ?m) p ''ts'' (''function hello() { console.log(1234567890123456789012345); }'' @ [CHR 0x0A]) \<and>
      block_at (content ?m) q ''py'' ''def hello(): print(12345678901234567890123456789012345678901234567890)'' \<and> p < q"
    by blast
  show ?thesis by (intro conjI) (rule wf eq ev len ex)+
qed

text \<open>
  Claim C8 as stated fails on the order: in a text that opens with \<open>Create a spec\<close>
  and holds a code block further on, the \<open>create_file\<close> action comes first and the
  \<open>create_spec\<close> action second.
\<close>

theorem extractActions_order_counterexample:
  "take 13 (toLowerCase (content
     \<lparr>msg_id = ''m'', role = Assistant,
      content = ''Create a spec first.'' @ [CHR 0x0A] @ fence @ ''ts'' @ [CHR 0x0A] @
        ''function hello() { console.log(1234567890123456789012345); }'' @ [CHR 0x0A] @ fence,
      timestamp = 0, msg_context = None, metadata = None\<rparr>)) = ''create a spec'' \<and>
   extractActions
     \<lparr>msg_id = ''m'', role = Assistant,
      content = ''Create a spec first.'' @ [CHR 0x0A] @ fence @ ''ts'' @ [CHR 0x0A] @
        ''function hello() { console.log(1234567890123456789012345); }'' @ [CHR 0x0A] @ fence,
      timestamp = 0, msg_context = None, metadata = None\<rparr> =
   [\<lparr>act_type = Create_file,
     payload = File_payload (''function hello() { console.log(1234567890123456789012345); }'' @ [CHR 0x0A]) ''ts'',
     description = ''Create ts file with this code''\<rparr>,
    \<lparr>act_type = Create_spec, payload = Empty_payload, description = ''Create a new feature spec''\<rparr>]"
  by (simp add: extractActions_def match_code_block_def is_word_char_def Let_def
      toLowerCase_def to_lower_char_def char_of_eq_iff startsWith_def fence_def)

text \<open>
  The pattern does not read every fenced block. A language identifier that holds another
  character than a word character, as \<open>c++\<close> does, makes the attempt at the opening
  fence fail. The closing fence followed by a newline is then taken for an opening fence
  without a language: the prose up to the next fence is read as its code, and the block
  that this fence opens is missed, whatever its language and its length. A \<open>c++\<close>
  block alone yields no action either.
\<close>

lemma extractActions_misses_blocks:
  "code_block_matches
     (fence @ ''c++'' @ [CHR 0x0A] @
        ''int main() { std::cout << 1234567890123456789012345678; return 0; }'' @ [CHR 0x0A] @ fence @
        [CHR 0x0A] @ ''And in Python:'' @ [CHR 0x0A] @
        fence @ ''python'' @ [CHR 0x0A] @
        ''def hello(): print(12345678901234567890123456789012345678901234567890)'' @ [CHR 0x0A] @ fence) =
     [([], ''And in Python:'' @ [CHR 0x0A])] \<and>
   extractActions
     \<lparr>msg_id = ''m'', role = Assistant,
      content = fence @ ''c++'' @ [CHR 0x0A] @
        ''int main() { std::cout << 1234567890123456789012345678; return 0; }'' @ [CHR 0x0A] @ fence @
        [CHR 0x0A] @ ''And in Python:'' @ [CHR 0x0A] @
        fence @ ''python'' @ [CHR 0x0A] @
        ''def hello(): print(12345678901234567890123456789012345678901234567890)'' @ [CHR 0x0A] @ fence,
      timestamp = 0, msg_context = None, metadata = None\<rparr> = [] \<and>
   extractActions
     \<lparr>msg_id = ''m'', role = Assistant,
      content = fence @ ''c++'' @ [CHR 0x0A] @
        ''int main() { std::cout << 1234567890123456789012345678; return 0; }'' @ [CHR 0x0A] @ fence,
      timestamp = 0, msg_context = None, metadata = None\<rparr> = []"
  by (simp add: extractActions_def match_code_block_def is_word_char_def Let_def
      toLowerCase_def to_lower_char_def char_of_eq_iff startsWith_def fence_def)

end
